theory Spec2Isabelle
  imports Complex_Main
begin

section \<open>JavaScript numbers\<close>

text \<open>
  A JavaScript number is an IEEE-754 double: a finite value, one of the two infinities,
  or NaN. The finite values are modelled by the real they denote, so the two signed
  zeros are identified (as the comparison \<^verbatim>\<open>===\<close> does). Rounding is not fixed by the
  model: every arithmetic result is passed through \<open>rnd64\<close>, and every store into a
  \<^verbatim>\<open>Float32Array\<close> through \<open>rnd32\<close>; both may overflow to an infinity.
\<close>

datatype num = Fin real | PInf | NInf | NaN

record fpenv =
  rnd64 :: "real \<Rightarrow> num"
  rnd32 :: "real \<Rightarrow> num"

definition num_neg :: "num \<Rightarrow> num" where
  "num_neg v = (case v of Fin x \<Rightarrow> Fin (- x) | PInf \<Rightarrow> NInf | NInf \<Rightarrow> PInf | NaN \<Rightarrow> NaN)"

definition inf_times :: "num \<Rightarrow> real \<Rightarrow> num" where
  "inf_times i x = (if x = 0 then NaN else if 0 < x then i else num_neg i)"

fun fmul :: "fpenv \<Rightarrow> num \<Rightarrow> num \<Rightarrow> num" where
  "fmul fp NaN _ = NaN"
| "fmul fp _ NaN = NaN"
| "fmul fp (Fin x) (Fin y) = rnd64 fp (x * y)"
| "fmul fp (Fin x) PInf = inf_times PInf x"
| "fmul fp (Fin x) NInf = inf_times NInf x"
| "fmul fp PInf (Fin y) = inf_times PInf y"
| "fmul fp NInf (Fin y) = inf_times NInf y"
| "fmul fp PInf PInf = PInf"
| "fmul fp NInf NInf = PInf"
| "fmul fp PInf NInf = NInf"
| "fmul fp NInf PInf = NInf"

fun fadd :: "fpenv \<Rightarrow> num \<Rightarrow> num \<Rightarrow> num" where
  "fadd fp NaN _ = NaN"
| "fadd fp _ NaN = NaN"
| "fadd fp (Fin x) (Fin y) = rnd64 fp (x + y)"
| "fadd fp PInf NInf = NaN"
| "fadd fp NInf PInf = NaN"
| "fadd fp PInf _ = PInf"
| "fadd fp _ PInf = PInf"
| "fadd fp NInf _ = NInf"
| "fadd fp _ NInf = NInf"



text \<open>Storing a number into a \<^verbatim>\<open>Float32Array\<close> slot rounds it to single precision.\<close>

definition f32 :: "fpenv \<Rightarrow> num \<Rightarrow> num" where
  "f32 fp v = (case v of Fin x \<Rightarrow> rnd32 fp x | _ \<Rightarrow> v)"

text \<open>
  Reading a typed array outside its bounds yields \<^verbatim>\<open>undefined\<close>, which arithmetic
  converts to NaN.
\<close>

definition rd :: "num list \<Rightarrow> nat \<Rightarrow> num" where
  "rd a k = (if k < length a then a ! k else NaN)"

text \<open>A finite number that both roundings leave unchanged.\<close>

definition exact :: "fpenv \<Rightarrow> num \<Rightarrow> bool" where
  "exact fp v = (case v of Fin x \<Rightarrow> rnd64 fp x = Fin x \<and> rnd32 fp x = Fin x | _ \<Rightarrow> False)"

definition ideal_fp :: fpenv where
  "ideal_fp = \<lparr> rnd64 = Fin, rnd32 = Fin \<rparr>"

section \<open>UniformManager: matrix helpers\<close>

text \<open>\<^verbatim>\<open>UniformManager.createIdentityMatrix\<close>: a fresh \<^verbatim>\<open>Float32Array\<close> of 16 entries.\<close>

definition createIdentityMatrix :: "fpenv \<Rightarrow> num list" where
  "createIdentityMatrix fp = map (f32 fp)
     [Fin 1, Fin 0, Fin 0, Fin 0,
      Fin 0, Fin 1, Fin 0, Fin 0,
      Fin 0, Fin 0, Fin 1, Fin 0,
      Fin 0, Fin 0, Fin 0, Fin 1]"

text \<open>
  \<^verbatim>\<open>UniformManager.multiplyMatrices\<close>: the result array starts as 16 zeros; the two
  nested loops over \<open>i\<close> and \<open>j\<close> store the four-term sum at index \<open>i * 4 + j\<close>.
\<close>

definition mul_entry :: "fpenv \<Rightarrow> num list \<Rightarrow> num list \<Rightarrow> nat \<Rightarrow> nat \<Rightarrow> num" where
  "mul_entry fp a b i j =
     fadd fp (fadd fp (fadd fp
       (fmul fp (rd a (i * 4 + 0)) (rd b (0 * 4 + j)))
       (fmul fp (rd a (i * 4 + 1)) (rd b (1 * 4 + j))))
       (fmul fp (rd a (i * 4 + 2)) (rd b (2 * 4 + j))))
       (fmul fp (rd a (i * 4 + 3)) (rd b (3 * 4 + j)))"

definition multiplyMatrices :: "fpenv \<Rightarrow> num list \<Rightarrow> num list \<Rightarrow> num list" where
  "multiplyMatrices fp a b =
     foldl (\<lambda>result i.
        foldl (\<lambda>result j. result[i * 4 + j := f32 fp (mul_entry fp a b i j)]) result [0..<4])
       (replicate 16 (Fin 0)) [0..<4]"


section \<open>Native graphics objects\<close>

text \<open>
  Objects handed out by the browser's graphics API. Each carries the identity the device
  gave it and the parts of its descriptor the library forwards. A texture either comes
  from \<^verbatim>\<open>device.createTexture\<close> or is the canvas's current texture; a view is always a
  view of one texture.
\<close>

datatype GPUTexture = DeviceTexture nat string | CanvasTexture nat

datatype GPUTextureView = GPUTextureView GPUTexture

datatype GPUBuffer = GPUBuffer nat string int

datatype GPUSampler = GPUSampler nat string

datatype GPUShaderModule = GPUShaderModule nat string string

datatype GPUBindGroupLayout = GPUBindGroupLayout nat string

datatype GPUPipelineLayout = GPUPipelineLayout nat string "GPUBindGroupLayout list"

datatype GPURenderPipeline =
  GPURenderPipeline nat string GPUPipelineLayout GPUShaderModule GPUShaderModule bool

datatype resource =
  BufferBinding "GPUBuffer option" | ViewBinding GPUTextureView | SamplerBinding GPUSampler

datatype GPUBindGroup =
  GPUBindGroup nat "string option" GPUBindGroupLayout "(nat \<times> resource) list"

text \<open>Commands recorded on a render pass, and a recorded render pass.\<close>

datatype cmd =
  SetPipeline GPURenderPipeline
| SetBindGroup nat GPUBindGroup
| SetVertexBuffer nat GPUBuffer
| SetIndexBuffer GPUBuffer
| DrawIndexed nat

record GPURenderPass =
  pass_label :: string
  colorView :: GPUTextureView
  depthView :: "GPUTextureView option"
  commands :: "cmd list"

text \<open>
  The calls the library makes on the device, its queue and its buffers, with the
  arguments it forwards. The device keeps them in the order they were made.
\<close>

datatype api =
  CreateBuffer string int bool
| MappedInit GPUBuffer "nat list"
| CreateTexture string
| CreateSampler string
| CreateShaderModule string string
| CreateBindGroupLayout string
| CreateBindGroup "string option" "(nat \<times> resource) list"
| CreatePipelineLayout string
| CreateRenderPipeline string
| QueueWriteBuffer GPUBuffer int "num list"
| CopyExternalImageToTexture GPUTexture
| CreateCommandEncoder string
| QueueSubmit "GPURenderPass list"

text \<open>How a call ended: it threw, it returned nothing, or it returned a new object.\<close>

datatype outcome = Threw | Done | Made nat

datatype msgtype = MsgError | MsgWarning | MsgInfo

text \<open>
  The device: the next object identity, the calls made so far (each with how it
  ended), and what the library cannot know in
  advance: which call throws (\<open>fails n c\<close>: the call \<open>c\<close>, made after \<open>n\<close> earlier
  calls, throws) and the messages the compiler reports for a shader text.
\<close>

record GPUDevice =
  nextId :: nat
  calls :: "(api \<times> outcome) list"
  fails :: "nat \<Rightarrow> api \<Rightarrow> bool"
  compilationInfo :: "string \<Rightarrow> msgtype list"

text \<open>The canvas context: how many textures it has handed out, and when it throws.\<close>

record GPUCanvasContext =
  served :: nat
  unavailable :: "nat \<Rightarrow> bool"

section \<open>The JavaScript runtime\<close>

datatype exn = TypeError | RangeError | OperationError api | JsError string

datatype logline = ConsoleError string | ConsoleWarn string

text \<open>
  What the browser answers when \<^verbatim>\<open>WebGPUContext.initialize\<close> asks: whether
  \<^verbatim>\<open>navigator.gpu\<close> exists, the adapter request (rejected, null or an adapter), the
  device request (rejected, null or a device), the canvas's \<^verbatim>\<open>webgpu\<close> context, whether
  \<^verbatim>\<open>configure\<close> throws, the size of the image a URL loads (none: the load fails), the
  size of the video a URL loads, what \<^verbatim>\<open>Date.now()\<close> returns, and which command a render
  pass refuses by throwing.
\<close>

record Browser =
  navigator_gpu :: bool
  requestAdapter :: "exn + bool"
  requestDevice :: "exn + GPUDevice option"
  getContext :: "GPUCanvasContext option"
  configure_throws :: bool
  loadImage :: "string \<Rightarrow> (nat \<times> nat) option"
  loadVideo :: "string \<Rightarrow> (nat \<times> nat) option"
  date_now :: nat
  rejects :: "cmd \<Rightarrow> bool"

section \<open>The classes' state\<close>

text \<open>\<^verbatim>\<open>WebGPUContext\<close>. The field \<open>canvasContext\<close> is the source's \<^verbatim>\<open>context\<close>.\<close>

record WebGPUContext =
  canvasWidth :: num
  canvasHeight :: num
  adapter :: bool
  device :: "GPUDevice option"
  canvasContext :: "GPUCanvasContext option"

record UniformManager =
  uniformBuffers :: "string \<rightharpoonup> GPUBuffer"
  bindGroups :: "string \<rightharpoonup> GPUBindGroup"
  uniformLayouts :: "string \<rightharpoonup> GPUBindGroupLayout"

record ShaderManager =
  shaderModules :: "string \<rightharpoonup> GPUShaderModule"
  pipelines :: "string \<rightharpoonup> GPURenderPipeline"
  bindGroupLayouts :: "string \<rightharpoonup> GPUBindGroupLayout"

record TextureManager =
  textures :: "string \<rightharpoonup> GPUTexture"
  samplers :: "string \<rightharpoonup> GPUSampler"
  imageCache :: "string \<rightharpoonup> nat \<times> nat"
  videoCache :: "string \<rightharpoonup> nat \<times> nat"

text \<open>
  The objects every class of the library reaches: the console (error and warning lines
  only), the clock, the arithmetic, the browser, and the context and the three managers
  that \<^verbatim>\<open>Podium\<close> creates once and shares. The field \<open>gpu\<close> is the source's
  \<^verbatim>\<open>context\<close> (a \<^verbatim>\<open>WebGPUContext\<close>).
\<close>

record Core =
  console :: "logline list"
  performance_now :: num
  arith :: fpenv
  browser :: Browser
  gpu :: WebGPUContext
  shaderManager :: ShaderManager
  textureManager :: TextureManager
  uniformManager :: UniformManager

section \<open>Control flow: results, exceptions, try and catch\<close>

text \<open>
  A method takes the state and returns the state it leaves, with either the value it
  returns (\<open>Inr\<close>) or the exception it throws to its caller (\<open>Inl\<close>).
\<close>

type_synonym ('s, 'a) js = "'s \<Rightarrow> (exn + 'a) \<times> 's"

definition js_return :: "'a \<Rightarrow> ('s, 'a) js" where
  "js_return x s = (Inr x, s)"

definition js_throw :: "exn \<Rightarrow> ('s, 'a) js" where
  "js_throw e s = (Inl e, s)"

definition js_bind :: "('s, 'a) js \<Rightarrow> ('a \<Rightarrow> ('s, 'b) js) \<Rightarrow> ('s, 'b) js" where
  "js_bind m f s = (case m s of (Inl e, s') \<Rightarrow> (Inl e, s') | (Inr x, s') \<Rightarrow> f x s')"

definition js_catch :: "('s, 'a) js \<Rightarrow> (exn \<Rightarrow> ('s, 'a) js) \<Rightarrow> ('s, 'a) js" where
  "js_catch m h s = (case m s of (Inl e, s') \<Rightarrow> h e s' | (Inr x, s') \<Rightarrow> (Inr x, s'))"

definition js_get :: "('s \<Rightarrow> 'a) \<Rightarrow> ('s, 'a) js" where
  "js_get f s = (Inr (f s), s)"

definition js_modify :: "('s \<Rightarrow> 's) \<Rightarrow> ('s, unit) js" where
  "js_modify f s = (Inr (), f s)"

definition js_lift :: "exn + 'a \<Rightarrow> ('s, 'a) js" where
  "js_lift r s = (r, s)"

definition console_error :: "string \<Rightarrow> ('a Core_scheme, unit) js" where
  "console_error msg = js_modify (\<lambda>s. s\<lparr>console := console s @ [ConsoleError msg]\<rparr>)"

definition console_warn :: "string \<Rightarrow> ('a Core_scheme, unit) js" where
  "console_warn msg = js_modify (\<lambda>s. s\<lparr>console := console s @ [ConsoleWarn msg]\<rparr>)"

definition set_device :: "GPUDevice option \<Rightarrow> 'a Core_scheme \<Rightarrow> 'a Core_scheme" where
  "set_device d s = s\<lparr>gpu := (gpu s)\<lparr>device := d\<rparr>\<rparr>"

text \<open>
  A call on \<^verbatim>\<open>this.context.device\<close>: a null device is a \<^verbatim>\<open>TypeError\<close>; otherwise the
  call is recorded and either throws or succeeds. \<open>native_new\<close> is a call that creates an
  object and returns its identity, \<open>native_do\<close> one that returns nothing.
\<close>

definition native_new :: "api \<Rightarrow> ('a Core_scheme, nat) js" where
  "native_new c s =
     (case device (gpu s) of
        None \<Rightarrow> (Inl TypeError, s)
      | Some d \<Rightarrow>
          if fails d (length (calls d)) c
          then (Inl (OperationError c),
                set_device (Some (d\<lparr>calls := calls d @ [(c, Threw)]\<rparr>)) s)
          else (Inr (nextId d),
                set_device (Some (d\<lparr>nextId := Suc (nextId d),
                                      calls := calls d @ [(c, Made (nextId d))]\<rparr>)) s))"

definition native_do :: "api \<Rightarrow> ('a Core_scheme, unit) js" where
  "native_do c s =
     (case device (gpu s) of
        None \<Rightarrow> (Inl TypeError, s)
      | Some d \<Rightarrow>
          if fails d (length (calls d)) c
          then (Inl (OperationError c),
                set_device (Some (d\<lparr>calls := calls d @ [(c, Threw)]\<rparr>)) s)
          else (Inr (), set_device (Some (d\<lparr>calls := calls d @ [(c, Done)]\<rparr>)) s))"

text \<open>\<^verbatim>\<open>texture.createView()\<close>; on \<^verbatim>\<open>null\<close> it is a \<^verbatim>\<open>TypeError\<close>.\<close>

definition createView :: "GPUTexture option \<Rightarrow> ('s, GPUTextureView) js" where
  "createView t = (case t of None \<Rightarrow> js_throw TypeError | Some x \<Rightarrow> js_return (GPUTextureView x))"

text \<open>A command recorded on an open render pass; the pass may refuse it by throwing.\<close>

definition record_cmd :: "cmd \<Rightarrow> GPURenderPass \<Rightarrow> ('a Core_scheme, GPURenderPass) js" where
  "record_cmd c rp s =
     (if rejects (browser s) c then (Inl TypeError, s)
      else (Inr (rp\<lparr>commands := commands rp @ [c]\<rparr>), s))"


text \<open>
  A JavaScript \<^verbatim>\<open>Map\<close> whose order matters: the entries in insertion order. Setting a
  key that is present replaces its value where it stands; a new key goes to the end.
\<close>

definition jsmap_get :: "('k \<times> 'v) list \<Rightarrow> 'k \<Rightarrow> 'v option" where
  "jsmap_get m k = map_of m k"

fun jsmap_set :: "'k \<Rightarrow> 'v \<Rightarrow> ('k \<times> 'v) list \<Rightarrow> ('k \<times> 'v) list" where
  "jsmap_set k v [] = [(k, v)]"
| "jsmap_set k v ((k', v') # m) =
     (if k = k' then (k, v) # m else (k', v') # jsmap_set k v m)"

definition jsmap_values :: "('k \<times> 'v) list \<Rightarrow> 'v list" where
  "jsmap_values m = map snd m"

text \<open>A non-negative integer in a template string.\<close>

function decimal :: "nat \<Rightarrow> string" where
  "decimal n = (if n < 10 then [''0123456789'' ! n]
                else decimal (n div 10) @ [''0123456789'' ! (n mod 10)])"
  by pat_completeness auto
termination
  by (relation "measure id") auto


section \<open>UniformManager\<close>

text \<open>
  A \<^verbatim>\<open>UniformData\<close> (and an \<^verbatim>\<open>EffectOptions\<close>) object: its own keys and their
  values. \<open>JsOther\<close> stands for every value that is neither a number, a
  \<^verbatim>\<open>Float32Array\<close> nor a pair of numbers.
\<close>

datatype jsval = JsNumber num | JsFloat32Array "num list" | JsPair num num | JsOther

type_synonym UniformData = "string \<rightharpoonup> jsval"

text \<open>\<^verbatim>\<open>Math.max(Math.ceil(size / 256) * 256, 256)\<close>\<close>

definition alignedSize :: "int \<Rightarrow> int" where
  "alignedSize sz = max ((- ((- sz) div 256)) * 256) 256"

text \<open>\<^verbatim>\<open>view.set(src, offset)\<close> on a typed array: a source that does not fit throws.\<close>

definition typed_set :: "'a list \<Rightarrow> 'a list \<Rightarrow> nat \<Rightarrow> exn + 'a list" where
  "typed_set view src off =
     (if off + length src > length view then Inl RangeError
      else Inr (take off view @ src @ drop (off + length src) view))"

definition createUniformBuffer ::
  "string \<Rightarrow> int \<Rightarrow> nat list option \<Rightarrow> ('a Core_scheme, GPUBuffer option) js" where
  "createUniformBuffer label sz initialData s =
     (if device (gpu s) = None
      then js_bind (console_error ''WebGPU device not available'') (\<lambda>_. js_return None) s
      else js_catch
        (js_bind (native_new (CreateBuffer label (alignedSize sz) (initialData \<noteq> None))) (\<lambda>i.
           let buffer = GPUBuffer i label (alignedSize sz) in
           js_bind (case initialData of
                      None \<Rightarrow> js_return ()
                    | Some bytes \<Rightarrow>
                        if int (length bytes) > alignedSize sz then js_throw RangeError
                        else native_do (MappedInit buffer bytes)) (\<lambda>_.
           js_bind (js_modify (uniformManager_update
                      (uniformBuffers_update (\<lambda>m. m(label \<mapsto> buffer))))) (\<lambda>_.
           js_return (Some buffer)))))
        (\<lambda>error. js_bind (console_error (''Error creating uniform buffer '' @ label))
           (\<lambda>_. js_return None)) s)"

text \<open>
  \<^verbatim>\<open>serializeUniformData\<close>: a fresh 96-byte buffer seen as 24 single-precision slots,
  all zero. Slots 0 to 15 receive \<^verbatim>\<open>data.mvpMatrix\<close> when it is a \<^verbatim>\<open>Float32Array\<close>, the
  identity matrix otherwise; slot 16 receives \<^verbatim>\<open>data.time\<close> when it is a number. No
  other key of \<open>data\<close> is read.
\<close>

definition serializeUniformData :: "fpenv \<Rightarrow> UniformData \<Rightarrow> exn + num list" where
  "serializeUniformData fp data =
     (case (case data ''mvpMatrix'' of
              Some (JsFloat32Array m) \<Rightarrow> typed_set (replicate 24 (Fin 0)) m 0
            | _ \<Rightarrow> typed_set (replicate 24 (Fin 0)) (createIdentityMatrix fp) 0) of
        Inl e \<Rightarrow> Inl e
      | Inr view \<Rightarrow>
          Inr (case data ''time'' of
                 Some (JsNumber t) \<Rightarrow> view[16 := f32 fp t]
               | _ \<Rightarrow> view))"

definition updateUniformBuffer ::
  "string \<Rightarrow> UniformData \<Rightarrow> int \<Rightarrow> ('a Core_scheme, bool) js" where
  "updateUniformBuffer bufferLabel data offset s =
     (case (uniformBuffers (uniformManager s) bufferLabel, device (gpu s)) of
        (Some buffer, Some d) \<Rightarrow>
          js_catch
            (js_bind (js_lift (serializeUniformData (arith s) data)) (\<lambda>serializedData.
             js_bind (native_do (QueueWriteBuffer buffer offset serializedData)) (\<lambda>_.
             js_return True)))
            (\<lambda>error. js_bind (console_error (''Error updating uniform buffer '' @ bufferLabel))
               (\<lambda>_. js_return False)) s
      | _ \<Rightarrow>
          js_bind (console_error (''Uniform buffer '' @ bufferLabel @ '' not found''))
            (\<lambda>_. js_return False) s)"

text \<open>\<^verbatim>\<open>createStandardUniformLayout\<close> has no \<^verbatim>\<open>try\<close>: a throwing device call propagates.\<close>

definition createStandardUniformLayout :: "('a Core_scheme, GPUBindGroupLayout option) js" where
  "createStandardUniformLayout s =
     (if device (gpu s) = None then js_return None s
      else js_bind (native_new (CreateBindGroupLayout ''standard_uniform_layout'')) (\<lambda>i.
             let layout = GPUBindGroupLayout i ''standard_uniform_layout'' in
             js_bind (js_modify (uniformManager_update
                        (uniformLayouts_update (\<lambda>m. m(''standard'' \<mapsto> layout))))) (\<lambda>_.
             js_return (Some layout))) s)"

definition createUniformBindGroup ::
  "string \<Rightarrow> GPUBindGroupLayout \<Rightarrow> GPUBuffer \<Rightarrow> GPUTexture option \<Rightarrow> GPUSampler option
     \<Rightarrow> ('a Core_scheme, GPUBindGroup option) js" where
  "createUniformBindGroup label layout uniformBuffer texture sampler s =
     (if device (gpu s) = None then js_return None s
      else js_catch
        (let entries =
               [(0, BufferBinding (Some uniformBuffer))]
               @ (case texture of None \<Rightarrow> [] | Some t \<Rightarrow> [(1, ViewBinding (GPUTextureView t))])
               @ (case sampler of None \<Rightarrow> [] | Some x \<Rightarrow> [(2, SamplerBinding x)]) in
         js_bind (native_new (CreateBindGroup (Some label) entries)) (\<lambda>i.
           let bindGroup = GPUBindGroup i (Some label) layout entries in
           js_bind (js_modify (uniformManager_update
                      (bindGroups_update (\<lambda>m. m(label \<mapsto> bindGroup))))) (\<lambda>_.
           js_return (Some bindGroup))))
        (\<lambda>error. js_bind (console_error (''Error creating bind group '' @ label))
           (\<lambda>_. js_return None)) s)"

definition getUniformBuffer :: "string \<Rightarrow> ('a Core_scheme, GPUBuffer option) js" where
  "getUniformBuffer label = js_get (\<lambda>s. uniformBuffers (uniformManager s) label)"

definition getBindGroup :: "string \<Rightarrow> ('a Core_scheme, GPUBindGroup option) js" where
  "getBindGroup label = js_get (\<lambda>s. bindGroups (uniformManager s) label)"

definition getUniformLayout :: "string \<Rightarrow> ('a Core_scheme, GPUBindGroupLayout option) js" where
  "getUniformLayout label = js_get (\<lambda>s. uniformLayouts (uniformManager s) label)"

text \<open>\<^verbatim>\<open>destroy\<close>: the buffers are destroyed (the objects stay) and the three maps cleared.\<close>

definition UniformManager_destroy :: "('a Core_scheme, unit) js" where
  "UniformManager_destroy =
     js_modify (uniformManager_update (\<lambda>m. \<lparr>uniformBuffers = Map.empty, bindGroups = Map.empty,
                  uniformLayouts = Map.empty\<rparr>))"

section \<open>TextureManager\<close>

text \<open>\<^verbatim>\<open>x || d\<close> for an optional string: absent and empty both give the default.\<close>

definition or_default :: "string option \<Rightarrow> string \<Rightarrow> string" where
  "or_default x d = (case x of None \<Rightarrow> d | Some l \<Rightarrow> if l = [] then d else l)"

record TextureOptions =
  tex_label :: "string option"
  generateMips :: bool

definition createSampler :: "string \<Rightarrow> ('a Core_scheme, GPUSampler option) js" where
  "createSampler label s =
     (if device (gpu s) = None then js_return None s
      else js_catch
        (js_bind (native_new (CreateSampler label)) (\<lambda>i.
           let sampler = GPUSampler i label in
           js_bind (js_modify (textureManager_update
                      (samplers_update (\<lambda>m. m(label \<mapsto> sampler))))) (\<lambda>_.
           js_return (Some sampler))))
        (\<lambda>error. js_bind (console_error (''Error creating sampler '' @ label))
           (\<lambda>_. js_return None)) s)"

definition createTextureFromImage ::
  "nat \<times> nat \<Rightarrow> TextureOptions \<Rightarrow> ('a Core_scheme, GPUTexture option) js" where
  "createTextureFromImage img options s =
     (if device (gpu s) = None then js_return None s
      else js_catch
        (js_bind (native_new (CreateTexture (or_default (tex_label options) ''image_texture''))) (\<lambda>i.
           let texture = DeviceTexture i (or_default (tex_label options) ''image_texture'') in
           js_bind (native_do (CopyExternalImageToTexture texture)) (\<lambda>_.
           js_return (Some texture))))
        (\<lambda>error. js_bind (console_error ''Error creating texture from image'')
           (\<lambda>_. js_return None)) s)"

definition createTextureFromVideo ::
  "nat \<times> nat \<Rightarrow> TextureOptions \<Rightarrow> ('a Core_scheme, GPUTexture option) js" where
  "createTextureFromVideo video options s =
     (if device (gpu s) = None then js_return None s
      else js_catch
        (js_bind (native_new (CreateTexture (or_default (tex_label options) ''video_texture''))) (\<lambda>i.
           let texture = DeviceTexture i (or_default (tex_label options) ''video_texture'') in
           js_bind (js_catch (native_do (CopyExternalImageToTexture texture))
                      (\<lambda>error. console_error ''Error updating video texture'')) (\<lambda>_.
           js_return (Some texture))))
        (\<lambda>error. js_bind (console_error ''Error creating texture from video'')
           (\<lambda>_. js_return None)) s)"

definition loadImageTexture ::
  "string \<Rightarrow> TextureOptions \<Rightarrow> ('a Core_scheme, GPUTexture option) js" where
  "loadImageTexture url options s =
     (if device (gpu s) = None
      then js_bind (console_error ''WebGPU device not available'') (\<lambda>_. js_return None) s
      else js_catch
        (js_bind (\<lambda>s. case imageCache (textureManager s) url of
                      Some img \<Rightarrow> js_return img s
                    | None \<Rightarrow>
                        (case loadImage (browser s) url of
                           None \<Rightarrow> js_throw (JsError ''image load failed'') s
                         | Some img \<Rightarrow>
                             js_bind (js_modify (textureManager_update
                                        (imageCache_update (\<lambda>m. m(url \<mapsto> img)))))
                               (\<lambda>_. js_return img) s)) (\<lambda>img.
         js_bind (createTextureFromImage img options) (\<lambda>texture.
         js_bind (case texture of
                    None \<Rightarrow> js_return ()
                  | Some t \<Rightarrow> js_modify (textureManager_update
                                (textures_update (\<lambda>m. m(url \<mapsto> t))))) (\<lambda>_.
         js_return texture))))
        (\<lambda>error. js_bind (console_error (''Error loading image texture from '' @ url))
           (\<lambda>_. js_return None)) s)"

text \<open>
  \<^verbatim>\<open>loadVideoTexture\<close>: the source is a video element (here its size) or a URL. A URL is
  looked up in the video cache and loaded when absent; an element gets the key
  \<^verbatim>\<open>video_\<close> followed by \<^verbatim>\<open>Date.now()\<close>. The options' \<^verbatim>\<open>loop\<close>, \<^verbatim>\<open>muted\<close> and \<^verbatim>\<open>autoplay\<close>
  only set up the element.
\<close>

datatype video_source = VideoElement "nat \<times> nat" | VideoUrl string

definition loadVideoTexture ::
  "video_source \<Rightarrow> TextureOptions \<Rightarrow> ('a Core_scheme, GPUTexture option) js" where
  "loadVideoTexture source options s =
     (if device (gpu s) = None
      then js_bind (console_error ''WebGPU device not available'') (\<lambda>_. js_return None) s
      else js_catch
        (js_bind (case source of
                    VideoUrl url \<Rightarrow>
                      (\<lambda>s. case videoCache (textureManager s) url of
                             Some video \<Rightarrow> js_return (video, url) s
                           | None \<Rightarrow>
                               (case loadVideo (browser s) url of
                                  None \<Rightarrow> js_throw (JsError ''video load failed'') s
                                | Some video \<Rightarrow>
                                    js_bind (js_modify (textureManager_update
                                               (videoCache_update (\<lambda>m. m(url \<mapsto> video)))))
                                      (\<lambda>_. js_return (video, url)) s))
                  | VideoElement video \<Rightarrow>
                      js_bind (js_get (\<lambda>s. date_now (browser s))) (\<lambda>now.
                      js_return (video, ''video_'' @ decimal now))) (\<lambda>vk.
         js_bind (createTextureFromVideo (fst vk) options) (\<lambda>texture.
         js_bind (case texture of
                    None \<Rightarrow> js_return ()
                  | Some t \<Rightarrow> js_modify (textureManager_update
                                (textures_update (\<lambda>m. m(snd vk \<mapsto> t))))) (\<lambda>_.
         js_return texture))))
        (\<lambda>error. js_bind (console_error ''Error loading video texture'')
           (\<lambda>_. js_return None)) s)"

definition createRenderTarget :: "string option \<Rightarrow> ('a Core_scheme, GPUTexture option) js" where
  "createRenderTarget label s =
     (if device (gpu s) = None then js_return None s
      else js_catch
        (js_bind (native_new (CreateTexture (or_default label ''render_target''))) (\<lambda>i.
           js_return (Some (DeviceTexture i (or_default label ''render_target'')))))
        (\<lambda>error. js_bind (console_error ''Error creating render target'')
           (\<lambda>_. js_return None)) s)"

definition getOrCreateDefaultSampler :: "('a Core_scheme, GPUSampler) js" where
  "getOrCreateDefaultSampler s =
     (case samplers (textureManager s) ''default'' of
        Some sampler \<Rightarrow> js_return sampler s
      | None \<Rightarrow>
          js_bind (createSampler ''default'') (\<lambda>r.
            case r of
              None \<Rightarrow> js_throw (JsError ''Failed to create default sampler'')
            | Some sampler \<Rightarrow> js_return sampler) s)"

definition createTextureBindGroup ::
  "GPUBindGroupLayout \<Rightarrow> GPUTexture \<Rightarrow> GPUSampler option \<Rightarrow> string option
     \<Rightarrow> ('a Core_scheme, GPUBindGroup option) js" where
  "createTextureBindGroup layout texture sampler label s =
     (if device (gpu s) = None then js_return None s
      else js_catch
        (js_bind (case sampler of
                    Some x \<Rightarrow> js_return x
                  | None \<Rightarrow> getOrCreateDefaultSampler) (\<lambda>textureSampler.
           let entries = [(0, ViewBinding (GPUTextureView texture)),
                          (1, SamplerBinding textureSampler)] in
           js_bind (native_new (CreateBindGroup label entries)) (\<lambda>i.
           js_return (Some (GPUBindGroup i label layout entries)))))
        (\<lambda>error. js_bind (console_error ''Error creating texture bind group'')
           (\<lambda>_. js_return None)) s)"

definition getTexture :: "string \<Rightarrow> ('a Core_scheme, GPUTexture option) js" where
  "getTexture key = js_get (\<lambda>s. textures (textureManager s) key)"

definition getSampler :: "string \<Rightarrow> ('a Core_scheme, GPUSampler option) js" where
  "getSampler key = js_get (\<lambda>s. samplers (textureManager s) key)"

definition TextureManager_destroy :: "('a Core_scheme, unit) js" where
  "TextureManager_destroy =
     js_modify (textureManager_update (\<lambda>m. \<lparr>textures = Map.empty, samplers = Map.empty,
                  imageCache = Map.empty, videoCache = Map.empty\<rparr>))"

section \<open>ShaderManager\<close>

record ShaderSource =
  vertex :: string
  fragment :: string

text \<open>
  The pipeline options that decide what \<^verbatim>\<open>createPipeline\<close> does; the vertex layouts,
  topology, culling and blending are copied into the descriptor unread.
\<close>

record PipelineOptions =
  opt_bindGroupLayouts :: "GPUBindGroupLayout list option"
  opt_depthTest :: bool

text \<open>
  \<^verbatim>\<open>createShaderModule\<close>. The compilation messages it asks for are printed later, from
  a promise callback, as warnings; that callback is outside this model.
\<close>

definition createShaderModule ::
  "string \<Rightarrow> string \<Rightarrow> ('a Core_scheme, GPUShaderModule option) js" where
  "createShaderModule label source s =
     (if device (gpu s) = None
      then js_bind (console_error ''WebGPU device not available'') (\<lambda>_. js_return None) s
      else js_catch
        (js_bind (native_new (CreateShaderModule label source)) (\<lambda>i.
           let shaderModule = GPUShaderModule i label source in
           js_bind (js_modify (shaderManager_update
                      (shaderModules_update (\<lambda>m. m(label \<mapsto> shaderModule))))) (\<lambda>_.
           js_return (Some shaderModule))))
        (\<lambda>error. js_bind (console_error (''Error creating shader module '' @ label))
           (\<lambda>_. js_return None)) s)"

definition createDefaultBindGroupLayout :: "('a Core_scheme, GPUBindGroupLayout option) js" where
  "createDefaultBindGroupLayout s =
     (if device (gpu s) = None then js_return None s
      else js_bind (native_new (CreateBindGroupLayout ''default_bind_group_layout'')) (\<lambda>i.
             let layout = GPUBindGroupLayout i ''default_bind_group_layout'' in
             js_bind (js_modify (shaderManager_update
                        (bindGroupLayouts_update (\<lambda>m. m(''default'' \<mapsto> layout))))) (\<lambda>_.
             js_return (Some layout))) s)"

definition createBindGroupLayout :: "string \<Rightarrow> ('a Core_scheme, GPUBindGroupLayout option) js" where
  "createBindGroupLayout label s =
     (if device (gpu s) = None then js_return None s
      else js_catch
        (js_bind (native_new (CreateBindGroupLayout label)) (\<lambda>i.
           let layout = GPUBindGroupLayout i label in
           js_bind (js_modify (shaderManager_update
                      (bindGroupLayouts_update (\<lambda>m. m(label \<mapsto> layout))))) (\<lambda>_.
           js_return (Some layout))))
        (\<lambda>error. js_bind (console_error (''Error creating bind group layout '' @ label))
           (\<lambda>_. js_return None)) s)"

definition createUniformBindGroupLayout :: "('a Core_scheme, GPUBindGroupLayout option) js" where
  "createUniformBindGroupLayout s =
     (if device (gpu s) = None then js_return None s
      else createBindGroupLayout ''uniform_layout'' s)"

text \<open>
  \<^verbatim>\<open>checkCompilation\<close>, the local function of \<^verbatim>\<open>createPipeline\<close>: when there are
  messages it prints a heading and a line for each, and answers whether one is an error.
\<close>

definition checkCompilation :: "msgtype list \<Rightarrow> string \<Rightarrow> ('a Core_scheme, bool) js" where
  "checkCompilation info kind =
     (if info \<noteq> []
      then js_bind (console_error (kind @ '' shader compilation issues'')) (\<lambda>_.
           js_bind (js_modify (\<lambda>s. s\<lparr>console := console s
                      @ map (\<lambda>m. ConsoleError ''compilation message'') info\<rparr>)) (\<lambda>_.
           js_return (MsgError \<in> set info)))
      else js_return False)"

definition createPipeline ::
  "string \<Rightarrow> ShaderSource \<Rightarrow> PipelineOptions \<Rightarrow> ('a Core_scheme, GPURenderPipeline option) js" where
  "createPipeline label shaderSource options s =
     (if device (gpu s) = None
      then js_bind (console_error ''WebGPU device not available'') (\<lambda>_. js_return None) s
      else js_catch
        (js_bind (createShaderModule (label @ ''_vertex'') (vertex shaderSource)) (\<lambda>vertexModule.
         js_bind (createShaderModule (label @ ''_fragment'') (fragment shaderSource)) (\<lambda>fragmentModule.
         case (vertexModule, fragmentModule) of
           (Some vm, Some fm) \<Rightarrow>
             js_bind (js_get (\<lambda>s. device (gpu s))) (\<lambda>dev.
             case dev of
               None \<Rightarrow> js_throw TypeError
             | Some d \<Rightarrow>
                 js_bind (checkCompilation (compilationInfo d (vertex shaderSource)) ''Vertex'') (\<lambda>verr.
                 js_bind (if verr then js_return True
                          else checkCompilation (compilationInfo d (fragment shaderSource)) ''Fragment'') (\<lambda>err.
                 if err then js_return None
                 else
                   js_bind (case opt_bindGroupLayouts options of
                              Some (l # ls) \<Rightarrow> js_return (Some (l # ls))
                            | _ \<Rightarrow>
                                js_bind createDefaultBindGroupLayout (\<lambda>r.
                                  case r of
                                    Some layout \<Rightarrow> js_return (Some [layout])
                                  | None \<Rightarrow>
                                      js_bind (console_error (''Failed to create default bind group layout for pipeline '' @ label))
                                        (\<lambda>_. js_return None))) (\<lambda>bgls.
                   case bgls of
                     None \<Rightarrow> js_return None
                   | Some layouts \<Rightarrow>
                       js_bind (native_new (CreatePipelineLayout (label @ ''_layout''))) (\<lambda>i.
                       js_bind (native_new (CreateRenderPipeline label)) (\<lambda>j.
                         let pipeline = GPURenderPipeline j label
                               (GPUPipelineLayout i (label @ ''_layout'') layouts)
                               vm fm (opt_depthTest options) in
                         js_bind (js_modify (shaderManager_update
                                    (pipelines_update (\<lambda>m. m(label \<mapsto> pipeline))))) (\<lambda>_.
                         js_return (Some pipeline))))))))
         | _ \<Rightarrow>
             js_bind (console_error (''Failed to create shader modules for pipeline '' @ label))
               (\<lambda>_. js_return None))))
        (\<lambda>error. js_bind (console_error (''Error creating pipeline '' @ label))
           (\<lambda>_. js_return None)) s)"

definition getPipeline :: "string \<Rightarrow> ('a Core_scheme, GPURenderPipeline option) js" where
  "getPipeline label = js_get (\<lambda>s. pipelines (shaderManager s) label)"

definition getBindGroupLayout :: "string \<Rightarrow> ('a Core_scheme, GPUBindGroupLayout option) js" where
  "getBindGroupLayout label = js_get (\<lambda>s. bindGroupLayouts (shaderManager s) label)"

definition getShaderModule :: "string \<Rightarrow> ('a Core_scheme, GPUShaderModule option) js" where
  "getShaderModule label = js_get (\<lambda>s. shaderModules (shaderManager s) label)"

definition ShaderManager_destroy :: "('a Core_scheme, unit) js" where
  "ShaderManager_destroy =
     js_modify (shaderManager_update (\<lambda>m. \<lparr>shaderModules = Map.empty, pipelines = Map.empty,
                  bindGroupLayouts = Map.empty\<rparr>))"


section \<open>Plane\<close>

text \<open>
  A plane's two buffers and its index count. The vertex and index data themselves are
  not modelled. The constructor creates the buffers when there is a device, and only
  logs otherwise; it has no \<^verbatim>\<open>try\<close>.
\<close>

record Plane =
  vertexBuffer :: "GPUBuffer option"
  indexBuffer :: "GPUBuffer option"
  indexCount :: nat

definition new_Plane :: "nat \<Rightarrow> nat \<Rightarrow> ('a Core_scheme, Plane) js" where
  "new_Plane widthSegments heightSegments s =
     (let vertexCount = (widthSegments + 1) * (heightSegments + 1);
          n = 6 * widthSegments * heightSegments in
      if device (gpu s) = None
      then js_bind (console_error ''WebGPU device not available'')
             (\<lambda>_. js_return \<lparr>vertexBuffer = None, indexBuffer = None, indexCount = n\<rparr>) s
      else js_bind (native_new (CreateBuffer [] (int (vertexCount * 5 * 4)) True)) (\<lambda>i.
           js_bind (native_new (CreateBuffer [] (int (n * 2)) True)) (\<lambda>j.
           js_return \<lparr>vertexBuffer = Some (GPUBuffer i [] (int (vertexCount * 5 * 4))),
                      indexBuffer = Some (GPUBuffer j [] (int (n * 2))),
                      indexCount = n\<rparr>)) s)"

definition Plane_bind :: "Plane \<Rightarrow> GPURenderPass \<Rightarrow> ('a Core_scheme, GPURenderPass) js" where
  "Plane_bind p rp =
     (case (vertexBuffer p, indexBuffer p) of
        (Some vb, Some ib) \<Rightarrow>
          js_bind (record_cmd (SetVertexBuffer 0 vb) rp) (\<lambda>rp. record_cmd (SetIndexBuffer ib) rp)
      | _ \<Rightarrow> js_return rp)"

definition Plane_draw :: "Plane \<Rightarrow> GPURenderPass \<Rightarrow> ('a Core_scheme, GPURenderPass) js" where
  "Plane_draw p rp = record_cmd (DrawIndexed (indexCount p)) rp"

section \<open>PostProcessor\<close>

record PostProcessPass =
  pass_id :: string
  pass_shader :: ShaderSource
  pass_pipeline :: GPURenderPipeline
  pass_bindGroup :: GPUBindGroup
  pass_uniformBuffer :: "GPUBuffer option"
  enabled :: bool
  pass_options :: UniformData

text \<open>
  The class's fields after the four it shares with \<^verbatim>\<open>Podium\<close> (which are in \<open>Core\<close>).
\<close>

record PostProcessor = Core +
  renderTarget :: "GPUTexture option"
  depthTexture :: "GPUTexture option"
  tempTargets :: "GPUTexture list"
  passes :: "(string \<times> PostProcessPass) list"
  fullscreenQuad :: "Plane option"
  width :: num
  height :: num

text \<open>The loop of \<^verbatim>\<open>createRenderTargets\<close> over \<open>i = 0, 1\<close>.\<close>

fun pushTempTargets :: "nat list \<Rightarrow> ('a PostProcessor_scheme, unit) js" where
  "pushTempTargets [] = js_return ()"
| "pushTempTargets (i # rest) =
     js_bind (native_new (CreateTexture (''temp_render_target_'' @ decimal i))) (\<lambda>h.
     js_bind (js_modify (\<lambda>s. s\<lparr>tempTargets := tempTargets s
                @ [DeviceTexture h (''temp_render_target_'' @ decimal i)]\<rparr>)) (\<lambda>_.
     pushTempTargets rest))"

definition createRenderTargets :: "('a PostProcessor_scheme, unit) js" where
  "createRenderTargets s =
     (if device (gpu s) = None then js_return () s
      else js_bind (native_new (CreateTexture ''main_render_target'')) (\<lambda>i.
           js_bind (js_modify (\<lambda>s. s\<lparr>renderTarget :=
                      Some (DeviceTexture i ''main_render_target'')\<rparr>)) (\<lambda>_.
           js_bind (native_new (CreateTexture ''depth_texture'')) (\<lambda>j.
           js_bind (js_modify (\<lambda>s. s\<lparr>depthTexture :=
                      Some (DeviceTexture j ''depth_texture'')\<rparr>)) (\<lambda>_.
           pushTempTargets [0..<2])))) s)"

definition createPostProcessBindGroupLayout ::
  "('a PostProcessor_scheme, GPUBindGroupLayout option) js" where
  "createPostProcessBindGroupLayout s =
     (if device (gpu s) = None then js_return None s
      else js_bind (native_new (CreateBindGroupLayout ''postprocess_bind_group_layout''))
             (\<lambda>i. js_return (Some (GPUBindGroupLayout i ''postprocess_bind_group_layout''))) s)"

definition createPostProcessBindGroup ::
  "GPUBindGroupLayout \<Rightarrow> GPUBuffer option \<Rightarrow> GPUTexture option \<Rightarrow> GPUSampler
     \<Rightarrow> ('a PostProcessor_scheme, GPUBindGroup option) js" where
  "createPostProcessBindGroup layout uniformBuffer texture sampler s =
     (if device (gpu s) = None then js_return None s
      else js_bind (createView texture) (\<lambda>view.
           let entries = [(0, BufferBinding uniformBuffer), (1, ViewBinding view),
                          (2, SamplerBinding sampler)] in
           js_bind (native_new (CreateBindGroup (Some ''postprocess_bind_group'') entries)) (\<lambda>i.
           js_return (Some (GPUBindGroup i (Some ''postprocess_bind_group'') layout entries)))) s)"

text \<open>
  \<^verbatim>\<open>updateEffectUniforms\<close>: the object literal with \<^verbatim>\<open>resolution\<close>, \<^verbatim>\<open>time\<close> and the
  spread options (a key of the options replaces the literal's).
\<close>

definition updateEffectUniforms ::
  "string \<Rightarrow> UniformData \<Rightarrow> ('a PostProcessor_scheme, bool) js" where
  "updateEffectUniforms effectId options s =
     updateUniformBuffer (effectId @ ''_uniforms'')
       ([''resolution'' \<mapsto> JsPair (width s) (height s),
         ''time'' \<mapsto> JsNumber (fmul (arith s) (performance_now s)
                                (rnd64 (arith s) (1 / 1000)))] ++ options)
       0 s"

definition setEffectEnabled :: "string \<Rightarrow> bool \<Rightarrow> ('a PostProcessor_scheme, bool) js" where
  "setEffectEnabled ident e s =
     (case jsmap_get (passes s) ident of
        None \<Rightarrow> js_bind (console_warn (''Effect '' @ ident @ '' not found for enable/disable''))
                  (\<lambda>_. js_return False) s
      | Some pass \<Rightarrow>
          js_bind (js_modify (\<lambda>s. s\<lparr>passes := jsmap_set ident (pass\<lparr>enabled := e\<rparr>) (passes s)\<rparr>))
            (\<lambda>_. js_return True) s)"

definition updateEffect :: "string \<Rightarrow> UniformData \<Rightarrow> ('a PostProcessor_scheme, bool) js" where
  "updateEffect ident options s =
     (case jsmap_get (passes s) ident of
        None \<Rightarrow> js_bind (console_warn (''Effect '' @ ident @ '' not found for update''))
                  (\<lambda>_. js_return False) s
      | Some pass \<Rightarrow>
          js_bind (js_modify (\<lambda>s. s\<lparr>passes := jsmap_set ident
                     (pass\<lparr>pass_options := pass_options pass ++ options\<rparr>) (passes s)\<rparr>)) (\<lambda>_.
          js_bind (updateEffectUniforms ident (pass_options pass ++ options)) (\<lambda>success.
          js_return True)) s)"

text \<open>\<^verbatim>\<open>beginRenderToTexture\<close>: two non-null assertions, no check and no \<^verbatim>\<open>try\<close>.\<close>

definition beginRenderToTexture :: "('a PostProcessor_scheme, GPURenderPass) js" where
  "beginRenderToTexture s =
     js_bind (createView (renderTarget s)) (\<lambda>cv.
     js_bind (createView (depthTexture s)) (\<lambda>dv.
     js_return \<lparr>pass_label = ''scene_render_pass'', colorView = cv, depthView = Some dv,
                commands = []\<rparr>)) s"

definition renderPostProcessPass ::
  "GPURenderPass \<Rightarrow> PostProcessPass \<Rightarrow> GPUTexture option \<Rightarrow> num
     \<Rightarrow> ('a PostProcessor_scheme, GPURenderPass) js" where
  "renderPostProcessPass rp pass inputTexture time s =
     (case fullscreenQuad s of
        None \<Rightarrow> js_return rp s
      | Some quad \<Rightarrow>
          js_bind (updateEffectUniforms (pass_id pass)
                     ((pass_options pass)(''time'' \<mapsto> JsNumber time))) (\<lambda>_.
          js_bind createPostProcessBindGroupLayout (\<lambda>l.
          case l of
            None \<Rightarrow> js_return rp
          | Some layout \<Rightarrow>
              js_bind (getSampler ''default'') (\<lambda>ds.
              case ds of
                None \<Rightarrow> js_bind (console_error ''Default sampler not found during render pass'')
                          (\<lambda>_. js_return rp)
              | Some defaultSampler \<Rightarrow>
                  js_bind (createPostProcessBindGroup layout (pass_uniformBuffer pass)
                             inputTexture defaultSampler) (\<lambda>bg.
                  case bg of
                    None \<Rightarrow> js_return rp
                  | Some bindGroup \<Rightarrow>
                      js_bind (record_cmd (SetPipeline (pass_pipeline pass)) rp) (\<lambda>rp.
                      js_bind (record_cmd (SetBindGroup 0 bindGroup) rp) (\<lambda>rp.
                      js_bind (Plane_bind quad rp) (\<lambda>rp.
                      Plane_draw quad rp))))))) s)"

text \<open>
  \<^verbatim>\<open>getCopyShader\<close> and the built-in effect shaders return fixed WGSL texts; the texts
  stand here by their names.
\<close>

definition getCopyShader :: ShaderSource where
  "getCopyShader = \<lparr>vertex = ''copy.vertex.wgsl'', fragment = ''copy.fragment.wgsl''\<rparr>"

definition getBlurShader :: ShaderSource where
  "getBlurShader = \<lparr>vertex = ''blur.vertex.wgsl'', fragment = ''blur.fragment.wgsl''\<rparr>"

definition getBloomShader :: ShaderSource where
  "getBloomShader = \<lparr>vertex = ''bloom.vertex.wgsl'', fragment = ''bloom.fragment.wgsl''\<rparr>"

definition getColorCorrectionShader :: ShaderSource where
  "getColorCorrectionShader =
     \<lparr>vertex = ''colorCorrection.vertex.wgsl'', fragment = ''colorCorrection.fragment.wgsl''\<rparr>"

definition getVignetteShader :: ShaderSource where
  "getVignetteShader = \<lparr>vertex = ''vignette.vertex.wgsl'', fragment = ''vignette.fragment.wgsl''\<rparr>"

definition getFilmGrainShader :: ShaderSource where
  "getFilmGrainShader = \<lparr>vertex = ''filmGrain.vertex.wgsl'', fragment = ''filmGrain.fragment.wgsl''\<rparr>"

text \<open>
  \<^verbatim>\<open>copyToFinalTarget\<close>. The command encoder is the list of the render passes ended
  on it so far.
\<close>

definition copyToFinalTarget ::
  "GPURenderPass list \<Rightarrow> GPUTexture option \<Rightarrow> GPUTextureView
     \<Rightarrow> ('a PostProcessor_scheme, GPURenderPass list) js" where
  "copyToFinalTarget commandEncoder source target s =
     (let rp = \<lparr>pass_label = ''copy_to_final'', colorView = target, depthView = None,
                 commands = []\<rparr> in
      js_bind (native_new (CreateBindGroupLayout ''copy_bind_group_layout'')) (\<lambda>i.
      let copyLayout = GPUBindGroupLayout i ''copy_bind_group_layout'' in
      js_bind (getPipeline ''copy_shader'') (\<lambda>cached.
      js_bind (case cached of
                 Some p \<Rightarrow> js_return (Some p)
               | None \<Rightarrow> createPipeline ''copy_shader'' getCopyShader
                           \<lparr>opt_bindGroupLayouts = Some [copyLayout], opt_depthTest = False\<rparr>)
        (\<lambda>pipeline.
      js_bind (js_get fullscreenQuad) (\<lambda>fq.
      js_bind (case (pipeline, fq) of
                 (Some p, Some quad) \<Rightarrow>
                   js_bind (createView source) (\<lambda>view.
                   js_bind (getSampler ''default'') (\<lambda>ds.
                   js_bind (case ds of
                              Some x \<Rightarrow> js_return (Some x)
                            | None \<Rightarrow> createSampler ''copy_sampler'') (\<lambda>smp.
                   case smp of
                     None \<Rightarrow> js_throw TypeError
                   | Some sampler \<Rightarrow>
                       let entries = [(0, ViewBinding view), (1, SamplerBinding sampler)] in
                       js_bind (native_new (CreateBindGroup (Some ''copy_bind_group'') entries)) (\<lambda>j.
                       let bindGroup = GPUBindGroup j (Some ''copy_bind_group'') copyLayout entries in
                       js_bind (record_cmd (SetPipeline p) rp) (\<lambda>rp.
                       js_bind (record_cmd (SetBindGroup 0 bindGroup) rp) (\<lambda>rp.
                       js_bind (Plane_bind quad rp) (\<lambda>rp.
                       Plane_draw quad rp)))))))
               | _ \<Rightarrow> js_return rp) (\<lambda>rp.
      js_return (commandEncoder @ [rp])))))) s)"

text \<open>
  The loop of \<^verbatim>\<open>applyPostProcessing\<close> over the enabled passes: \<open>i\<close> is the loop index,
  \<open>n\<close> the number of enabled passes, \<open>currentInput\<close> the loop's variable of that name.
  \<^verbatim>\<open>tempTargets[i % tempTargets.length]\<close> is \<^verbatim>\<open>undefined\<close> when the array is empty.
\<close>

fun applyPasses ::
  "PostProcessPass list \<Rightarrow> nat \<Rightarrow> nat \<Rightarrow> GPUTexture option \<Rightarrow> GPUTextureView \<Rightarrow> num
     \<Rightarrow> GPURenderPass list \<Rightarrow> ('a PostProcessor_scheme, GPURenderPass list) js" where
  "applyPasses [] i n currentInput finalTarget time commandEncoder = js_return commandEncoder"
| "applyPasses (pass # rest) i n currentInput finalTarget time commandEncoder =
     (if i = n - 1
      then
        js_bind (renderPostProcessPass
                   \<lparr>pass_label = ''postprocess_final_'' @ pass_id pass, colorView = finalTarget,
                    depthView = None, commands = []\<rparr> pass currentInput time) (\<lambda>rp.
        applyPasses rest (i + 1) n currentInput finalTarget time (commandEncoder @ [rp]))
      else
        js_bind (js_get tempTargets) (\<lambda>temps.
        let currentOutput = (if temps = [] then None else Some (temps ! (i mod length temps))) in
        js_bind (createView currentOutput) (\<lambda>view.
        js_bind (renderPostProcessPass
                   \<lparr>pass_label = ''postprocess_'' @ pass_id pass, colorView = view,
                    depthView = None, commands = []\<rparr> pass currentInput time) (\<lambda>rp.
        applyPasses rest (i + 1) n currentOutput finalTarget time (commandEncoder @ [rp])))))"

definition applyPostProcessing ::
  "GPURenderPass list \<Rightarrow> GPUTextureView \<Rightarrow> num
     \<Rightarrow> ('a PostProcessor_scheme, GPURenderPass list) js" where
  "applyPostProcessing commandEncoder finalTarget time s =
     (case fullscreenQuad s of
        None \<Rightarrow> js_return commandEncoder s
      | Some quad \<Rightarrow>
          let enabledPasses = filter enabled (jsmap_values (passes s)) in
          if length enabledPasses = 0
          then copyToFinalTarget commandEncoder (renderTarget s) finalTarget s
          else applyPasses enabledPasses 0 (length enabledPasses) (renderTarget s)
                 finalTarget time commandEncoder s)"

definition addEffect ::
  "string \<Rightarrow> ShaderSource \<Rightarrow> UniformData \<Rightarrow> ('a PostProcessor_scheme, bool) js" where
  "addEffect ident shader options s =
     (if device (gpu s) = None \<or> fullscreenQuad s = None
      then js_bind (console_error (''Cannot add effect '' @ ident
                      @ '': missing device or fullscreen quad'')) (\<lambda>_. js_return False) s
      else js_catch
        (js_bind (createUniformBuffer (ident @ ''_uniforms'') 256 None) (\<lambda>ub.
         case ub of
           None \<Rightarrow> js_bind (console_error (''Failed to create uniform buffer for '' @ ident))
                     (\<lambda>_. js_return False)
         | Some uniformBuffer \<Rightarrow>
             js_bind (updateEffectUniforms ident options) (\<lambda>_.
             js_bind createPostProcessBindGroupLayout (\<lambda>l.
             case l of
               None \<Rightarrow> js_bind (console_error (''Failed to create bind group layout for '' @ ident))
                         (\<lambda>_. js_return False)
             | Some bindGroupLayout \<Rightarrow>
                 js_bind (createPipeline (ident @ ''_postprocess'') shader
                            \<lparr>opt_bindGroupLayouts = Some [bindGroupLayout],
                             opt_depthTest = False\<rparr>) (\<lambda>p.
                 case p of
                   None \<Rightarrow> js_bind (console_error (''Failed to create pipeline for '' @ ident))
                             (\<lambda>_. js_return False)
                 | Some pipeline \<Rightarrow>
                     js_bind (getSampler ''default'') (\<lambda>ds.
                     case ds of
                       None \<Rightarrow> js_bind (console_error (''Default sampler not found for effect '' @ ident))
                                 (\<lambda>_. js_return False)
                     | Some defaultSampler \<Rightarrow>
                         js_bind (js_get renderTarget) (\<lambda>rt.
                         js_bind (createPostProcessBindGroup bindGroupLayout (Some uniformBuffer)
                                    rt defaultSampler) (\<lambda>bg.
                         case bg of
                           None \<Rightarrow> js_bind (console_error (''Failed to create bind group for '' @ ident))
                                     (\<lambda>_. js_return False)
                         | Some bindGroup \<Rightarrow>
                             js_bind (js_modify (\<lambda>s. s\<lparr>passes := jsmap_set ident
                                        \<lparr>pass_id = ident, pass_shader = shader,
                                         pass_pipeline = pipeline, pass_bindGroup = bindGroup,
                                         pass_uniformBuffer = Some uniformBuffer,
                                         enabled = False, pass_options = options\<rparr>
                                        (passes s)\<rparr>)) (\<lambda>_.
                             js_return True)))))))))
        (\<lambda>error. js_bind (console_error (''Error adding post-process effect '' @ ident))
           (\<lambda>_. js_return False)) s)"

text \<open>\<^verbatim>\<open>initializeBuiltInEffects\<close>: five effects; each result is only printed.\<close>

definition initializeBuiltInEffects :: "('a PostProcessor_scheme, unit) js" where
  "initializeBuiltInEffects =
     js_bind (addEffect ''blur'' getBlurShader
                [''intensity'' \<mapsto> JsNumber (Fin 1), ''radius'' \<mapsto> JsNumber (Fin 2)]) (\<lambda>_.
     js_bind (addEffect ''bloom'' getBloomShader
                [''intensity'' \<mapsto> JsNumber (Fin (8 / 10)),
                 ''threshold'' \<mapsto> JsNumber (Fin (7 / 10))]) (\<lambda>_.
     js_bind (addEffect ''colorCorrection'' getColorCorrectionShader
                [''brightness'' \<mapsto> JsNumber (Fin 0), ''contrast'' \<mapsto> JsNumber (Fin 1),
                 ''saturation'' \<mapsto> JsNumber (Fin 1), ''hue'' \<mapsto> JsNumber (Fin 0)]) (\<lambda>_.
     js_bind (addEffect ''vignette'' getVignetteShader
                [''intensity'' \<mapsto> JsNumber (Fin (5 / 10)),
                 ''radius'' \<mapsto> JsNumber (Fin (8 / 10))]) (\<lambda>_.
     js_bind (addEffect ''filmGrain'' getFilmGrainShader
                [''intensity'' \<mapsto> JsNumber (Fin (1 / 10)), ''time'' \<mapsto> JsNumber (Fin 0)]) (\<lambda>_.
     js_return ())))))"

definition PostProcessor_initialize :: "num \<Rightarrow> num \<Rightarrow> ('a PostProcessor_scheme, bool) js" where
  "PostProcessor_initialize w h s =
     (if device (gpu s) = None
      then js_bind (console_error ''WebGPU device not available'') (\<lambda>_. js_return False) s
      else js_bind (js_modify (\<lambda>s. s\<lparr>width := w, height := h\<rparr>)) (\<lambda>_.
           js_bind createRenderTargets (\<lambda>_.
           js_bind (getSampler ''default'') (\<lambda>ds.
           js_bind (case ds of
                      Some x \<Rightarrow> js_return (Some x)
                    | None \<Rightarrow> createSampler ''default'') (\<lambda>defaultSampler.
           case defaultSampler of
             None \<Rightarrow> js_bind (console_error ''Failed to create default sampler'')
                       (\<lambda>_. js_return False)
           | Some x \<Rightarrow>
               js_bind (new_Plane 1 1) (\<lambda>quad.
               js_bind (js_modify (\<lambda>s. s\<lparr>fullscreenQuad := Some quad\<rparr>)) (\<lambda>_.
               js_bind initializeBuiltInEffects (\<lambda>_.
               js_return True))))))) s)"


definition PostProcessor_destroy :: "('a PostProcessor_scheme, unit) js" where
  "PostProcessor_destroy =
     js_modify (\<lambda>s. s\<lparr>tempTargets := [],
        fullscreenQuad := map_option (\<lambda>p. p\<lparr>vertexBuffer := None, indexBuffer := None\<rparr>)
                            (fullscreenQuad s),
        passes := []\<rparr>)"


section \<open>WebGPUContext\<close>

definition WebGPUContext_initialize :: "('a Core_scheme, bool) js" where
  "WebGPUContext_initialize =
     js_catch
       (js_bind (js_get browser) (\<lambda>b.
        if \<not> navigator_gpu b
        then js_bind (console_error ''WebGPU not supported in this browser'') (\<lambda>_. js_return False)
        else
          js_bind (js_lift (requestAdapter b)) (\<lambda>a.
          js_bind (js_modify (\<lambda>s. s\<lparr>gpu := (gpu s)\<lparr>adapter := a\<rparr>\<rparr>)) (\<lambda>_.
          if \<not> a
          then js_bind (console_error ''Failed to get WebGPU adapter'') (\<lambda>_. js_return False)
          else
            js_bind (js_lift (requestDevice b)) (\<lambda>d.
            js_bind (js_modify (set_device d)) (\<lambda>_.
            if d = None
            then js_bind (console_error ''Failed to get WebGPU device'') (\<lambda>_. js_return False)
            else
              js_bind (js_modify (\<lambda>s. s\<lparr>gpu := (gpu s)\<lparr>canvasContext := getContext b\<rparr>\<rparr>)) (\<lambda>_.
              if getContext b = None
              then js_bind (console_error ''Failed to get WebGPU canvas context'')
                     (\<lambda>_. js_return False)
              else if configure_throws b then js_throw TypeError
              else js_return True)))))))
       (\<lambda>error. js_bind (console_error ''Error initializing WebGPU'') (\<lambda>_. js_return False))"


section \<open>Podium\<close>

record RenderObject =
  obj_id :: string
  plane :: Plane
  obj_pipeline :: GPURenderPipeline
  obj_bindGroup :: GPUBindGroup
  obj_uniformBuffer :: "GPUBuffer option"
  visible :: bool

text \<open>
  \<^verbatim>\<open>Podium\<close>: the context and the managers (in \<open>Core\<close>), then its own fields. Its
  post-processor is built on the same context and managers, so \<open>postProcessor\<close> holds
  only the post-processor's own fields, or nothing for \<^verbatim>\<open>null\<close>.
\<close>

record Podium = Core +
  postProcessor :: "unit PostProcessor_ext option"
  renderObjects :: "(string \<times> RenderObject) list"
  isInitialized :: bool
  startTime :: num
  frameCount :: nat

text \<open>
  A method of the post-processor called from \<^verbatim>\<open>Podium\<close>: it runs on Podium's context and
  managers with the post-processor's fields, and what it changes stays changed.
\<close>

definition on_postProcessor ::
  "unit PostProcessor_ext \<Rightarrow> (PostProcessor, 'a) js \<Rightarrow> (Podium, 'a) js" where
  "on_postProcessor pp m p =
     (case m (Core.extend (Core.truncate p) pp) of
        (r, q) \<Rightarrow>
          (r, p\<lparr>console := console q, performance_now := performance_now q,
                arith := arith q, browser := browser q, gpu := gpu q,
                shaderManager := shaderManager q, textureManager := textureManager q,
                uniformManager := uniformManager q,
                postProcessor := Some (Core.more q)\<rparr>))"

text \<open>The constructor, without the resize observers it registers.\<close>

definition new_Podium :: "Browser \<Rightarrow> fpenv \<Rightarrow> num \<Rightarrow> num \<Rightarrow> num \<Rightarrow> bool \<Rightarrow> Podium" where
  "new_Podium b fp now w h enablePostProcessing =
     \<lparr>console = [], performance_now = now, arith = fp, browser = b,
      gpu = \<lparr>canvasWidth = w, canvasHeight = h, adapter = False, device = None,
             canvasContext = None\<rparr>,
      shaderManager = \<lparr>shaderModules = Map.empty, pipelines = Map.empty,
                       bindGroupLayouts = Map.empty\<rparr>,
      textureManager = \<lparr>textures = Map.empty, samplers = Map.empty, imageCache = Map.empty,
                        videoCache = Map.empty\<rparr>,
      uniformManager = \<lparr>uniformBuffers = Map.empty, bindGroups = Map.empty,
                        uniformLayouts = Map.empty\<rparr>,
      postProcessor = (if enablePostProcessing
                       then Some (PostProcessor.fields None None [] [] None (Fin 0) (Fin 0))
                       else None),
      renderObjects = [], isInitialized = False, startTime = Fin 0, frameCount = 0\<rparr>"

definition Podium_initialize :: "(Podium, bool) js" where
  "Podium_initialize =
     js_bind WebGPUContext_initialize (\<lambda>success.
     if \<not> success
     then js_bind (console_error ''Failed to initialize WebGPU context'') (\<lambda>_. js_return False)
     else
       js_bind (js_get postProcessor) (\<lambda>pp.
       js_bind (case pp of
                  None \<Rightarrow> js_return ()
                | Some x \<Rightarrow>
                    js_bind (js_get (\<lambda>s. (canvasWidth (gpu s), canvasHeight (gpu s)))) (\<lambda>wh.
                    js_bind (on_postProcessor x (PostProcessor_initialize (fst wh) (snd wh)))
                      (\<lambda>postProcessSuccess.
                    if \<not> postProcessSuccess
                    then js_bind (console_warn
                                    ''Failed to initialize post-processor, continuing without it'')
                           (\<lambda>_. js_modify (\<lambda>s. s\<lparr>postProcessor := None\<rparr>))
                    else js_return ()))) (\<lambda>_.
       js_bind (js_modify (\<lambda>s. s\<lparr>isInitialized := True, startTime := performance_now s\<rparr>)) (\<lambda>_.
       js_return True))))"

definition Podium_updateUniforms :: "string \<Rightarrow> UniformData \<Rightarrow> (Podium, bool) js" where
  "Podium_updateUniforms ident data s =
     (case jsmap_get (renderObjects s) ident of
        Some obj \<Rightarrow>
          if obj_uniformBuffer obj = None
          then js_bind (console_error (''Render object '' @ ident @ '' not found or has no uniforms''))
                 (\<lambda>_. js_return False) s
          else js_bind (updateUniformBuffer (ident @ ''_uniforms'') data 0) (\<lambda>success.
               js_bind (if \<not> success
                        then console_error (''Failed to update uniform buffer for '' @ ident)
                        else js_return ()) (\<lambda>_.
               js_return success)) s
      | None \<Rightarrow>
          js_bind (console_error (''Render object '' @ ident @ '' not found or has no uniforms''))
            (\<lambda>_. js_return False) s)"

definition Podium_setEffectEnabled :: "string \<Rightarrow> bool \<Rightarrow> (Podium, bool) js" where
  "Podium_setEffectEnabled effectId e s =
     (case postProcessor s of
        None \<Rightarrow> js_bind (console_warn ''Post-processing not enabled'') (\<lambda>_. js_return False) s
      | Some pp \<Rightarrow> on_postProcessor pp (setEffectEnabled effectId e) s)"

definition Podium_updateEffect :: "string \<Rightarrow> UniformData \<Rightarrow> (Podium, bool) js" where
  "Podium_updateEffect effectId options s =
     (case postProcessor s of
        None \<Rightarrow> js_bind (console_warn ''Post-processing not enabled'') (\<lambda>_. js_return False) s
      | Some pp \<Rightarrow> on_postProcessor pp (updateEffect effectId options) s)"


text \<open>
  The commands the body of the second loop issues for one object: pipeline, bind group,
  the plane's two buffers (when it has both) and the indexed draw.
\<close>

definition Plane_bind_cmds :: "Plane \<Rightarrow> cmd list" where
  "Plane_bind_cmds p =
     (case (vertexBuffer p, indexBuffer p) of
        (Some vb, Some ib) \<Rightarrow> [SetVertexBuffer 0 vb, SetIndexBuffer ib]
      | _ \<Rightarrow> [])"




section \<open>Values for examples\<close>

text \<open>
  A device on which no call throws, a browser that grants everything, and a
  \<^verbatim>\<open>Podium\<close> built on them; used to run the definitions on concrete inputs.
\<close>

definition sound_device :: GPUDevice where
  "sound_device = \<lparr>nextId = 0, calls = [], fails = (\<lambda>_ _. False), compilationInfo = (\<lambda>_. [])\<rparr>"

definition sound_browser :: Browser where
  "sound_browser =
     \<lparr>navigator_gpu = True, requestAdapter = Inr True, requestDevice = Inr (Some sound_device),
      getContext = Some \<lparr>served = 0, unavailable = (\<lambda>_. False)\<rparr>,
      configure_throws = False, loadImage = (\<lambda>_. Some (4, 4)),
      loadVideo = (\<lambda>_. Some (16, 9)), date_now = 1700000000000, rejects = (\<lambda>_. False)\<rparr>"

definition sample_podium :: "bool \<Rightarrow> Podium" where
  "sample_podium enablePostProcessing =
     new_Podium sound_browser ideal_fp (Fin 5) (Fin 800) (Fin 600) enablePostProcessing"

text \<open>The state \<^verbatim>\<open>initialize\<close> leaves when post-processing is off.\<close>

definition sample_initialized :: Podium where
  "sample_initialized =
     (sample_podium False)\<lparr>
        gpu := \<lparr>canvasWidth = Fin 800, canvasHeight = Fin 600, adapter = True,
                device = Some sound_device,
                canvasContext = Some \<lparr>served = 0, unavailable = (\<lambda>_. False)\<rparr>\<rparr>,
        isInitialized := True, startTime := Fin 5\<rparr>"

text \<open>
  A post-processor with four effects, three of them enabled, as \<^verbatim>\<open>initialize\<close> and
  \<^verbatim>\<open>setEffectEnabled\<close> would leave it.
\<close>

definition sample_pass :: "string \<Rightarrow> nat \<Rightarrow> bool \<Rightarrow> PostProcessPass" where
  "sample_pass ident n e =
     \<lparr>pass_id = ident,
      pass_shader = \<lparr>vertex = ident @ ''.vertex.wgsl'', fragment = ident @ ''.fragment.wgsl''\<rparr>,
      pass_pipeline = GPURenderPipeline (n + 4) (ident @ ''_postprocess'')
         (GPUPipelineLayout (n + 3) (ident @ ''_postprocess_layout'')
            [GPUBindGroupLayout (n + 1) ''postprocess_bind_group_layout''])
         (GPUShaderModule (n + 2) (ident @ ''_postprocess_vertex'') (ident @ ''.vertex.wgsl''))
         (GPUShaderModule (n + 3) (ident @ ''_postprocess_fragment'') (ident @ ''.fragment.wgsl''))
         False,
      pass_bindGroup = GPUBindGroup (n + 5) (Some ''postprocess_bind_group'')
         (GPUBindGroupLayout (n + 1) ''postprocess_bind_group_layout'')
         [(0, BufferBinding (Some (GPUBuffer n (ident @ ''_uniforms'') 256))),
          (1, ViewBinding (GPUTextureView (DeviceTexture 0 ''main_render_target''))),
          (2, SamplerBinding (GPUSampler 4 ''default''))],
      pass_uniformBuffer = Some (GPUBuffer n (ident @ ''_uniforms'') 256),
      enabled = e,
      pass_options = [''intensity'' \<mapsto> JsNumber (Fin 1)]\<rparr>"

definition sample_postprocessor :: PostProcessor where
  "sample_postprocessor =
     \<lparr>console = [], performance_now = Fin 5, arith = ideal_fp, browser = sound_browser,
      gpu = \<lparr>canvasWidth = Fin 800, canvasHeight = Fin 600, adapter = True,
             device = Some (sound_device\<lparr>nextId := 40\<rparr>),
             canvasContext = Some \<lparr>served = 0, unavailable = (\<lambda>_. False)\<rparr>\<rparr>,
      shaderManager = \<lparr>shaderModules = Map.empty, pipelines = Map.empty,
                       bindGroupLayouts = Map.empty\<rparr>,
      textureManager = \<lparr>textures = Map.empty,
                        samplers = [''default'' \<mapsto> GPUSampler 4 ''default''],
                        imageCache = Map.empty, videoCache = Map.empty\<rparr>,
      uniformManager = \<lparr>uniformBuffers =
                          [''blur_uniforms'' \<mapsto> GPUBuffer 7 ''blur_uniforms'' 256,
                           ''bloom_uniforms'' \<mapsto> GPUBuffer 14 ''bloom_uniforms'' 256,
                           ''vignette_uniforms'' \<mapsto> GPUBuffer 21 ''vignette_uniforms'' 256,
                           ''filmGrain_uniforms'' \<mapsto> GPUBuffer 28 ''filmGrain_uniforms'' 256],
                        bindGroups = Map.empty, uniformLayouts = Map.empty\<rparr>,
      renderTarget = Some (DeviceTexture 0 ''main_render_target''),
      depthTexture = Some (DeviceTexture 1 ''depth_texture''),
      tempTargets = [DeviceTexture 2 ''temp_render_target_0'',
                     DeviceTexture 3 ''temp_render_target_1''],
      passes = [(''blur'', sample_pass ''blur'' 7 True),
                (''bloom'', sample_pass ''bloom'' 14 False),
                (''vignette'', sample_pass ''vignette'' 21 True),
                (''filmGrain'', sample_pass ''filmGrain'' 28 True)],
      fullscreenQuad = Some \<lparr>vertexBuffer = Some (GPUBuffer 5 [] 80),
                              indexBuffer = Some (GPUBuffer 6 [] 12), indexCount = 6\<rparr>,
      width = Fin 800, height = Fin 600\<rparr>"



text \<open>A device on which every call throws, and the post-processor above on that device.\<close>

definition broken_device :: GPUDevice where
  "broken_device = \<lparr>nextId = 40, calls = [], fails = (\<lambda>_ _. True), compilationInfo = (\<lambda>_. [])\<rparr>"

definition broken_postprocessor :: PostProcessor where
  "broken_postprocessor =
     sample_postprocessor\<lparr>gpu := (gpu sample_postprocessor)\<lparr>device := Some broken_device\<rparr>\<rparr>"

text \<open>That post-processor with no pass enabled.\<close>

definition idle_postprocessor :: PostProcessor where
  "idle_postprocessor =
     sample_postprocessor\<lparr>passes := [(''bloom'', sample_pass ''bloom'' 14 False)]\<rparr>"

text \<open>A post-processor on which \<^verbatim>\<open>initialize\<close> has not run.\<close>

definition fresh_postprocessor :: PostProcessor where
  "fresh_postprocessor =
     sample_postprocessor\<lparr>renderTarget := None, depthTexture := None, tempTargets := [],
       passes := [], fullscreenQuad := None\<rparr>"




section \<open>Vocabulary of the statements\<close>

text \<open>
  A state in which the device is present, none of its calls throws and its compiler
  reports no error, and no render pass refuses a command.
\<close>

definition sound :: "'a Core_scheme \<Rightarrow> bool" where
  "sound s =
     ((\<exists>d. device (gpu s) = Some d \<and> (\<forall>n c. \<not> fails d n c)
            \<and> (\<forall>code. MsgError \<notin> set (compilationInfo d code)))
      \<and> (\<forall>c. \<not> rejects (browser s) c))"

text \<open>
  \<open>only_logs P s s'\<close>: from \<open>s\<close> to \<open>s'\<close> nothing changed but the console, which grew,
  and the device, on which calls were made, all of them calls that \<open>P\<close> allows: every
  field of the managers and of the class built on them is as it was.
  \<open>only_managers P s s'\<close> lets the three managers change as well.
\<close>

definition device_grows :: "(api \<Rightarrow> bool) \<Rightarrow> GPUDevice option \<Rightarrow> GPUDevice option \<Rightarrow> bool" where
  "device_grows P a b =
     (case (a, b) of
        (None, None) \<Rightarrow> True
      | (Some d, Some d') \<Rightarrow>
          nextId d \<le> nextId d' \<and> (\<exists>cs. calls d' = calls d @ cs \<and> list_all (P \<circ> fst) cs)
          \<and> fails d' = fails d \<and> compilationInfo d' = compilationInfo d
      | _ \<Rightarrow> False)"

definition only_logs :: "(api \<Rightarrow> bool) \<Rightarrow> 'a Core_scheme \<Rightarrow> 'a Core_scheme \<Rightarrow> bool" where
  "only_logs P s s' =
     (s' = s\<lparr>console := console s', gpu := (gpu s)\<lparr>device := device (gpu s')\<rparr>\<rparr>
      \<and> (\<exists>ls. console s' = console s @ ls)
      \<and> device_grows P (device (gpu s)) (device (gpu s')))"

definition only_managers :: "(api \<Rightarrow> bool) \<Rightarrow> 'a Core_scheme \<Rightarrow> 'a Core_scheme \<Rightarrow> bool" where
  "only_managers P s s' =
     only_logs P (s\<lparr>shaderManager := shaderManager s', textureManager := textureManager s',
                      uniformManager := uniformManager s'\<rparr>) s'"

text \<open>Every call but \<^verbatim>\<open>device.createTexture\<close>.\<close>

definition allocates_no_texture :: "api \<Rightarrow> bool" where
  "allocates_no_texture c = (case c of CreateTexture l \<Rightarrow> False | _ \<Rightarrow> True)"

text \<open>The device calls made between two states.\<close>

definition new_calls :: "'a Core_scheme \<Rightarrow> 'b Core_scheme \<Rightarrow> (api \<times> outcome) list" where
  "new_calls s s' =
     (case (device (gpu s), device (gpu s')) of
        (Some d, Some d') \<Rightarrow> drop (length (calls d)) (calls d')
      | _ \<Rightarrow> [])"

text \<open>
  What a recorded render pass reads and writes: the textures whose views are in the
  bind groups it sets, the texture behind its color attachment, and the pipelines it
  sets.
\<close>

fun entry_textures :: "(nat \<times> resource) list \<Rightarrow> GPUTexture list" where
  "entry_textures [] = []"
| "entry_textures ((n, ViewBinding (GPUTextureView t)) # es) = t # entry_textures es"
| "entry_textures (e # es) = entry_textures es"

fun cmd_reads :: "cmd \<Rightarrow> GPUTexture list" where
  "cmd_reads (SetBindGroup n (GPUBindGroup i l layout es)) = entry_textures es"
| "cmd_reads c = []"

definition pass_reads :: "GPURenderPass \<Rightarrow> GPUTexture list" where
  "pass_reads rp = concat (map cmd_reads (commands rp))"

definition pass_writes :: "GPURenderPass \<Rightarrow> GPUTexture" where
  "pass_writes rp = (case colorView rp of GPUTextureView t \<Rightarrow> t)"

fun cmd_pipelines :: "cmd \<Rightarrow> GPURenderPipeline list" where
  "cmd_pipelines (SetPipeline p) = [p]"
| "cmd_pipelines c = []"

definition pass_pipelines :: "GPURenderPass \<Rightarrow> GPURenderPipeline list" where
  "pass_pipelines rp = concat (map cmd_pipelines (commands rp))"

definition offscreen :: "GPUTexture \<Rightarrow> bool" where
  "offscreen t = (case t of DeviceTexture i l \<Rightarrow> True | CanvasTexture n \<Rightarrow> False)"

text \<open>
  A post-processor as \<^verbatim>\<open>initialize\<close> leaves it, on a sound state: the quad and the
  default sampler exist, and the scene target and the two temporary targets are three
  different textures of the device.
\<close>

definition ready :: "'a PostProcessor_scheme \<Rightarrow> bool" where
  "ready s =
     (sound s \<and> fullscreenQuad s \<noteq> None \<and> samplers (textureManager s) ''default'' \<noteq> None
      \<and> (case renderTarget s of None \<Rightarrow> False
          | Some rt \<Rightarrow> offscreen rt \<and> rt \<notin> set (tempTargets s))
      \<and> length (tempTargets s) = 2 \<and> distinct (tempTargets s)
      \<and> list_all offscreen (tempTargets s))"



text \<open>
  What is said of a creation method \<open>m\<close> run on the state \<open>s\<close>.
  \<open>null_without_device\<close>: when the context has no device, \<open>m\<close> returns \<^verbatim>\<open>null\<close> and changes
  nothing but the console. \<open>returns_made m s c made\<close>: when \<open>m\<close> returns a handle, the
  device call \<open>c\<close> was made during the run and the handle is the object it made
  (\<open>made i h\<close>: \<open>h\<close> is the object of identity \<open>i\<close>). \<open>succeeds\<close>: \<open>m\<close> returns a handle.
\<close>

definition null_without_device :: "('a Core_scheme, 'h option) js \<Rightarrow> 'a Core_scheme \<Rightarrow> bool" where
  "null_without_device m s =
     (device (gpu s) = None \<longrightarrow>
        fst (m s) = Inr None \<and> only_logs (\<lambda>c. False) s (snd (m s)))"

definition returns_made ::
  "('a Core_scheme, 'h option) js \<Rightarrow> 'a Core_scheme \<Rightarrow> api \<Rightarrow> (nat \<Rightarrow> 'h \<Rightarrow> bool) \<Rightarrow> bool" where
  "returns_made m s c made =
     (case m s of
        (Inr (Some h), s') \<Rightarrow>
          list_ex (\<lambda>e. fst e = c \<and> (case snd e of Made i \<Rightarrow> made i h | _ \<Rightarrow> False))
            (new_calls s s')
      | _ \<Rightarrow> True)"

definition succeeds :: "('a Core_scheme, 'h option) js \<Rightarrow> 'a Core_scheme \<Rightarrow> bool" where
  "succeeds m s = (case m s of (Inr (Some h), s') \<Rightarrow> True | _ \<Rightarrow> False)"

text \<open>
  What is said of a method \<open>m\<close> run on \<open>s\<close> and a label-keyed map \<open>table\<close> of a manager.
  \<open>stores table l m s\<close>: when \<open>m\<close> returns a handle, the map afterwards is the map before
  with that handle under \<open>l\<close>; in every other case (\<^verbatim>\<open>null\<close>, or an exception) the map is
  as it was. \<open>keeps table m s\<close>: the map is as it was, whatever \<open>m\<close> returns.
\<close>

definition stores ::
  "('a Core_scheme \<Rightarrow> string \<rightharpoonup> 'h) \<Rightarrow> string \<Rightarrow> ('a Core_scheme, 'h option) js
     \<Rightarrow> 'a Core_scheme \<Rightarrow> bool" where
  "stores table l m s =
     (case m s of
        (Inr (Some h), s') \<Rightarrow> table s' = (table s)(l \<mapsto> h)
      | (r, s') \<Rightarrow> table s' = table s)"

definition keeps :: "('a Core_scheme \<Rightarrow> 'b) \<Rightarrow> ('a Core_scheme, 'r) js \<Rightarrow> 'a Core_scheme \<Rightarrow> bool" where
  "keeps table m s = (table (snd (m s)) = table s)"

text \<open>
  What a getter answers: \<open>answer m s\<close> is the handle that \<open>m\<close> returns on \<open>s\<close>, or
  nothing for \<^verbatim>\<open>null\<close>. The five tables are the answers of the five getters, for every
  key. \<open>unchanged_by m s\<close>: \<open>m\<close> returns and leaves \<open>s\<close> as it was.
\<close>

definition answer :: "('a Core_scheme, 'h option) js \<Rightarrow> 'a Core_scheme \<Rightarrow> 'h option" where
  "answer m s = (case fst (m s) of Inr r \<Rightarrow> r | Inl e \<Rightarrow> None)"

definition unchanged_by :: "('a Core_scheme, 'r) js \<Rightarrow> 'a Core_scheme \<Rightarrow> bool" where
  "unchanged_by m s = (case m s of (Inr r, s') \<Rightarrow> s' = s | (Inl e, s') \<Rightarrow> False)"

definition the_uniformBuffers :: "'a Core_scheme \<Rightarrow> string \<rightharpoonup> GPUBuffer" where
  "the_uniformBuffers s = (\<lambda>k. answer (getUniformBuffer k) s)"

definition the_bindGroups :: "'a Core_scheme \<Rightarrow> string \<rightharpoonup> GPUBindGroup" where
  "the_bindGroups s = (\<lambda>k. answer (getBindGroup k) s)"

definition the_pipelines :: "'a Core_scheme \<Rightarrow> string \<rightharpoonup> GPURenderPipeline" where
  "the_pipelines s = (\<lambda>k. answer (getPipeline k) s)"

definition the_textures :: "'a Core_scheme \<Rightarrow> string \<rightharpoonup> GPUTexture" where
  "the_textures s = (\<lambda>k. answer (getTexture k) s)"

definition the_samplers :: "'a Core_scheme \<Rightarrow> string \<rightharpoonup> GPUSampler" where
  "the_samplers s = (\<lambda>k. answer (getSampler k) s)"

text \<open>
  How a method \<open>m\<close> run on \<open>s\<close> ends when something goes wrong.
  \<open>quiet_but tol cs\<close>: no call of \<open>cs\<close> threw, except calls that \<open>tol\<close> allows to.
  \<open>fails_by_null tol m s\<close>: \<open>m\<close> does not throw; when it returns \<^verbatim>\<open>null\<close> although there is
  a device, it has written to the console; when it returns a handle, no device call of
  the run threw (but those \<open>tol\<close> allows). \<open>fails_by_false m s\<close> is the same for a method
  that returns a boolean.
\<close>

definition quiet_but :: "(api \<Rightarrow> bool) \<Rightarrow> (api \<times> outcome) list \<Rightarrow> bool" where
  "quiet_but tol cs = list_all (\<lambda>e. snd e \<noteq> Threw \<or> tol (fst e)) cs"

definition fails_by_null ::
  "(api \<Rightarrow> bool) \<Rightarrow> ('a Core_scheme, 'h option) js \<Rightarrow> 'a Core_scheme \<Rightarrow> bool" where
  "fails_by_null tol m s =
     (case m s of
        (Inl e, s') \<Rightarrow> False
      | (Inr None, s') \<Rightarrow> device (gpu s) = None \<or> length (console s) < length (console s')
      | (Inr (Some h), s') \<Rightarrow> quiet_but tol (new_calls s s'))"

definition fails_by_false :: "('a Core_scheme, bool) js \<Rightarrow> 'a Core_scheme \<Rightarrow> bool" where
  "fails_by_false m s =
     (case m s of
        (Inl e, s') \<Rightarrow> False
      | (Inr b, s') \<Rightarrow>
          if b then quiet_but (\<lambda>c. False) (new_calls s s')
          else length (console s) < length (console s'))"

text \<open>
  \<open>same_targets s s'\<close>: from \<open>s\<close> to \<open>s'\<close> the post-processor kept its targets, its quad
  and the default sampler, a sound state stayed sound, and the device, if there is one,
  is still there and has given out no identifier twice.
\<close>

definition ids_grow :: "GPUDevice option \<Rightarrow> GPUDevice option \<Rightarrow> bool" where
  "ids_grow a b =
     (case a of None \<Rightarrow> True
      | Some d \<Rightarrow> (case b of None \<Rightarrow> False | Some d' \<Rightarrow> nextId d \<le> nextId d'))"

definition same_targets :: "'a PostProcessor_scheme \<Rightarrow> 'a PostProcessor_scheme \<Rightarrow> bool" where
  "same_targets s s' =
     (renderTarget s' = renderTarget s \<and> depthTexture s' = depthTexture s
      \<and> tempTargets s' = tempTargets s \<and> fullscreenQuad s' = fullscreenQuad s
      \<and> samplers (textureManager s') ''default'' = samplers (textureManager s) ''default''
      \<and> (sound s \<longrightarrow> sound s')
      \<and> ids_grow (device (gpu s)) (device (gpu s')))"





section \<open>Matrix helpers: multiplication by the identity\<close>

lemma upt4: "[0..<4] = [0, 1, 2, 3]"
  by (simp add: upt_rec)

lemma replicate16: "replicate 16 x = [x,x,x,x,x,x,x,x,x,x,x,x,x,x,x,x]"
  by (simp add: numeral_eq_Suc)

lemma loops16:
  "foldl (\<lambda>result i. foldl (\<lambda>result j. result[i * 4 + j := g i j]) result [0,1,2,3::nat])
      [x0,x1,x2,x3,x4,x5,x6,x7,x8,x9,x10,x11,x12,x13,x14,x15] [0,1,2,3::nat]
   = [g 0 0, g 0 1, g 0 2, g 0 3, g 1 0, g 1 1, g 1 2, g 1 3,
      g 2 0, g 2 1, g 2 2, g 2 3, g 3 0, g 3 1, g 3 2, g 3 3]"
  by (simp add: numeral_eq_Suc)

text \<open>The two loops fill the sixteen slots in row-major order.\<close>

lemma multiplyMatrices_unrolled:
  "multiplyMatrices fp a b =
     [f32 fp (mul_entry fp a b 0 0), f32 fp (mul_entry fp a b 0 1),
      f32 fp (mul_entry fp a b 0 2), f32 fp (mul_entry fp a b 0 3),
      f32 fp (mul_entry fp a b 1 0), f32 fp (mul_entry fp a b 1 1),
      f32 fp (mul_entry fp a b 1 2), f32 fp (mul_entry fp a b 1 3),
      f32 fp (mul_entry fp a b 2 0), f32 fp (mul_entry fp a b 2 1),
      f32 fp (mul_entry fp a b 2 2), f32 fp (mul_entry fp a b 2 3),
      f32 fp (mul_entry fp a b 3 0), f32 fp (mul_entry fp a b 3 1),
      f32 fp (mul_entry fp a b 3 2), f32 fp (mul_entry fp a b 3 3)]"
  unfolding multiplyMatrices_def upt4 replicate16 by (rule loops16)

lemma length_multiplyMatrices: "length (multiplyMatrices fp a b) = 16"
  by (simp add: multiplyMatrices_unrolled)

lemma length16_explicit:
  "length (m::'a list) = 16 \<Longrightarrow>
   \<exists>a0 a1 a2 a3 a4 a5 a6 a7 a8 a9 a10 a11 a12 a13 a14 a15.
     m = [a0,a1,a2,a3,a4,a5,a6,a7,a8,a9,a10,a11,a12,a13,a14,a15]"
  by (simp add: eval_nat_numeral length_Suc_conv) blast

lemma exactD: "exact fp v \<Longrightarrow> \<exists>x. v = Fin x \<and> rnd64 fp x = Fin x \<and> rnd32 fp x = Fin x"
  by (cases v) (simp_all add: exact_def)

lemma identity_explicit:
  assumes "exact fp (Fin 0)" "exact fp (Fin 1)"
  shows "createIdentityMatrix fp =
     [Fin 1, Fin 0, Fin 0, Fin 0, Fin 0, Fin 1, Fin 0, Fin 0,
      Fin 0, Fin 0, Fin 1, Fin 0, Fin 0, Fin 0, Fin 0, Fin 1]"
  using assms by (simp add: createIdentityMatrix_def f32_def exact_def)

text \<open>
  A row of the identity against a column of finite numbers: three products by zero and
  one product by one, summed left to right. No step rounds.
\<close>

lemma pick_left:
  assumes z: "rnd64 fp 0 = Fin 0" and x: "rnd64 fp x = Fin x"
  shows "fadd fp (fadd fp (fadd fp (fmul fp (Fin 1) (Fin x)) (fmul fp (Fin 0) (Fin p)))
            (fmul fp (Fin 0) (Fin q))) (fmul fp (Fin 0) (Fin r)) = Fin x"
    and "fadd fp (fadd fp (fadd fp (fmul fp (Fin 0) (Fin p)) (fmul fp (Fin 1) (Fin x)))
            (fmul fp (Fin 0) (Fin q))) (fmul fp (Fin 0) (Fin r)) = Fin x"
    and "fadd fp (fadd fp (fadd fp (fmul fp (Fin 0) (Fin p)) (fmul fp (Fin 0) (Fin q)))
            (fmul fp (Fin 1) (Fin x))) (fmul fp (Fin 0) (Fin r)) = Fin x"
    and "fadd fp (fadd fp (fadd fp (fmul fp (Fin 0) (Fin p)) (fmul fp (Fin 0) (Fin q)))
            (fmul fp (Fin 0) (Fin r))) (fmul fp (Fin 1) (Fin x)) = Fin x"
  using z x by simp_all

lemma pick_right:
  assumes z: "rnd64 fp 0 = Fin 0" and x: "rnd64 fp x = Fin x"
  shows "fadd fp (fadd fp (fadd fp (fmul fp (Fin x) (Fin 1)) (fmul fp (Fin p) (Fin 0)))
            (fmul fp (Fin q) (Fin 0))) (fmul fp (Fin r) (Fin 0)) = Fin x"
    and "fadd fp (fadd fp (fadd fp (fmul fp (Fin p) (Fin 0)) (fmul fp (Fin x) (Fin 1)))
            (fmul fp (Fin q) (Fin 0))) (fmul fp (Fin r) (Fin 0)) = Fin x"
    and "fadd fp (fadd fp (fadd fp (fmul fp (Fin p) (Fin 0)) (fmul fp (Fin q) (Fin 0)))
            (fmul fp (Fin x) (Fin 1))) (fmul fp (Fin r) (Fin 0)) = Fin x"
    and "fadd fp (fadd fp (fadd fp (fmul fp (Fin p) (Fin 0)) (fmul fp (Fin q) (Fin 0)))
            (fmul fp (Fin r) (Fin 0))) (fmul fp (Fin x) (Fin 1)) = Fin x"
  using z x by simp_all

lemma mul_entry_numeral:
  "mul_entry fp a b i j =
     fadd fp (fadd fp (fadd fp
       (fmul fp (rd a (i * 4)) (rd b j))
       (fmul fp (rd a (i * 4 + 1)) (rd b (4 + j))))
       (fmul fp (rd a (i * 4 + 2)) (rd b (8 + j))))
       (fmul fp (rd a (i * 4 + 3)) (rd b (12 + j)))"
  by (simp add: mul_entry_def)

text \<open>
  C10, as stated, quantifies over every 16-element matrix. A \<^verbatim>\<open>Float32Array\<close> may hold an
  infinity, and \<open>0 * Infinity\<close> is NaN: with \<open>m[0] = Infinity\<close> and zeros elsewhere, the
  entries 4, 8 and 12 of the product with the identity are NaN, not 0.
\<close>

theorem identity_infinite_entry_counterexample:
  "\<not> (multiplyMatrices ideal_fp (createIdentityMatrix ideal_fp)
          [PInf, Fin 0, Fin 0, Fin 0, Fin 0, Fin 0, Fin 0, Fin 0,
           Fin 0, Fin 0, Fin 0, Fin 0, Fin 0, Fin 0, Fin 0, Fin 0]
        = [PInf, Fin 0, Fin 0, Fin 0, Fin 0, Fin 0, Fin 0, Fin 0,
           Fin 0, Fin 0, Fin 0, Fin 0, Fin 0, Fin 0, Fin 0, Fin 0]
      \<and> multiplyMatrices ideal_fp
          [PInf, Fin 0, Fin 0, Fin 0, Fin 0, Fin 0, Fin 0, Fin 0,
           Fin 0, Fin 0, Fin 0, Fin 0, Fin 0, Fin 0, Fin 0, Fin 0]
          (createIdentityMatrix ideal_fp)
        = [PInf, Fin 0, Fin 0, Fin 0, Fin 0, Fin 0, Fin 0, Fin 0,
           Fin 0, Fin 0, Fin 0, Fin 0, Fin 0, Fin 0, Fin 0, Fin 0])"
  by (simp add: multiplyMatrices_unrolled mul_entry_numeral rd_def createIdentityMatrix_def
        f32_def ideal_fp_def inf_times_def)

text \<open>
  C10 (amended): for every 16-element matrix \<open>m\<close> whose entries are all finite
  numbers (each one unchanged by rounding, as every finite entry of a \<^verbatim>\<open>Float32Array\<close>
  is, like 0 and 1), \<open>multiplyMatrices(createIdentityMatrix(), m) = m\<close> and
  \<open>multiplyMatrices(m, createIdentityMatrix()) = m\<close>, entry by entry as numbers.
\<close>

theorem identity_two_sided:
  assumes len: "length m = 16"
    and ex: "\<forall>v \<in> set m. exact fp v"
    and e0: "exact fp (Fin 0)" and e1: "exact fp (Fin 1)"
  shows "multiplyMatrices fp (createIdentityMatrix fp) m = m
       \<and> multiplyMatrices fp m (createIdentityMatrix fp) = m"
proof -
  from length16_explicit[OF len]
  obtain a0 a1 a2 a3 a4 a5 a6 a7 a8 a9 a10 a11 a12 a13 a14 a15
    where m: "m = [a0,a1,a2,a3,a4,a5,a6,a7,a8,a9,a10,a11,a12,a13,a14,a15]"
    by (elim exE) auto
  have z: "rnd64 fp 0 = Fin 0" using e0 by (simp add: exact_def)
  have fin: "\<And>v. v \<in> set m \<Longrightarrow> \<exists>x. v = Fin x \<and> rnd64 fp x = Fin x \<and> rnd32 fp x = Fin x"
    using ex exactD by blast
  obtain x0 where x0: "a0 = Fin x0" "rnd64 fp x0 = Fin x0" "rnd32 fp x0 = Fin x0"
    using fin[of a0] m by auto
  obtain x1 where x1: "a1 = Fin x1" "rnd64 fp x1 = Fin x1" "rnd32 fp x1 = Fin x1"
    using fin[of a1] m by auto
  obtain x2 where x2: "a2 = Fin x2" "rnd64 fp x2 = Fin x2" "rnd32 fp x2 = Fin x2"
    using fin[of a2] m by auto
  obtain x3 where x3: "a3 = Fin x3" "rnd64 fp x3 = Fin x3" "rnd32 fp x3 = Fin x3"
    using fin[of a3] m by auto
  obtain x4 where x4: "a4 = Fin x4" "rnd64 fp x4 = Fin x4" "rnd32 fp x4 = Fin x4"
    using fin[of a4] m by auto
  obtain x5 where x5: "a5 = Fin x5" "rnd64 fp x5 = Fin x5" "rnd32 fp x5 = Fin x5"
    using fin[of a5] m by auto
  obtain x6 where x6: "a6 = Fin x6" "rnd64 fp x6 = Fin x6" "rnd32 fp x6 = Fin x6"
    using fin[of a6] m by auto
  obtain x7 where x7: "a7 = Fin x7" "rnd64 fp x7 = Fin x7" "rnd32 fp x7 = Fin x7"
    using fin[of a7] m by auto
  obtain x8 where x8: "a8 = Fin x8" "rnd64 fp x8 = Fin x8" "rnd32 fp x8 = Fin x8"
    using fin[of a8] m by auto
  obtain x9 where x9: "a9 = Fin x9" "rnd64 fp x9 = Fin x9" "rnd32 fp x9 = Fin x9"
    using fin[of a9] m by auto
  obtain x10 where x10: "a10 = Fin x10" "rnd64 fp x10 = Fin x10" "rnd32 fp x10 = Fin x10"
    using fin[of a10] m by auto
  obtain x11 where x11: "a11 = Fin x11" "rnd64 fp x11 = Fin x11" "rnd32 fp x11 = Fin x11"
    using fin[of a11] m by auto
  obtain x12 where x12: "a12 = Fin x12" "rnd64 fp x12 = Fin x12" "rnd32 fp x12 = Fin x12"
    using fin[of a12] m by auto
  obtain x13 where x13: "a13 = Fin x13" "rnd64 fp x13 = Fin x13" "rnd32 fp x13 = Fin x13"
    using fin[of a13] m by auto
  obtain x14 where x14: "a14 = Fin x14" "rnd64 fp x14 = Fin x14" "rnd32 fp x14 = Fin x14"
    using fin[of a14] m by auto
  obtain x15 where x15: "a15 = Fin x15" "rnd64 fp x15 = Fin x15" "rnd32 fp x15 = Fin x15"
    using fin[of a15] m by auto
  note xs = x0 x1 x2 x3 x4 x5 x6 x7 x8 x9 x10 x11 x12 x13 x14 x15
  have left: "multiplyMatrices fp (createIdentityMatrix fp) m = m"
    unfolding multiplyMatrices_unrolled identity_explicit[OF e0 e1] m mul_entry_numeral
    by (simp add: rd_def xs pick_left[OF z] f32_def del: fmul.simps fadd.simps)
  have right: "multiplyMatrices fp m (createIdentityMatrix fp) = m"
    unfolding multiplyMatrices_unrolled identity_explicit[OF e0 e1] m mul_entry_numeral
    by (simp add: rd_def xs pick_right[OF z] f32_def del: fmul.simps fadd.simps)
  from left right show ?thesis by simp
qed

theorem identity_two_sided_witness:
  "length [Fin 2, Fin 0, Fin 0, Fin 3, Fin 0, Fin 5, Fin 0, Fin 0,
           Fin 0, Fin 0, Fin 7, Fin 0, Fin (-1), Fin 4, Fin 0, Fin 1] = 16
   \<and> list_all (exact ideal_fp) [Fin 2, Fin 0, Fin 0, Fin 3, Fin 0, Fin 5, Fin 0, Fin 0,
           Fin 0, Fin 0, Fin 7, Fin 0, Fin (-1), Fin 4, Fin 0, Fin 1]
   \<and> exact ideal_fp (Fin 0) \<and> exact ideal_fp (Fin 1)
   \<and> multiplyMatrices ideal_fp (createIdentityMatrix ideal_fp)
          [Fin 2, Fin 0, Fin 0, Fin 3, Fin 0, Fin 5, Fin 0, Fin 0,
           Fin 0, Fin 0, Fin 7, Fin 0, Fin (-1), Fin 4, Fin 0, Fin 1]
        = [Fin 2, Fin 0, Fin 0, Fin 3, Fin 0, Fin 5, Fin 0, Fin 0,
           Fin 0, Fin 0, Fin 7, Fin 0, Fin (-1), Fin 4, Fin 0, Fin 1]
   \<and> multiplyMatrices ideal_fp
          [Fin 2, Fin 0, Fin 0, Fin 3, Fin 0, Fin 5, Fin 0, Fin 0,
           Fin 0, Fin 0, Fin 7, Fin 0, Fin (-1), Fin 4, Fin 0, Fin 1]
          (createIdentityMatrix ideal_fp)
        = [Fin 2, Fin 0, Fin 0, Fin 3, Fin 0, Fin 5, Fin 0, Fin 0,
           Fin 0, Fin 0, Fin 7, Fin 0, Fin (-1), Fin 4, Fin 0, Fin 1]"
proof -
  have ex: "\<forall>v \<in> set [Fin 2, Fin 0, Fin 0, Fin 3, Fin 0, Fin 5, Fin 0, Fin 0,
           Fin 0, Fin 0, Fin 7, Fin 0, Fin (-1), Fin 4, Fin 0, Fin 1]. exact ideal_fp v"
    by (simp add: exact_def ideal_fp_def)
  have e0: "exact ideal_fp (Fin 0)" and e1: "exact ideal_fp (Fin 1)"
    by (simp_all add: exact_def ideal_fp_def)
  show ?thesis
    using identity_two_sided[OF _ ex e0 e1] ex e0 e1 by simp
qed

section \<open>Control flow: basic facts\<close>

lemma js_bind_return [simp]: "js_bind (js_return x) f s = f x s"
  by (simp add: js_bind_def js_return_def)

lemma js_bind_throw [simp]: "js_bind (js_throw e) f s = (Inl e, s)"
  by (simp add: js_bind_def js_throw_def)

lemma js_bind_get [simp]: "js_bind (js_get g) f s = f (g s) s"
  by (simp add: js_bind_def js_get_def)

lemma js_bind_modify [simp]: "js_bind (js_modify g) f s = f () (g s)"
  by (simp add: js_bind_def js_modify_def)

lemma js_bind_lift [simp]:
  "js_bind (js_lift r) f s = (case r of Inl e \<Rightarrow> (Inl e, s) | Inr x \<Rightarrow> f x s)"
  by (simp add: js_bind_def js_lift_def split: sum.splits)

lemma js_bind_console_error [simp]:
  "js_bind (console_error msg) f s = f () (s\<lparr>console := console s @ [ConsoleError msg]\<rparr>)"
  by (simp add: console_error_def)

lemma js_bind_console_warn [simp]:
  "js_bind (console_warn msg) f s = f () (s\<lparr>console := console s @ [ConsoleWarn msg]\<rparr>)"
  by (simp add: console_warn_def)

lemma js_bind_Inr: "m s = (Inr x, s') \<Longrightarrow> js_bind m f s = f x s'"
  by (simp add: js_bind_def)

lemma js_bind_Inl: "m s = (Inl e, s') \<Longrightarrow> js_bind m f s = (Inl e, s')"
  by (simp add: js_bind_def)

lemma js_catch_Inr: "m s = (Inr x, s') \<Longrightarrow> js_catch m h s = (Inr x, s')"
  by (simp add: js_catch_def)

lemma js_catch_Inl: "m s = (Inl e, s') \<Longrightarrow> js_catch m h s = h e s'"
  by (simp add: js_catch_def)

lemma js_return_apply [simp]: "js_return x s = (Inr x, s)"
  by (simp add: js_return_def)

lemma js_throw_apply [simp]: "js_throw e s = (Inl e, s)"
  by (simp add: js_throw_def)

lemma js_get_apply [simp]: "js_get g s = (Inr (g s), s)"
  by (simp add: js_get_def)

lemma js_modify_apply [simp]: "js_modify g s = (Inr (), g s)"
  by (simp add: js_modify_def)

lemma console_error_apply [simp]:
  "console_error msg s = (Inr (), s\<lparr>console := console s @ [ConsoleError msg]\<rparr>)"
  by (simp add: console_error_def)

lemma console_warn_apply [simp]:
  "console_warn msg s = (Inr (), s\<lparr>console := console s @ [ConsoleWarn msg]\<rparr>)"
  by (simp add: console_warn_def)

lemma device_set_device [simp]: "device (gpu (set_device d s)) = d"
  by (simp add: set_device_def)

text \<open>A \<^verbatim>\<open>try\<close> whose handler returns never throws.\<close>

lemma js_catch_returns:
  assumes "\<And>e s. \<exists>x s'. h e s = (Inr x, s')"
  shows "\<exists>x s'. js_catch m h s = (Inr x, s')"
proof (cases "m s")
  case (Pair r s1)
  then show ?thesis using assms by (cases r) (auto simp: js_catch_def)
qed

lemma js_catch_elim:
  assumes "js_catch m h s = (Inr x, s')"
  obtains "m s = (Inr x, s')" | e s1 where "m s = (Inl e, s1)" "h e s1 = (Inr x, s')"
  using assms by (cases "m s") (auto simp: js_catch_def split: sum.splits)

lemma js_bind_elim:
  assumes "js_bind m f s = (Inr y, s')"
  obtains x s1 where "m s = (Inr x, s1)" "f x s1 = (Inr y, s')"
  using assms by (cases "m s") (auto simp: js_bind_def split: sum.splits)

text \<open>The equations that run a method on a concrete state.\<close>

lemmas js_eval =
  js_bind_def js_catch_def js_lift_def js_return_def js_throw_def js_get_def js_modify_def
  console_error_def console_warn_def native_new_def native_do_def set_device_def
  createView_def record_cmd_def Let_def

lemmas sample_defs =
  sample_initialized_def sample_podium_def new_Podium_def sound_browser_def sound_device_def
  ideal_fp_def

section \<open>UniformManager: what the serializer reads\<close>

lemma replicate24: "replicate 24 x = [x,x,x,x,x,x,x,x,x,x,x,x,x,x,x,x,x,x,x,x,x,x,x,x]"
  by (simp add: numeral_eq_Suc)

text \<open>Two data objects that agree on \<^verbatim>\<open>mvpMatrix\<close> and \<^verbatim>\<open>time\<close> serialize alike.\<close>

lemma serialize_only_reads:
  "data ''mvpMatrix'' = data' ''mvpMatrix'' \<Longrightarrow> data ''time'' = data' ''time'' \<Longrightarrow>
   serializeUniformData fp data = serializeUniformData fp data'"
  by (simp add: serializeUniformData_def cong: sum.case_cong)

lemma updateUniformBuffer_only_reads:
  assumes "data ''mvpMatrix'' = data' ''mvpMatrix''" "data ''time'' = data' ''time''"
  shows "updateUniformBuffer l data off s = updateUniformBuffer l data' off s"
  unfolding updateUniformBuffer_def serialize_only_reads[OF assms] by (rule refl)

lemma sample_initialize:
  "Podium_initialize (sample_podium False) = (Inr True, sample_initialized)"
  by (simp add: Podium_initialize_def WebGPUContext_initialize_def js_eval sample_defs)

lemma serialize_example:
  "serializeUniformData ideal_fp
     [''resolution'' \<mapsto> JsPair (Fin 800) (Fin 600), ''time'' \<mapsto> JsNumber (Fin 2),
      ''intensity'' \<mapsto> JsNumber (Fin 1), ''radius'' \<mapsto> JsNumber (Fin 2)]
   = Inr [Fin 1, Fin 0, Fin 0, Fin 0, Fin 0, Fin 1, Fin 0, Fin 0,
          Fin 0, Fin 0, Fin 1, Fin 0, Fin 0, Fin 0, Fin 0, Fin 1,
          Fin 2, Fin 0, Fin 0, Fin 0, Fin 0, Fin 0, Fin 0, Fin 0]"
  by (simp add: serializeUniformData_def typed_set_def createIdentityMatrix_def f32_def
      ideal_fp_def replicate24)

text \<open>
  C1 says that every field of the data reaches the bytes written to the queue. On an
  initialized \<^verbatim>\<open>Podium\<close> with a uniform buffer \<^verbatim>\<open>blur_uniforms\<close>, the two calls
  \<^verbatim>\<open>updateUniformBuffer('blur_uniforms', {resolution: [800, 600], time: 2, intensity: 1, radius: 2})\<close>
  and
  \<^verbatim>\<open>updateUniformBuffer('blur_uniforms', {resolution: [1024, 768], time: 2, intensity: 0.5, radius: 9, mousePosition: [3, 4]})\<close>
  return \<^verbatim>\<open>true\<close> and leave the same state: both write the identity matrix, the time
  in slot 16 and zeros. The resolution, the intensity, the radius and the mouse position
  are not written.
\<close>

theorem updateUniformBuffer_drops_fields:
  "updateUniformBuffer ''blur_uniforms''
     [''resolution'' \<mapsto> JsPair (Fin 800) (Fin 600), ''time'' \<mapsto> JsNumber (Fin 2),
      ''intensity'' \<mapsto> JsNumber (Fin 1), ''radius'' \<mapsto> JsNumber (Fin 2)] 0
     (snd (createUniformBuffer ''blur_uniforms'' 256 None sample_initialized))
   = updateUniformBuffer ''blur_uniforms''
     [''resolution'' \<mapsto> JsPair (Fin 1024) (Fin 768), ''time'' \<mapsto> JsNumber (Fin 2),
      ''intensity'' \<mapsto> JsNumber (Fin (1 / 2)), ''radius'' \<mapsto> JsNumber (Fin 9),
      ''mousePosition'' \<mapsto> JsPair (Fin 3) (Fin 4)] 0
     (snd (createUniformBuffer ''blur_uniforms'' 256 None sample_initialized))
   \<and> fst (updateUniformBuffer ''blur_uniforms''
     [''resolution'' \<mapsto> JsPair (Fin 800) (Fin 600), ''time'' \<mapsto> JsNumber (Fin 2),
      ''intensity'' \<mapsto> JsNumber (Fin 1), ''radius'' \<mapsto> JsNumber (Fin 2)] 0
     (snd (createUniformBuffer ''blur_uniforms'' 256 None sample_initialized))) = Inr True
   \<and> map_option (last \<circ> calls) (device (gpu (snd (updateUniformBuffer ''blur_uniforms''
     [''resolution'' \<mapsto> JsPair (Fin 800) (Fin 600), ''time'' \<mapsto> JsNumber (Fin 2),
      ''intensity'' \<mapsto> JsNumber (Fin 1), ''radius'' \<mapsto> JsNumber (Fin 2)] 0
     (snd (createUniformBuffer ''blur_uniforms'' 256 None sample_initialized))))))
     = Some (QueueWriteBuffer (GPUBuffer 0 ''blur_uniforms'' 256) 0
         [Fin 1, Fin 0, Fin 0, Fin 0, Fin 0, Fin 1, Fin 0, Fin 0,
          Fin 0, Fin 0, Fin 1, Fin 0, Fin 0, Fin 0, Fin 0, Fin 1,
          Fin 2, Fin 0, Fin 0, Fin 0, Fin 0, Fin 0, Fin 0, Fin 0], Done)"
proof -
  have s: "snd (createUniformBuffer ''blur_uniforms'' 256 None sample_initialized)
     = set_device (Some (sound_device\<lparr>nextId := 1,
          calls := [(CreateBuffer ''blur_uniforms'' 256 False, Made 0)]\<rparr>))
        (sample_initialized\<lparr>uniformManager := \<lparr>uniformBuffers =
             [''blur_uniforms'' \<mapsto> GPUBuffer 0 ''blur_uniforms'' 256],
           bindGroups = Map.empty, uniformLayouts = Map.empty\<rparr>\<rparr>)"
    by (simp add: createUniformBuffer_def js_eval sample_defs alignedSize_def)
  have same: "serializeUniformData ideal_fp
     [''resolution'' \<mapsto> JsPair (Fin 1024) (Fin 768), ''time'' \<mapsto> JsNumber (Fin 2),
      ''intensity'' \<mapsto> JsNumber (Fin (1 / 2)), ''radius'' \<mapsto> JsNumber (Fin 9),
      ''mousePosition'' \<mapsto> JsPair (Fin 3) (Fin 4)]
    = serializeUniformData ideal_fp
     [''resolution'' \<mapsto> JsPair (Fin 800) (Fin 600), ''time'' \<mapsto> JsNumber (Fin 2),
      ''intensity'' \<mapsto> JsNumber (Fin 1), ''radius'' \<mapsto> JsNumber (Fin 2)]"
    by (rule serialize_only_reads) simp_all
  show ?thesis
    unfolding s
    by (simp add: updateUniformBuffer_def same serialize_example js_eval
        sample_initialized_def sample_podium_def new_Podium_def sound_device_def)
qed


section \<open>States that differ only by what was logged and called\<close>

lemma device_grows_refl [simp]: "device_grows P a a"
  by (simp add: device_grows_def split: option.splits)

lemma device_grows_trans:
  "device_grows P a b \<Longrightarrow> device_grows P b c \<Longrightarrow> device_grows P a c"
  by (auto simp: device_grows_def split: option.splits)

lemma device_grows_mono:
  "device_grows P a b \<Longrightarrow> (\<And>c. P c \<Longrightarrow> Q c) \<Longrightarrow> device_grows Q a b"
  by (auto simp: device_grows_def list_all_iff split: option.splits)

lemma only_logs_iff:
  "only_logs P s s' \<longleftrightarrow>
     (\<exists>ls dv. s' = s\<lparr>console := console s @ ls, gpu := (gpu s)\<lparr>device := dv\<rparr>\<rparr>
        \<and> device_grows P (device (gpu s)) dv)"
proof
  assume "only_logs P s s'"
  then obtain ls where a: "s' = s\<lparr>console := console s', gpu := (gpu s)\<lparr>device := device (gpu s')\<rparr>\<rparr>"
    and b: "console s' = console s @ ls" and c: "device_grows P (device (gpu s)) (device (gpu s'))"
    by (auto simp: only_logs_def)
  from a b have "s' = s\<lparr>console := console s @ ls, gpu := (gpu s)\<lparr>device := device (gpu s')\<rparr>\<rparr>"
    by simp
  with c show "\<exists>ls dv. s' = s\<lparr>console := console s @ ls, gpu := (gpu s)\<lparr>device := dv\<rparr>\<rparr>
        \<and> device_grows P (device (gpu s)) dv" by blast
next
  assume "\<exists>ls dv. s' = s\<lparr>console := console s @ ls, gpu := (gpu s)\<lparr>device := dv\<rparr>\<rparr>
        \<and> device_grows P (device (gpu s)) dv"
  then obtain ls dv where a: "s' = s\<lparr>console := console s @ ls, gpu := (gpu s)\<lparr>device := dv\<rparr>\<rparr>"
    and c: "device_grows P (device (gpu s)) dv" by blast
  show "only_logs P s s'"
    unfolding only_logs_def using c by (simp add: a)
qed

lemma only_logsI:
  "device_grows P (device (gpu s)) dv \<Longrightarrow>
   only_logs P s (s\<lparr>console := console s @ ls, gpu := (gpu s)\<lparr>device := dv\<rparr>\<rparr>)"
  unfolding only_logs_iff by blast

lemma only_logs_refl [simp]: "only_logs P s s"
  by (simp add: only_logs_def)

lemma only_logs_trans: "only_logs P a b \<Longrightarrow> only_logs P b c \<Longrightarrow> only_logs P a c"
  unfolding only_logs_iff
  by (elim exE conjE) (auto intro: device_grows_trans)

lemma only_logs_console [simp]: "only_logs P s (s\<lparr>console := console s @ ls\<rparr>)"
  using only_logsI[of P s "device (gpu s)" ls] by simp

lemma only_logs_frame:
  assumes "only_logs P s s'"
  shows "uniformManager s' = uniformManager s" "textureManager s' = textureManager s"
    "shaderManager s' = shaderManager s" "browser s' = browser s" "arith s' = arith s"
    "performance_now s' = performance_now s" "Core.more s' = Core.more s"
    "canvasContext (gpu s') = canvasContext (gpu s)"
    "canvasWidth (gpu s') = canvasWidth (gpu s)" "canvasHeight (gpu s') = canvasHeight (gpu s)"
    "device_grows P (device (gpu s)) (device (gpu s'))"
  using assms unfolding only_logs_iff by auto

lemma only_logs_PostProcessor:
  fixes s :: "'a PostProcessor_scheme"
  assumes "only_logs P s s'"
  shows "renderTarget s' = renderTarget s" "depthTexture s' = depthTexture s"
    "tempTargets s' = tempTargets s" "passes s' = passes s"
    "fullscreenQuad s' = fullscreenQuad s" "width s' = width s" "height s' = height s"
  using assms unfolding only_logs_iff by auto


lemma sound_only_logs: "sound s \<Longrightarrow> only_logs P s s' \<Longrightarrow> sound s'"
  unfolding only_logs_iff sound_def
  by (auto simp: device_grows_def split: option.splits)

lemma only_logs_set_device:
  "device_grows P (device (gpu s)) dv \<Longrightarrow> only_logs P s (set_device dv s)"
  unfolding only_logs_iff set_device_def
  by (rule exI[of _ "[]"], rule exI[of _ dv]) simp

lemma only_logs_native_new: "P c \<Longrightarrow> only_logs P s (snd (native_new c s))"
  unfolding native_new_def
  by (cases "device (gpu s)")
     (auto intro!: only_logs_set_device simp: device_grows_def)

lemma only_logs_native_do: "P c \<Longrightarrow> only_logs P s (snd (native_do c s))"
  unfolding native_do_def
  by (cases "device (gpu s)")
     (auto intro!: only_logs_set_device simp: device_grows_def)

lemma only_logs_bind:
  assumes "only_logs P s (snd (m s))"
    and "\<And>x s1. m s = (Inr x, s1) \<Longrightarrow> only_logs P s1 (snd (f x s1))"
  shows "only_logs P s (snd (js_bind m f s))"
proof (cases "m s")
  case (Pair r s1)
  show ?thesis
  proof (cases r)
    case (Inl e)
    with Pair assms(1) show ?thesis by (simp add: js_bind_def)
  next
    case (Inr x)
    with Pair assms(1) assms(2)[of x s1] show ?thesis
      by (auto simp: js_bind_def intro: only_logs_trans)
  qed
qed

lemma only_logs_catch:
  assumes "only_logs P s (snd (m s))"
    and "\<And>e s1. m s = (Inl e, s1) \<Longrightarrow> only_logs P s1 (snd (h e s1))"
  shows "only_logs P s (snd (js_catch m h s))"
proof (cases "m s")
  case (Pair r s1)
  show ?thesis
  proof (cases r)
    case (Inr x)
    with Pair assms(1) show ?thesis by (simp add: js_catch_def)
  next
    case (Inl e)
    with Pair assms(1) assms(2)[of e s1] show ?thesis
      by (auto simp: js_catch_def intro: only_logs_trans)
  qed
qed

lemma native_new_sound:
  assumes "sound s" and "P c"
  shows "\<exists>i s'. native_new c s = (Inr i, s') \<and> only_logs P s s'"
proof -
  from assms obtain d where d: "device (gpu s) = Some d" "\<not> fails d (length (calls d)) c"
    by (auto simp: sound_def)
  then have "fst (native_new c s) = Inr (nextId d)" by (simp add: native_new_def)
  then show ?thesis using only_logs_native_new[of P c s] assms(2) by (cases "native_new c s") auto
qed

lemma native_do_sound:
  assumes "sound s" and "P c"
  shows "\<exists>s'. native_do c s = (Inr (), s') \<and> only_logs P s s'"
proof -
  from assms obtain d where d: "device (gpu s) = Some d" "\<not> fails d (length (calls d)) c"
    by (auto simp: sound_def)
  then have "fst (native_do c s) = Inr ()" by (simp add: native_do_def)
  then show ?thesis using only_logs_native_do[of P c s] assms(2) by (cases "native_do c s") auto
qed

lemma only_logs_updateUniformBuffer:
  "(\<And>b o' bs. P (QueueWriteBuffer b o' bs)) \<Longrightarrow>
   only_logs P s (snd (updateUniformBuffer l data off s))"
  unfolding updateUniformBuffer_def
  by (auto split: option.splits sum.splits
      intro!: only_logs_catch only_logs_bind only_logs_native_do simp: js_lift_def)

lemma updateUniformBuffer_returns: "\<exists>b s'. updateUniformBuffer l data off s = (Inr b, s')"
  unfolding updateUniformBuffer_def
  by (auto split: option.splits intro!: js_catch_returns)

section \<open>States that differ by the managers as well\<close>

lemma only_logsE:
  assumes "only_logs P s s'"
  obtains ls dv where "s' = s\<lparr>console := console s @ ls, gpu := (gpu s)\<lparr>device := dv\<rparr>\<rparr>"
    and "device_grows P (device (gpu s)) dv"
  using assms unfolding only_logs_iff by blast

lemma only_logs_patch:
  assumes "only_logs P x y"
  shows "only_logs P (x\<lparr>shaderManager := sm, textureManager := tm, uniformManager := um\<rparr>)
                     (y\<lparr>shaderManager := sm, textureManager := tm, uniformManager := um\<rparr>)"
proof -
  from assms obtain ls dv
    where y: "y = x\<lparr>console := console x @ ls, gpu := (gpu x)\<lparr>device := dv\<rparr>\<rparr>"
      and g: "device_grows P (device (gpu x)) dv"
    by (rule only_logsE)
  let ?x = "x\<lparr>shaderManager := sm, textureManager := tm, uniformManager := um\<rparr>"
  have "y\<lparr>shaderManager := sm, textureManager := tm, uniformManager := um\<rparr>
      = ?x\<lparr>console := console ?x @ ls, gpu := (gpu ?x)\<lparr>device := dv\<rparr>\<rparr>"
    by (simp add: y)
  moreover have "device_grows P (device (gpu ?x)) dv" using g by simp
  ultimately show ?thesis using only_logsI[of P ?x dv ls] by simp
qed

lemma only_logs_managers: "only_logs P s s' \<Longrightarrow> only_managers P s s'"
proof -
  assume a: "only_logs P s s'"
  then have "shaderManager s' = shaderManager s" "textureManager s' = textureManager s"
    "uniformManager s' = uniformManager s"
    by (simp_all add: only_logs_frame)
  then have "s\<lparr>shaderManager := shaderManager s', textureManager := textureManager s',
                uniformManager := uniformManager s'\<rparr> = s" by simp
  then show ?thesis unfolding only_managers_def using a by simp
qed

lemma only_managers_refl [simp]: "only_managers P s s"
  by (simp add: only_logs_managers)

lemma only_managers_trans:
  assumes "only_managers P a b" and "only_managers P b c"
  shows "only_managers P a c"
proof -
  from assms(1) have "only_logs P (a\<lparr>shaderManager := shaderManager b,
      textureManager := textureManager b, uniformManager := uniformManager b\<rparr>) b"
    by (simp add: only_managers_def)
  from only_logs_patch[OF this, where sm="shaderManager c" and tm="textureManager c"
      and um="uniformManager c"]
  have "only_logs P (a\<lparr>shaderManager := shaderManager c,
      textureManager := textureManager c, uniformManager := uniformManager c\<rparr>)
     (b\<lparr>shaderManager := shaderManager c,
      textureManager := textureManager c, uniformManager := uniformManager c\<rparr>)" by simp
  moreover from assms(2) have "only_logs P (b\<lparr>shaderManager := shaderManager c,
      textureManager := textureManager c, uniformManager := uniformManager c\<rparr>) c"
    by (simp add: only_managers_def)
  ultimately show ?thesis unfolding only_managers_def by (rule only_logs_trans)
qed

lemma only_managers_frame:
  assumes "only_managers P s s'"
  shows "browser s' = browser s" "arith s' = arith s"
    "performance_now s' = performance_now s" "Core.more s' = Core.more s"
    "canvasContext (gpu s') = canvasContext (gpu s)"
    "canvasWidth (gpu s') = canvasWidth (gpu s)" "canvasHeight (gpu s') = canvasHeight (gpu s)"
    "device_grows P (device (gpu s)) (device (gpu s'))"
  using only_logs_frame[OF assms[unfolded only_managers_def]] by simp_all

lemma only_managers_PostProcessor:
  fixes s :: "'a PostProcessor_scheme"
  assumes "only_managers P s s'"
  shows "renderTarget s' = renderTarget s" "depthTexture s' = depthTexture s"
    "tempTargets s' = tempTargets s" "passes s' = passes s"
    "fullscreenQuad s' = fullscreenQuad s" "width s' = width s" "height s' = height s"
  using only_logs_PostProcessor[OF assms[unfolded only_managers_def]] by simp_all


lemma sound_patch [simp]:
  "sound (s\<lparr>shaderManager := sm, textureManager := tm, uniformManager := um\<rparr>) = sound s"
  by (simp add: sound_def)

lemma sound_only_managers: "sound s \<Longrightarrow> only_managers P s s' \<Longrightarrow> sound s'"
  unfolding only_managers_def using sound_only_logs[of "s\<lparr>shaderManager := shaderManager s',
      textureManager := textureManager s', uniformManager := uniformManager s'\<rparr>" P s']
  by simp

lemma only_managers_update:
  "only_managers P s (shaderManager_update f s)"
  "only_managers P s (textureManager_update g s)"
  "only_managers P s (uniformManager_update h s)"
  by (cases s, simp add: only_managers_def)+

section \<open>The managers on a sound state\<close>

lemma allocates_no_texture_simps [simp]:
  "allocates_no_texture (CreateBuffer l n b)" "allocates_no_texture (MappedInit bf bs)"
  "\<not> allocates_no_texture (CreateTexture l)" "allocates_no_texture (CreateSampler l)"
  "allocates_no_texture (CreateShaderModule l src)" "allocates_no_texture (CreateBindGroupLayout l)"
  "allocates_no_texture (CreateBindGroup lo es)" "allocates_no_texture (CreatePipelineLayout l)"
  "allocates_no_texture (CreateRenderPipeline l)" "allocates_no_texture (QueueWriteBuffer bf off xs)"
  "allocates_no_texture (CopyExternalImageToTexture t)" "allocates_no_texture (CreateCommandEncoder l)"
  "allocates_no_texture (QueueSubmit ps)"
  by (simp_all add: allocates_no_texture_def)

lemma sound_device: "sound s \<Longrightarrow> device (gpu s) \<noteq> None"
  by (auto simp: sound_def)

lemma createSampler_sound:
  assumes "sound s"
  shows "\<exists>i s'. createSampler l s = (Inr (Some (GPUSampler i l)), s')
      \<and> only_managers allocates_no_texture s s'
      \<and> samplers (textureManager s') = (samplers (textureManager s))(l \<mapsto> GPUSampler i l)
      \<and> shaderManager s' = shaderManager s \<and> uniformManager s' = uniformManager s"
proof -
  from native_new_sound[OF assms, of allocates_no_texture "CreateSampler l"]
  obtain i s1 where n: "native_new (CreateSampler l) s = (Inr i, s1)"
    and l1: "only_logs allocates_no_texture s s1" by auto
  let ?s' = "textureManager_update (samplers_update (\<lambda>m. m(l \<mapsto> GPUSampler i l))) s1"
  have "createSampler l s = (Inr (Some (GPUSampler i l)), ?s')"
    using sound_device[OF assms] by (simp add: createSampler_def js_catch_def js_bind_def Let_def n)
  moreover have "only_managers allocates_no_texture s ?s'"
    using only_logs_managers[OF l1] only_managers_update(2) by (rule only_managers_trans)
  moreover have "samplers (textureManager ?s') = (samplers (textureManager s))(l \<mapsto> GPUSampler i l)"
    "shaderManager ?s' = shaderManager s" "uniformManager ?s' = uniformManager s"
    using only_logs_frame[OF l1] by simp_all
  ultimately show ?thesis by blast
qed

lemma createShaderModule_sound:
  assumes "sound s"
  shows "\<exists>i s'. createShaderModule l src s = (Inr (Some (GPUShaderModule i l src)), s')
      \<and> only_managers allocates_no_texture s s'
      \<and> textureManager s' = textureManager s \<and> uniformManager s' = uniformManager s"
proof -
  from native_new_sound[OF assms, of allocates_no_texture "CreateShaderModule l src"]
  obtain i s1 where n: "native_new (CreateShaderModule l src) s = (Inr i, s1)"
    and l1: "only_logs allocates_no_texture s s1" by auto
  let ?s' = "shaderManager_update (shaderModules_update (\<lambda>m. m(l \<mapsto> GPUShaderModule i l src))) s1"
  have "createShaderModule l src s = (Inr (Some (GPUShaderModule i l src)), ?s')"
    using sound_device[OF assms] by (simp add: createShaderModule_def js_catch_def js_bind_def Let_def n)
  moreover have "only_managers allocates_no_texture s ?s'"
    using only_logs_managers[OF l1] only_managers_update(1) by (rule only_managers_trans)
  moreover have "textureManager ?s' = textureManager s" "uniformManager ?s' = uniformManager s"
    using only_logs_frame[OF l1] by simp_all
  ultimately show ?thesis by blast
qed

lemma checkCompilation_clean:
  assumes "MsgError \<notin> set info"
  shows "\<exists>s'. checkCompilation info kind s = (Inr False, s') \<and> only_logs P s s'"
proof (cases "info = []")
  case True
  then show ?thesis by (simp add: checkCompilation_def)
next
  case False
  then have "checkCompilation info kind s
     = (Inr False, s\<lparr>console := console s @ ([ConsoleError (kind @ '' shader compilation issues'')]
          @ map (\<lambda>m. ConsoleError ''compilation message'') info)\<rparr>)"
    using assms by (simp add: checkCompilation_def)
  then show ?thesis using only_logs_console by metis
qed

text \<open>
  \<^verbatim>\<open>createPipeline\<close> with a bind group layout given, on a sound state: it returns the
  pipeline the device made and stores it under the label; the texture and uniform
  managers are untouched.
\<close>

lemma createPipeline_sound:
  assumes snd: "sound s"
  shows "\<exists>p s'. createPipeline l src
           \<lparr>opt_bindGroupLayouts = Some (bgl # bgls), opt_depthTest = dt\<rparr> s = (Inr (Some p), s')
      \<and> only_managers allocates_no_texture s s'
      \<and> textureManager s' = textureManager s \<and> uniformManager s' = uniformManager s
      \<and> pipelines (shaderManager s') l = Some p
      \<and> (\<exists>j i iv ifr. p = GPURenderPipeline j l
             (GPUPipelineLayout i (l @ ''_layout'') (bgl # bgls))
             (GPUShaderModule iv (l @ ''_vertex'') (vertex src))
             (GPUShaderModule ifr (l @ ''_fragment'') (fragment src)) dt)"
proof -
  obtain iv s1 where vm: "createShaderModule (l @ ''_vertex'') (vertex src) s
        = (Inr (Some (GPUShaderModule iv (l @ ''_vertex'') (vertex src))), s1)"
    and m1: "only_managers allocates_no_texture s s1"
    and f1: "textureManager s1 = textureManager s" "uniformManager s1 = uniformManager s"
    using createShaderModule_sound[OF snd] by blast
  have snd1: "sound s1" using snd m1 by (rule sound_only_managers)
  obtain ifr s2 where fm: "createShaderModule (l @ ''_fragment'') (fragment src) s1
        = (Inr (Some (GPUShaderModule ifr (l @ ''_fragment'') (fragment src))), s2)"
    and m2: "only_managers allocates_no_texture s1 s2"
    and f2: "textureManager s2 = textureManager s1" "uniformManager s2 = uniformManager s1"
    using createShaderModule_sound[OF snd1] by blast
  have snd2: "sound s2" using snd1 m2 by (rule sound_only_managers)
  from snd2 obtain d where d: "device (gpu s2) = Some d"
    and clean: "\<And>code. MsgError \<notin> set (compilationInfo d code)"
    by (auto simp: sound_def)
  obtain s3 where c1: "checkCompilation (compilationInfo d (vertex src)) ''Vertex'' s2 = (Inr False, s3)"
    and l3: "only_logs allocates_no_texture s2 s3"
    using checkCompilation_clean[OF clean] by blast
  obtain s4 where c2: "checkCompilation (compilationInfo d (fragment src)) ''Fragment'' s3 = (Inr False, s4)"
    and l4: "only_logs allocates_no_texture s3 s4"
    using checkCompilation_clean[OF clean] by blast
  have snd4: "sound s4" using snd2 l3 l4 by (blast intro: sound_only_logs)
  obtain i s5 where pl: "native_new (CreatePipelineLayout (l @ ''_layout'')) s4 = (Inr i, s5)"
    and l5: "only_logs allocates_no_texture s4 s5"
    using native_new_sound[OF snd4, of allocates_no_texture
        "CreatePipelineLayout (l @ ''_layout'')"] by auto
  have snd5: "sound s5" using snd4 l5 by (rule sound_only_logs)
  obtain j s6 where rp: "native_new (CreateRenderPipeline l) s5 = (Inr j, s6)"
    and l6: "only_logs allocates_no_texture s5 s6"
    using native_new_sound[OF snd5, of allocates_no_texture "CreateRenderPipeline l"] by auto
  let ?p = "GPURenderPipeline j l (GPUPipelineLayout i (l @ ''_layout'') (bgl # bgls))
       (GPUShaderModule iv (l @ ''_vertex'') (vertex src))
       (GPUShaderModule ifr (l @ ''_fragment'') (fragment src)) dt"
  let ?s' = "shaderManager_update (pipelines_update (\<lambda>m. m(l \<mapsto> ?p))) s6"
  have run: "createPipeline l src \<lparr>opt_bindGroupLayouts = Some (bgl # bgls), opt_depthTest = dt\<rparr> s
      = (Inr (Some ?p), ?s')"
    using sound_device[OF snd] vm fm d c1 c2 pl rp
    by (simp add: createPipeline_def js_catch_def js_bind_def Let_def)
  have "only_logs allocates_no_texture s2 s6"
    using l3 l4 l5 l6 by (blast intro: only_logs_trans)
  then have l26: "only_managers allocates_no_texture s2 s6" by (rule only_logs_managers)
  have "only_managers allocates_no_texture s ?s'"
    using m1 m2 l26 only_managers_update(1)[of allocates_no_texture s6]
    by (blast intro: only_managers_trans)
  moreover have "textureManager ?s' = textureManager s" "uniformManager ?s' = uniformManager s"
    using f1 f2 only_logs_frame[OF \<open>only_logs allocates_no_texture s2 s6\<close>] by simp_all
  moreover have "pipelines (shaderManager ?s') l = Some ?p" by simp
  moreover have "\<exists>j i iv ifr. ?p = GPURenderPipeline j l
             (GPUPipelineLayout i (l @ ''_layout'') (bgl # bgls))
             (GPUShaderModule iv (l @ ''_vertex'') (vertex src))
             (GPUShaderModule ifr (l @ ''_fragment'') (fragment src)) dt" by blast
  ultimately show ?thesis using run by blast
qed

section \<open>PostProcessor: one pass\<close>

lemma record_cmd_sound:
  "sound s \<Longrightarrow> record_cmd c rp s = (Inr (rp\<lparr>commands := commands rp @ [c]\<rparr>), s)"
  by (simp add: record_cmd_def sound_def)

lemma Plane_bind_sound:
  "sound s \<Longrightarrow> Plane_bind p rp s = (Inr (rp\<lparr>commands := commands rp @ Plane_bind_cmds p\<rparr>), s)"
  by (auto simp: Plane_bind_def Plane_bind_cmds_def record_cmd_sound js_bind_def
      split: option.splits)

lemma Plane_draw_sound:
  "sound s \<Longrightarrow> Plane_draw p rp s
     = (Inr (rp\<lparr>commands := commands rp @ [DrawIndexed (indexCount p)]\<rparr>), s)"
  by (simp add: Plane_draw_def record_cmd_sound)

lemma only_logs_updateEffectUniforms:
  "only_logs allocates_no_texture s (snd (updateEffectUniforms ident options s))"
  by (simp add: updateEffectUniforms_def only_logs_updateUniformBuffer allocates_no_texture_def)

lemma updateEffectUniforms_returns:
  "\<exists>b s'. updateEffectUniforms ident options s = (Inr b, s')"
  by (simp add: updateEffectUniforms_def updateUniformBuffer_returns)

lemma createPostProcessBindGroupLayout_sound:
  assumes "sound s"
  shows "\<exists>i s'. createPostProcessBindGroupLayout s
           = (Inr (Some (GPUBindGroupLayout i ''postprocess_bind_group_layout'')), s')
         \<and> only_logs allocates_no_texture s s'"
proof -
  from native_new_sound[OF assms, of allocates_no_texture
      "CreateBindGroupLayout ''postprocess_bind_group_layout''"]
  obtain i s' where n: "native_new (CreateBindGroupLayout ''postprocess_bind_group_layout'') s
      = (Inr i, s')" and l: "only_logs allocates_no_texture s s'"
    by (auto simp: allocates_no_texture_def)
  from assms have "device (gpu s) \<noteq> None" by (auto simp: sound_def)
  then show ?thesis using n l
    by (simp add: createPostProcessBindGroupLayout_def js_bind_def n)
qed

lemma createPostProcessBindGroup_sound:
  assumes "sound s"
  shows "\<exists>i s'. createPostProcessBindGroup layout ub (Some t) smp s
           = (Inr (Some (GPUBindGroup i (Some ''postprocess_bind_group'') layout
                 [(0, BufferBinding ub), (1, ViewBinding (GPUTextureView t)),
                  (2, SamplerBinding smp)])), s')
         \<and> only_logs allocates_no_texture s s'"
proof -
  from native_new_sound[OF assms, of allocates_no_texture
      "CreateBindGroup (Some ''postprocess_bind_group'')
      [(0, BufferBinding ub), (1, ViewBinding (GPUTextureView t)), (2, SamplerBinding smp)]"]
  obtain i s' where n: "native_new (CreateBindGroup (Some ''postprocess_bind_group'')
      [(0, BufferBinding ub), (1, ViewBinding (GPUTextureView t)), (2, SamplerBinding smp)]) s
      = (Inr i, s')" and l: "only_logs allocates_no_texture s s'"
    by (auto simp: allocates_no_texture_def)
  from assms have "device (gpu s) \<noteq> None" by (auto simp: sound_def)
  then show ?thesis using n l
    by (simp add: createPostProcessBindGroup_def createView_def js_bind_def Let_def n)
qed

text \<open>
  One pass on a sound state with a quad and a default sampler: the pass receives the
  effect's pipeline, a bind group over the effect's uniform buffer, the input texture
  and the sampler, the quad's buffers and the draw; nothing but console and device
  changes.
\<close>

lemma renderPostProcessPass_sound:
  fixes s :: "'a PostProcessor_scheme"
  assumes snd: "sound s" and quad: "fullscreenQuad s = Some quad"
    and smp: "samplers (textureManager s) ''default'' = Some sampler"
  shows "\<exists>i l s'. renderPostProcessPass rp pass (Some t) time s
           = (Inr (rp\<lparr>commands := commands rp
                 @ [SetPipeline (pass_pipeline pass),
                    SetBindGroup 0 (GPUBindGroup i (Some ''postprocess_bind_group'') l
                      [(0, BufferBinding (pass_uniformBuffer pass)),
                       (1, ViewBinding (GPUTextureView t)), (2, SamplerBinding sampler)])]
                 @ Plane_bind_cmds quad @ [DrawIndexed (indexCount quad)]\<rparr>), s')
         \<and> only_logs allocates_no_texture s s'"
proof -
  obtain b s1 where u: "updateEffectUniforms (pass_id pass)
      ((pass_options pass)(''time'' \<mapsto> JsNumber time)) s = (Inr b, s1)"
    using updateEffectUniforms_returns by blast
  have l1: "only_logs allocates_no_texture s s1"
    using only_logs_updateEffectUniforms[of s "pass_id pass"] u by (metis snd_conv)
  have s1: "sound s1" using snd l1 by (rule sound_only_logs)
  obtain j s2 where c: "createPostProcessBindGroupLayout s1
      = (Inr (Some (GPUBindGroupLayout j ''postprocess_bind_group_layout'')), s2)"
    and l2: "only_logs allocates_no_texture s1 s2"
    using createPostProcessBindGroupLayout_sound[OF s1] by blast
  have s2: "sound s2" using s1 l2 by (rule sound_only_logs)
  have smp2: "samplers (textureManager s2) ''default'' = Some sampler"
    using smp only_logs_frame(2)[OF l1] only_logs_frame(2)[OF l2] by simp
  obtain i s3 where g: "createPostProcessBindGroup
      (GPUBindGroupLayout j ''postprocess_bind_group_layout'') (pass_uniformBuffer pass)
      (Some t) sampler s2
      = (Inr (Some (GPUBindGroup i (Some ''postprocess_bind_group'')
           (GPUBindGroupLayout j ''postprocess_bind_group_layout'')
           [(0, BufferBinding (pass_uniformBuffer pass)), (1, ViewBinding (GPUTextureView t)),
            (2, SamplerBinding sampler)])), s3)"
    and l3: "only_logs allocates_no_texture s2 s3"
    using createPostProcessBindGroup_sound[OF s2] by blast
  have s3: "sound s3" using s2 l3 by (rule sound_only_logs)
  have "renderPostProcessPass rp pass (Some t) time s
      = (Inr (rp\<lparr>commands := commands rp
                 @ [SetPipeline (pass_pipeline pass),
                    SetBindGroup 0 (GPUBindGroup i (Some ''postprocess_bind_group'')
                      (GPUBindGroupLayout j ''postprocess_bind_group_layout'')
                      [(0, BufferBinding (pass_uniformBuffer pass)),
                       (1, ViewBinding (GPUTextureView t)), (2, SamplerBinding sampler)])]
                 @ Plane_bind_cmds quad @ [DrawIndexed (indexCount quad)]\<rparr>), s3)"
    by (simp add: renderPostProcessPass_def quad js_bind_def u c g
        getSampler_def smp2 record_cmd_sound[OF s3] Plane_bind_sound[OF s3]
        Plane_draw_sound[OF s3])
  moreover have "only_logs allocates_no_texture s s3"
    using l1 l2 l3 by (blast intro: only_logs_trans)
  ultimately show ?thesis by blast
qed

lemma cmd_reads_Plane_bind_cmds [simp]: "concat (map cmd_reads (Plane_bind_cmds q)) = []"
  by (auto simp: Plane_bind_cmds_def split: option.splits)

lemma cmd_pipelines_Plane_bind_cmds [simp]: "concat (map cmd_pipelines (Plane_bind_cmds q)) = []"
  by (auto simp: Plane_bind_cmds_def split: option.splits)

text \<open>The same, said with what the pass reads, writes and sets.\<close>

lemma renderPostProcessPass_pass:
  fixes s :: "'a PostProcessor_scheme"
  assumes "sound s" and "fullscreenQuad s = Some quad"
    and "samplers (textureManager s) ''default'' = Some sampler"
  shows "\<exists>rp' s'. renderPostProcessPass rp pass (Some t) time s = (Inr rp', s')
         \<and> only_logs allocates_no_texture s s'
         \<and> pass_reads rp' = pass_reads rp @ [t]
         \<and> pass_pipelines rp' = pass_pipelines rp @ [pass_pipeline pass]
         \<and> colorView rp' = colorView rp \<and> pass_label rp' = pass_label rp
         \<and> last (commands rp') = DrawIndexed (indexCount quad)"
proof -
  from renderPostProcessPass_sound[OF assms, of rp pass t time]
  obtain i l s' where r: "renderPostProcessPass rp pass (Some t) time s
           = (Inr (rp\<lparr>commands := commands rp
                 @ [SetPipeline (pass_pipeline pass),
                    SetBindGroup 0 (GPUBindGroup i (Some ''postprocess_bind_group'') l
                      [(0, BufferBinding (pass_uniformBuffer pass)),
                       (1, ViewBinding (GPUTextureView t)), (2, SamplerBinding sampler)])]
                 @ Plane_bind_cmds quad @ [DrawIndexed (indexCount quad)]\<rparr>), s')"
    and l: "only_logs allocates_no_texture s s'" by blast
  show ?thesis
    unfolding r using l by (simp add: pass_reads_def pass_pipelines_def)
qed

text \<open>
  The loop over the enabled passes, from index \<open>i\<close> with \<open>n\<close> passes in all: pass \<open>k\<close>
  of the rest is recorded as one render pass that sets that pass's pipeline; the first
  reads the current input and every later one the temporary target before it; each
  writes the temporary target of its index, except the last of all, which writes the
  final target.
\<close>

lemma applyPasses_sound:
  fixes s :: "'a PostProcessor_scheme"
  assumes "sound s" and "fullscreenQuad s = Some quad"
    and "samplers (textureManager s) ''default'' = Some sampler"
    and "tempTargets s \<noteq> []" and "i + length ps = n"
  shows "\<exists>rps s'. applyPasses ps i n (Some cin) ft time enc s = (Inr (enc @ rps), s')
      \<and> only_logs allocates_no_texture s s' \<and> length rps = length ps
      \<and> (\<forall>k < length ps.
            pass_pipelines (rps ! k) = [pass_pipeline (ps ! k)]
          \<and> last (commands (rps ! k)) = DrawIndexed (indexCount quad)
          \<and> pass_reads (rps ! k)
              = [if k = 0 then cin
                 else tempTargets s ! ((i + k - 1) mod length (tempTargets s))]
          \<and> colorView (rps ! k)
              = (if i + k = n - 1 then ft
                 else GPUTextureView (tempTargets s ! ((i + k) mod length (tempTargets s))))
          \<and> pass_label (rps ! k)
              = (if i + k = n - 1 then ''postprocess_final_'' else ''postprocess_'')
                @ pass_id (ps ! k))"
  using assms
proof (induction ps arbitrary: i cin enc s)
  case Nil
  then show ?case by simp
next
  case (Cons p rest)
  let ?temps = "tempTargets s"
  show ?case
  proof (cases "i = n - 1")
    case True
    with Cons.prems(5) have rest: "rest = []" by (cases rest) auto
    let ?rp0 = "\<lparr>pass_label = ''postprocess_final_'' @ pass_id p, colorView = ft,
                 depthView = None, commands = []\<rparr>"
    from renderPostProcessPass_pass[OF Cons.prems(1-3), of ?rp0 p cin time]
    obtain rp' s' where r: "renderPostProcessPass ?rp0 p (Some cin) time s = (Inr rp', s')"
      and l: "only_logs allocates_no_texture s s'"
      and f: "pass_reads rp' = pass_reads ?rp0 @ [cin]"
        "pass_pipelines rp' = pass_pipelines ?rp0 @ [pass_pipeline p]"
        "colorView rp' = colorView ?rp0" "pass_label rp' = pass_label ?rp0"
        "last (commands rp') = DrawIndexed (indexCount quad)"
      by blast
    have "applyPasses (p # rest) i n (Some cin) ft time enc s = (Inr (enc @ [rp']), s')"
      using True rest r by (simp add: js_bind_def)
    then show ?thesis
      using l f True rest by (auto simp: pass_reads_def pass_pipelines_def)
  next
    case False
    let ?out = "?temps ! (i mod length ?temps)"
    let ?rp0 = "\<lparr>pass_label = ''postprocess_'' @ pass_id p, colorView = GPUTextureView ?out,
                 depthView = None, commands = []\<rparr>"
    from renderPostProcessPass_pass[OF Cons.prems(1-3), of ?rp0 p cin time]
    obtain rp' s1 where r: "renderPostProcessPass ?rp0 p (Some cin) time s = (Inr rp', s1)"
      and l: "only_logs allocates_no_texture s s1"
      and f: "pass_reads rp' = pass_reads ?rp0 @ [cin]"
        "pass_pipelines rp' = pass_pipelines ?rp0 @ [pass_pipeline p]"
        "colorView rp' = colorView ?rp0" "pass_label rp' = pass_label ?rp0"
        "last (commands rp') = DrawIndexed (indexCount quad)"
      by blast
    have s1: "sound s1" using Cons.prems(1) l by (rule sound_only_logs)
    have fr: "fullscreenQuad s1 = Some quad" "samplers (textureManager s1) ''default'' = Some sampler"
      "tempTargets s1 = ?temps"
      using Cons.prems(2,3) only_logs_PostProcessor[OF l] only_logs_frame(2)[OF l] by simp_all
    have ne: "tempTargets s1 \<noteq> []" using fr(3) Cons.prems(4) by simp
    have idx: "Suc i + length rest = n" using Cons.prems(5) by simp
    from Cons.IH[OF s1 fr(1) fr(2) ne idx, of ?out "enc @ [rp']"]
    obtain rps s' where a: "applyPasses rest (Suc i) n (Some ?out) ft time (enc @ [rp']) s1
          = (Inr ((enc @ [rp']) @ rps), s')"
      and l': "only_logs allocates_no_texture s1 s'" and len: "length rps = length rest"
      and each: "\<forall>k < length rest.
            pass_pipelines (rps ! k) = [pass_pipeline (rest ! k)]
          \<and> last (commands (rps ! k)) = DrawIndexed (indexCount quad)
          \<and> pass_reads (rps ! k)
              = [if k = 0 then ?out
                 else tempTargets s1 ! ((Suc i + k - 1) mod length (tempTargets s1))]
          \<and> colorView (rps ! k)
              = (if Suc i + k = n - 1 then ft
                 else GPUTextureView (tempTargets s1 ! ((Suc i + k) mod length (tempTargets s1))))
          \<and> pass_label (rps ! k)
              = (if Suc i + k = n - 1 then ''postprocess_final_'' else ''postprocess_'')
                @ pass_id (rest ! k)"
      by blast
    have run: "applyPasses (p # rest) i n (Some cin) ft time enc s = (Inr (enc @ rp' # rps), s')"
      using False Cons.prems(4) a r by (simp add: js_bind_def createView_def)
    have "only_logs allocates_no_texture s s'" using l l' by (rule only_logs_trans)
    moreover have "length (rp' # rps) = length (p # rest)" using len by simp
    moreover have "\<forall>k < length (p # rest).
            pass_pipelines ((rp' # rps) ! k) = [pass_pipeline ((p # rest) ! k)]
          \<and> last (commands ((rp' # rps) ! k)) = DrawIndexed (indexCount quad)
          \<and> pass_reads ((rp' # rps) ! k)
              = [if k = 0 then cin else ?temps ! ((i + k - 1) mod length ?temps)]
          \<and> colorView ((rp' # rps) ! k)
              = (if i + k = n - 1 then ft
                 else GPUTextureView (?temps ! ((i + k) mod length ?temps)))
          \<and> pass_label ((rp' # rps) ! k)
              = (if i + k = n - 1 then ''postprocess_final_'' else ''postprocess_'')
                @ pass_id ((p # rest) ! k)"
    proof (intro allI impI)
      fix k assume k: "k < length (p # rest)"
      show "pass_pipelines ((rp' # rps) ! k) = [pass_pipeline ((p # rest) ! k)]
          \<and> last (commands ((rp' # rps) ! k)) = DrawIndexed (indexCount quad)
          \<and> pass_reads ((rp' # rps) ! k)
              = [if k = 0 then cin else ?temps ! ((i + k - 1) mod length ?temps)]
          \<and> colorView ((rp' # rps) ! k)
              = (if i + k = n - 1 then ft
                 else GPUTextureView (?temps ! ((i + k) mod length ?temps)))
          \<and> pass_label ((rp' # rps) ! k)
              = (if i + k = n - 1 then ''postprocess_final_'' else ''postprocess_'')
                @ pass_id ((p # rest) ! k)"
      proof (cases k)
        case 0
        then show ?thesis using f False by (simp add: pass_reads_def pass_pipelines_def)
      next
        case (Suc k')
        with k have k': "k' < length rest" by simp
        from each[rule_format, OF k'] show ?thesis
          unfolding Suc fr(3) by (cases k') simp_all
      qed
    qed
    ultimately show ?thesis using run by blast
  qed
qed

text \<open>
  Every render pass the loop records holds exactly these commands: it sets the pass's
  pipeline, sets a bind group at index 0, binds the buffers of the fullscreen quad and
  draws the quad's indices.
\<close>

lemma applyPasses_commands:
  fixes s :: "'a PostProcessor_scheme"
  assumes "sound s" and "fullscreenQuad s = Some quad"
    and "samplers (textureManager s) ''default'' = Some sampler"
    and "tempTargets s \<noteq> []"
  shows "\<exists>rps s'. applyPasses ps i n (Some cin) ft time enc s = (Inr (enc @ rps), s')
      \<and> list_all2 (\<lambda>rp p. \<exists>bg. commands rp
            = [SetPipeline (pass_pipeline p), SetBindGroup 0 bg] @ Plane_bind_cmds quad
              @ [DrawIndexed (indexCount quad)]) rps ps"
  using assms
proof (induction ps arbitrary: i cin enc s)
  case Nil
  then show ?case by simp
next
  case (Cons p rest)
  let ?temps = "tempTargets s"
  let ?view = "if i = n - 1 then ft else GPUTextureView (?temps ! (i mod length ?temps))"
  let ?out = "if i = n - 1 then cin else ?temps ! (i mod length ?temps)"
  let ?rp0 = "\<lparr>pass_label = (if i = n - 1 then ''postprocess_final_'' else ''postprocess_'')
                   @ pass_id p,
               colorView = ?view, depthView = None, commands = []\<rparr>"
  from renderPostProcessPass_sound[OF Cons.prems(1-3), of ?rp0 p cin time]
  obtain j l s1 where r: "renderPostProcessPass ?rp0 p (Some cin) time s
           = (Inr (?rp0\<lparr>commands := commands ?rp0
                 @ [SetPipeline (pass_pipeline p),
                    SetBindGroup 0 (GPUBindGroup j (Some ''postprocess_bind_group'') l
                      [(0, BufferBinding (pass_uniformBuffer p)),
                       (1, ViewBinding (GPUTextureView cin)), (2, SamplerBinding sampler)])]
                 @ Plane_bind_cmds quad @ [DrawIndexed (indexCount quad)]\<rparr>), s1)"
    and l: "only_logs allocates_no_texture s s1" by blast
  let ?rp = "?rp0\<lparr>commands := commands ?rp0
                 @ [SetPipeline (pass_pipeline p),
                    SetBindGroup 0 (GPUBindGroup j (Some ''postprocess_bind_group'') l
                      [(0, BufferBinding (pass_uniformBuffer p)),
                       (1, ViewBinding (GPUTextureView cin)), (2, SamplerBinding sampler)])]
                 @ Plane_bind_cmds quad @ [DrawIndexed (indexCount quad)]\<rparr>"
  have s1: "sound s1" using Cons.prems(1) l by (rule sound_only_logs)
  have fr: "fullscreenQuad s1 = Some quad" "samplers (textureManager s1) ''default'' = Some sampler"
    "tempTargets s1 = ?temps"
    using Cons.prems(2,3) only_logs_PostProcessor[OF l] only_logs_frame(2)[OF l] by simp_all
  have ne: "tempTargets s1 \<noteq> []" using fr(3) Cons.prems(4) by simp
  from Cons.IH[OF s1 fr(1) fr(2) ne, of "Suc i" ?out "enc @ [?rp]"]
  obtain rps s' where a: "applyPasses rest (Suc i) n (Some ?out) ft time (enc @ [?rp]) s1
          = (Inr ((enc @ [?rp]) @ rps), s')"
    and each: "list_all2 (\<lambda>rp p. \<exists>bg. commands rp
            = [SetPipeline (pass_pipeline p), SetBindGroup 0 bg] @ Plane_bind_cmds quad
              @ [DrawIndexed (indexCount quad)]) rps rest"
    by blast
  have run: "applyPasses (p # rest) i n (Some cin) ft time enc s = (Inr (enc @ ?rp # rps), s')"
    using Cons.prems(4) a r by (simp add: js_bind_def createView_def js_get_def split: if_splits)
  have "\<exists>bg. commands ?rp = [SetPipeline (pass_pipeline p), SetBindGroup 0 bg]
          @ Plane_bind_cmds quad @ [DrawIndexed (indexCount quad)]"
    by simp
  with each have "list_all2 (\<lambda>rp p. \<exists>bg. commands rp
            = [SetPipeline (pass_pipeline p), SetBindGroup 0 bg] @ Plane_bind_cmds quad
              @ [DrawIndexed (indexCount quad)]) (?rp # rps) (p # rest)"
    by simp
  with run show ?case by blast
qed

section \<open>PostProcessor: the copy when no pass is enabled\<close>

lemma copyToFinalTarget_sound:
  fixes s :: "'a PostProcessor_scheme"
  assumes snd: "sound s" and quad: "fullscreenQuad s = Some quad"
    and smp: "samplers (textureManager s) ''default'' = Some sampler"
  shows "\<exists>rp s'. copyToFinalTarget enc (Some rt) target s = (Inr (enc @ [rp]), s')
      \<and> only_managers allocates_no_texture s s'
      \<and> pass_reads rp = [rt] \<and> colorView rp = target \<and> pass_label rp = ''copy_to_final''
      \<and> length (pass_pipelines rp) = 1
      \<and> last (commands rp) = DrawIndexed (indexCount quad)
      \<and> (\<exists>p. pass_pipelines rp = [p] \<and> pipelines (shaderManager s') ''copy_shader'' = Some p
             \<and> (\<exists>bg. commands rp = [SetPipeline p, SetBindGroup 0 bg] @ Plane_bind_cmds quad
                    @ [DrawIndexed (indexCount quad)])
             \<and> (pipelines (shaderManager s) ''copy_shader'' = None \<longrightarrow>
                  (\<exists>j lay iv ifr. p = GPURenderPipeline j ''copy_shader'' lay
                     (GPUShaderModule iv ''copy_shader_vertex'' (vertex getCopyShader))
                     (GPUShaderModule ifr ''copy_shader_fragment'' (fragment getCopyShader))
                     False)))"
proof -
  let ?rp0 = "\<lparr>pass_label = ''copy_to_final'', colorView = target, depthView = None,
               commands = []\<rparr>"
  obtain i s1 where n1: "native_new (CreateBindGroupLayout ''copy_bind_group_layout'') s = (Inr i, s1)"
    and l1: "only_logs allocates_no_texture s s1"
    using native_new_sound[OF snd, of allocates_no_texture
        "CreateBindGroupLayout ''copy_bind_group_layout''"] by auto
  have snd1: "sound s1" using snd l1 by (rule sound_only_logs)
  let ?layout = "GPUBindGroupLayout i ''copy_bind_group_layout''"
  have "\<exists>p s2. (case pipelines (shaderManager s1) ''copy_shader'' of
                  Some p \<Rightarrow> js_return (Some p)
                | None \<Rightarrow> createPipeline ''copy_shader'' getCopyShader
                    \<lparr>opt_bindGroupLayouts = Some [?layout], opt_depthTest = False\<rparr>) s1
               = (Inr (Some p), s2)
          \<and> only_managers allocates_no_texture s1 s2 \<and> textureManager s2 = textureManager s1
          \<and> pipelines (shaderManager s2) ''copy_shader'' = Some p
          \<and> (pipelines (shaderManager s1) ''copy_shader'' = None \<longrightarrow>
                  (\<exists>j lay iv ifr. p = GPURenderPipeline j ''copy_shader'' lay
                     (GPUShaderModule iv ''copy_shader_vertex'' (vertex getCopyShader))
                     (GPUShaderModule ifr ''copy_shader_fragment'' (fragment getCopyShader))
                     False))"
  proof (cases "pipelines (shaderManager s1) ''copy_shader''")
    case None
    from createPipeline_sound[OF snd1, of "''copy_shader''" getCopyShader ?layout "[]" False]
    obtain p s2 where "createPipeline ''copy_shader'' getCopyShader
           \<lparr>opt_bindGroupLayouts = Some [?layout], opt_depthTest = False\<rparr> s1 = (Inr (Some p), s2)"
      "only_managers allocates_no_texture s1 s2" "textureManager s2 = textureManager s1"
      "pipelines (shaderManager s2) ''copy_shader'' = Some p"
      "\<exists>j i iv ifr. p = GPURenderPipeline j ''copy_shader''
             (GPUPipelineLayout i (''copy_shader'' @ ''_layout'') [?layout])
             (GPUShaderModule iv (''copy_shader'' @ ''_vertex'') (vertex getCopyShader))
             (GPUShaderModule ifr (''copy_shader'' @ ''_fragment'') (fragment getCopyShader)) False"
      by blast
    with None show ?thesis by auto
  next
    case (Some p)
    then show ?thesis by auto
  qed
  then obtain p s2 where pl: "(case pipelines (shaderManager s1) ''copy_shader'' of
                  Some p \<Rightarrow> js_return (Some p)
                | None \<Rightarrow> createPipeline ''copy_shader'' getCopyShader
                    \<lparr>opt_bindGroupLayouts = Some [?layout], opt_depthTest = False\<rparr>) s1
               = (Inr (Some p), s2)"
    and m2: "only_managers allocates_no_texture s1 s2"
    and t2: "textureManager s2 = textureManager s1"
    and reg: "pipelines (shaderManager s2) ''copy_shader'' = Some p"
    and built: "pipelines (shaderManager s1) ''copy_shader'' = None \<longrightarrow>
                  (\<exists>j lay iv ifr. p = GPURenderPipeline j ''copy_shader'' lay
                     (GPUShaderModule iv ''copy_shader_vertex'' (vertex getCopyShader))
                     (GPUShaderModule ifr ''copy_shader_fragment'' (fragment getCopyShader))
                     False)"
    by (elim exE conjE) (rule that; assumption)
  have snd2: "sound s2" using snd1 m2 by (rule sound_only_managers)
  have quad2: "fullscreenQuad s2 = Some quad"
    using quad only_logs_PostProcessor(5)[OF l1] only_managers_PostProcessor(5)[OF m2] by simp
  have smp2: "samplers (textureManager s2) ''default'' = Some sampler"
    using smp t2 only_logs_frame(2)[OF l1] by simp
  let ?entries = "[(0, ViewBinding (GPUTextureView rt)), (1, SamplerBinding sampler)]"
  obtain j s3 where n3: "native_new (CreateBindGroup (Some ''copy_bind_group'') ?entries) s2 = (Inr j, s3)"
    and l3: "only_logs allocates_no_texture s2 s3"
    using native_new_sound[OF snd2, of allocates_no_texture
        "CreateBindGroup (Some ''copy_bind_group'') ?entries"] by auto
  have snd3: "sound s3" using snd2 l3 by (rule sound_only_logs)
  let ?rp = "?rp0\<lparr>commands := [SetPipeline p,
       SetBindGroup 0 (GPUBindGroup j (Some ''copy_bind_group'') ?layout ?entries)]
       @ Plane_bind_cmds quad @ [DrawIndexed (indexCount quad)]\<rparr>"
  have run: "copyToFinalTarget enc (Some rt) target s = (Inr (enc @ [?rp]), s3)"
    using n1 pl quad2 smp2 n3
    by (simp add: copyToFinalTarget_def js_bind_def Let_def getPipeline_def getSampler_def
        createView_def record_cmd_sound[OF snd3] Plane_bind_sound[OF snd3] Plane_draw_sound[OF snd3])
  have frame: "only_managers allocates_no_texture s s3"
    using only_logs_managers[OF l1] m2 only_logs_managers[OF l3]
    by (blast intro: only_managers_trans)
  have shape: "pass_reads ?rp = [rt]" "colorView ?rp = target" "pass_label ?rp = ''copy_to_final''"
    "length (pass_pipelines ?rp) = 1" "last (commands ?rp) = DrawIndexed (indexCount quad)"
    "pass_pipelines ?rp = [p]"
    by (simp_all add: pass_reads_def pass_pipelines_def)
  have cmds: "\<exists>bg. commands ?rp = [SetPipeline p, SetBindGroup 0 bg] @ Plane_bind_cmds quad
                    @ [DrawIndexed (indexCount quad)]"
    by simp
  have kept: "pipelines (shaderManager s3) ''copy_shader'' = Some p"
    using reg only_logs_frame(3)[OF l3] by simp
  have fresh: "pipelines (shaderManager s) ''copy_shader'' = None \<longrightarrow>
                  (\<exists>j lay iv ifr. p = GPURenderPipeline j ''copy_shader'' lay
                     (GPUShaderModule iv ''copy_shader_vertex'' (vertex getCopyShader))
                     (GPUShaderModule ifr ''copy_shader_fragment'' (fragment getCopyShader))
                     False)"
    using built only_logs_frame(3)[OF l1] by simp
  show ?thesis
    apply (rule exI[of _ ?rp], rule exI[of _ s3])
    apply (intro conjI exI[of _ p])
            apply (rule run frame shape kept cmds fresh)+
    done
qed

section \<open>PostProcessor: the whole chain\<close>


lemma readyD:
  assumes "ready s"
  obtains quad sampler rt t0 t1 where "sound s" "fullscreenQuad s = Some quad"
    "samplers (textureManager s) ''default'' = Some sampler" "renderTarget s = Some rt"
    "tempTargets s = [t0, t1]" "t0 \<noteq> t1" "rt \<noteq> t0" "rt \<noteq> t1"
    "offscreen rt" "offscreen t0" "offscreen t1"
proof -
  from assms have len: "length (tempTargets s) = 2" by (simp add: ready_def)
  then obtain t0 t1 where t: "tempTargets s = [t0, t1]"
    by (auto simp: length_Suc_conv eval_nat_numeral)
  from assms obtain rt where rt: "renderTarget s = Some rt"
    by (auto simp: ready_def split: option.splits)
  from assms obtain quad sampler where "fullscreenQuad s = Some quad"
    "samplers (textureManager s) ''default'' = Some sampler"
    by (auto simp: ready_def)
  moreover from assms t rt have "sound s" "t0 \<noteq> t1" "rt \<noteq> t0" "rt \<noteq> t1"
    "offscreen rt" "offscreen t0" "offscreen t1"
    by (auto simp: ready_def)
  ultimately show ?thesis using that t rt by blast
qed

text \<open>
  What \<^verbatim>\<open>applyPostProcessing\<close> records on a ready post-processor whose temporary targets
  are \<open>t0\<close> and \<open>t1\<close>.
\<close>

lemma applyPostProcessing_ready:
  fixes s :: "'a PostProcessor_scheme"
  assumes "ready s" and rt: "renderTarget s = Some rt" and temps: "tempTargets s = [t0, t1]"
  shows "\<exists>rps s'. applyPostProcessing enc ft time s = (Inr (enc @ rps), s')
      \<and> only_managers allocates_no_texture s s'
      \<and> (if filter enabled (jsmap_values (passes s)) = []
          then \<exists>rp. rps = [rp] \<and> pass_label rp = ''copy_to_final'' \<and> pass_reads rp = [rt]
                 \<and> colorView rp = ft \<and> length (pass_pipelines rp) = 1
          else length rps = length (filter enabled (jsmap_values (passes s)))
             \<and> (\<forall>k < length rps.
                   pass_pipelines (rps ! k)
                     = [pass_pipeline (filter enabled (jsmap_values (passes s)) ! k)]
                 \<and> pass_reads (rps ! k) = [if k = 0 then rt else [t0, t1] ! ((k - 1) mod 2)]
                 \<and> colorView (rps ! k)
                     = (if k = length rps - 1 then ft
                        else GPUTextureView ([t0, t1] ! (k mod 2)))))"
proof -
  from assms(1) obtain quad sampler where snd: "sound s" and quad: "fullscreenQuad s = Some quad"
    and smp: "samplers (textureManager s) ''default'' = Some sampler"
    by (rule readyD)
  let ?ps = "filter enabled (jsmap_values (passes s))"
  show ?thesis
  proof (cases "?ps = []")
    case True
    from copyToFinalTarget_sound[OF snd quad smp, of enc rt ft]
    obtain rp s' where "copyToFinalTarget enc (Some rt) ft s = (Inr (enc @ [rp]), s')"
      "only_managers allocates_no_texture s s'"
      "pass_reads rp = [rt]" "colorView rp = ft" "pass_label rp = ''copy_to_final''"
      "length (pass_pipelines rp) = 1" by blast
    then show ?thesis using True quad rt
      by (auto simp: applyPostProcessing_def)
  next
    case False
    have ne: "tempTargets s \<noteq> []" using temps by simp
    from applyPasses_sound[OF snd quad smp ne, of 0 ?ps "length ?ps" rt ft time enc]
    obtain rps s' where run: "applyPasses ?ps 0 (length ?ps) (Some rt) ft time enc s
          = (Inr (enc @ rps), s')"
      and l: "only_logs allocates_no_texture s s'" and len: "length rps = length ?ps"
      and each: "\<forall>k < length ?ps.
            pass_pipelines (rps ! k) = [pass_pipeline (?ps ! k)]
          \<and> last (commands (rps ! k)) = DrawIndexed (indexCount quad)
          \<and> pass_reads (rps ! k)
              = [if k = 0 then rt
                 else tempTargets s ! ((0 + k - 1) mod length (tempTargets s))]
          \<and> colorView (rps ! k)
              = (if 0 + k = length ?ps - 1 then ft
                 else GPUTextureView (tempTargets s ! ((0 + k) mod length (tempTargets s))))
          \<and> pass_label (rps ! k)
              = (if 0 + k = length ?ps - 1 then ''postprocess_final_'' else ''postprocess_'')
                @ pass_id (?ps ! k)"
      by auto
    have "applyPostProcessing enc ft time s = (Inr (enc @ rps), s')"
      using False quad rt run by (simp add: applyPostProcessing_def)
    moreover have "only_managers allocates_no_texture s s'" using l by (rule only_logs_managers)
    moreover have "\<forall>k < length rps.
                   pass_pipelines (rps ! k) = [pass_pipeline (?ps ! k)]
                 \<and> pass_reads (rps ! k) = [if k = 0 then rt else [t0, t1] ! ((k - 1) mod 2)]
                 \<and> colorView (rps ! k)
                     = (if k = length rps - 1 then ft
                        else GPUTextureView ([t0, t1] ! (k mod 2)))"
    proof (intro allI impI)
      fix k assume "k < length rps"
      with len have k: "k < length ?ps" by simp
      have L: "length (tempTargets s) = 2" using temps by simp
      from each[rule_format, OF k, unfolded L]
      show "pass_pipelines (rps ! k) = [pass_pipeline (?ps ! k)]
                 \<and> pass_reads (rps ! k) = [if k = 0 then rt else [t0, t1] ! ((k - 1) mod 2)]
                 \<and> colorView (rps ! k)
                     = (if k = length rps - 1 then ft
                        else GPUTextureView ([t0, t1] ! (k mod 2)))"
        by (simp add: temps len)
    qed
    ultimately show ?thesis using False len by auto
  qed
qed

text \<open>
  What every render pass recorded by \<^verbatim>\<open>applyPostProcessing\<close> holds on a ready
  post-processor: the pipeline it sets, a bind group at index 0, the buffers of the
  fullscreen quad and the indexed draw of the quad.
\<close>

lemma applyPostProcessing_draws:
  fixes s :: "'a PostProcessor_scheme"
  assumes "ready s" and rt: "renderTarget s = Some rt" and quad: "fullscreenQuad s = Some quad"
  shows "\<exists>rps s'. applyPostProcessing enc ft time s = (Inr (enc @ rps), s')
      \<and> (if filter enabled (jsmap_values (passes s)) = []
          then \<exists>rp p. rps = [rp]
                 \<and> pipelines (shaderManager s') ''copy_shader'' = Some p
                 \<and> (\<exists>bg. commands rp = [SetPipeline p, SetBindGroup 0 bg] @ Plane_bind_cmds quad
                        @ [DrawIndexed (indexCount quad)])
                 \<and> (pipelines (shaderManager s) ''copy_shader'' = None \<longrightarrow>
                      (\<exists>j lay iv ifr. p = GPURenderPipeline j ''copy_shader'' lay
                         (GPUShaderModule iv ''copy_shader_vertex'' (vertex getCopyShader))
                         (GPUShaderModule ifr ''copy_shader_fragment'' (fragment getCopyShader))
                         False))
          else length rps = length (filter enabled (jsmap_values (passes s)))
             \<and> (\<forall>k < length rps. \<exists>bg. commands (rps ! k)
                   = [SetPipeline (pass_pipeline (filter enabled (jsmap_values (passes s)) ! k)),
                      SetBindGroup 0 bg] @ Plane_bind_cmds quad
                     @ [DrawIndexed (indexCount quad)]))"
proof -
  from assms(1) obtain quad' sampler where snd: "sound s" and "fullscreenQuad s = Some quad'"
    and smp: "samplers (textureManager s) ''default'' = Some sampler"
    and ne: "tempTargets s \<noteq> []"
    by (rule readyD) auto
  let ?ps = "filter enabled (jsmap_values (passes s))"
  show ?thesis
  proof (cases "?ps = []")
    case True
    from copyToFinalTarget_sound[OF snd quad smp, of enc rt ft]
    obtain rp s' p bg where "copyToFinalTarget enc (Some rt) ft s = (Inr (enc @ [rp]), s')"
      "pipelines (shaderManager s') ''copy_shader'' = Some p"
      "commands rp = [SetPipeline p, SetBindGroup 0 bg] @ Plane_bind_cmds quad
                        @ [DrawIndexed (indexCount quad)]"
      "pipelines (shaderManager s) ''copy_shader'' = None \<longrightarrow>
                      (\<exists>j lay iv ifr. p = GPURenderPipeline j ''copy_shader'' lay
                         (GPUShaderModule iv ''copy_shader_vertex'' (vertex getCopyShader))
                         (GPUShaderModule ifr ''copy_shader_fragment'' (fragment getCopyShader))
                         False)"
      by (elim exE conjE) (rule that; assumption)
    then show ?thesis using True quad rt
      by (auto simp: applyPostProcessing_def)
  next
    case False
    from applyPasses_commands[OF snd quad smp ne, of ?ps 0 "length ?ps" rt ft time enc]
    obtain rps s' where run: "applyPasses ?ps 0 (length ?ps) (Some rt) ft time enc s
          = (Inr (enc @ rps), s')"
      and each: "list_all2 (\<lambda>rp p. \<exists>bg. commands rp
            = [SetPipeline (pass_pipeline p), SetBindGroup 0 bg] @ Plane_bind_cmds quad
              @ [DrawIndexed (indexCount quad)]) rps ?ps"
      by blast
    have "applyPostProcessing enc ft time s = (Inr (enc @ rps), s')"
      using False quad rt run by (simp add: applyPostProcessing_def)
    moreover from each have "length rps = length ?ps" by (rule list_all2_lengthD)
    moreover from each have "\<forall>k < length rps. \<exists>bg. commands (rps ! k)
                   = [SetPipeline (pass_pipeline (?ps ! k)), SetBindGroup 0 bg]
                     @ Plane_bind_cmds quad @ [DrawIndexed (indexCount quad)]"
      by (simp add: list_all2_conv_all_nth)
    ultimately show ?thesis using False by auto
  qed
qed

section \<open>PostProcessor: the claims about the chain\<close>

lemma ready_sample: "ready sample_postprocessor"
  by (simp add: ready_def sound_def sample_postprocessor_def sound_device_def sound_browser_def
      offscreen_def)

lemma renderTarget_sample:
  "renderTarget sample_postprocessor = Some (DeviceTexture 0 ''main_render_target'')"
  by (simp add: sample_postprocessor_def)

lemma ready_idle: "ready idle_postprocessor"
  by (simp add: ready_def sound_def idle_postprocessor_def sample_postprocessor_def
      sound_device_def sound_browser_def offscreen_def)

lemma renderTarget_idle:
  "renderTarget idle_postprocessor = Some (DeviceTexture 0 ''main_render_target'')"
  by (simp add: idle_postprocessor_def sample_postprocessor_def)

text \<open>
  C2: on a ready post-processor, \<^verbatim>\<open>applyPostProcessing\<close> appends to the encoder one render
  pass per enabled pass, in the order of the pass map. Each of them applies its pass: it
  sets that pass's pipeline, sets a bind group, binds the buffers of the fullscreen quad
  and draws the quad's indices, and nothing else; the first reads the scene render target,
  every later one reads what the one before it wrote, and the last writes the final
  target. With no pass enabled it appends the single copy pass, which reads the scene
  render target, writes the final target, and holds the same four kinds of command with
  the pipeline kept under \<^verbatim>\<open>copy_shader\<close>, which is built from the copy shader when
  none was kept before.
\<close>

theorem applyPostProcessing_linear_chain:
  fixes s :: "'a PostProcessor_scheme"
  assumes "ready s" and "renderTarget s = Some rt"
  shows "\<exists>quad rps s'. fullscreenQuad s = Some quad
      \<and> applyPostProcessing enc ft time s = (Inr (enc @ rps), s')
      \<and> (if filter enabled (jsmap_values (passes s)) = []
          then \<exists>rp p bg. rps = [rp] \<and> pass_label rp = ''copy_to_final'' \<and> pass_reads rp = [rt]
                 \<and> colorView rp = ft \<and> length (pass_pipelines rp) = 1
                 \<and> commands rp = [SetPipeline p, SetBindGroup 0 bg] @ Plane_bind_cmds quad
                      @ [DrawIndexed (indexCount quad)]
                 \<and> pipelines (shaderManager s') ''copy_shader'' = Some p
                 \<and> (pipelines (shaderManager s) ''copy_shader'' = None \<longrightarrow>
                      (\<exists>j lay iv ifr. p = GPURenderPipeline j ''copy_shader'' lay
                         (GPUShaderModule iv ''copy_shader_vertex'' (vertex getCopyShader))
                         (GPUShaderModule ifr ''copy_shader_fragment'' (fragment getCopyShader))
                         False))
          else length rps = length (filter enabled (jsmap_values (passes s)))
             \<and> (\<forall>k < length rps.
                   pass_pipelines (rps ! k)
                     = [pass_pipeline (filter enabled (jsmap_values (passes s)) ! k)]
                 \<and> pass_reads (rps ! k) = [if k = 0 then rt else pass_writes (rps ! (k - 1))]
                 \<and> (\<exists>bg. commands (rps ! k)
                       = [SetPipeline (pass_pipeline (filter enabled (jsmap_values (passes s)) ! k)),
                          SetBindGroup 0 bg] @ Plane_bind_cmds quad
                         @ [DrawIndexed (indexCount quad)]))
             \<and> colorView (last rps) = ft)"
proof -
  from assms(1) obtain quad t0 t1 where quad: "fullscreenQuad s = Some quad"
    and temps: "tempTargets s = [t0, t1]"
    by (rule readyD)
  let ?ps = "filter enabled (jsmap_values (passes s))"
  from applyPostProcessing_ready[OF assms temps, of enc ft time]
  obtain rps s' where run: "applyPostProcessing enc ft time s = (Inr (enc @ rps), s')"
    and shape: "if ?ps = []
          then \<exists>rp. rps = [rp] \<and> pass_label rp = ''copy_to_final'' \<and> pass_reads rp = [rt]
                 \<and> colorView rp = ft \<and> length (pass_pipelines rp) = 1
          else length rps = length ?ps
             \<and> (\<forall>k < length rps.
                   pass_pipelines (rps ! k) = [pass_pipeline (?ps ! k)]
                 \<and> pass_reads (rps ! k) = [if k = 0 then rt else [t0, t1] ! ((k - 1) mod 2)]
                 \<and> colorView (rps ! k)
                     = (if k = length rps - 1 then ft
                        else GPUTextureView ([t0, t1] ! (k mod 2))))"
    by blast
  from applyPostProcessing_draws[OF assms quad, of enc ft time] run
  have drawn: "if ?ps = []
          then \<exists>rp p. rps = [rp]
                 \<and> pipelines (shaderManager s') ''copy_shader'' = Some p
                 \<and> (\<exists>bg. commands rp = [SetPipeline p, SetBindGroup 0 bg] @ Plane_bind_cmds quad
                        @ [DrawIndexed (indexCount quad)])
                 \<and> (pipelines (shaderManager s) ''copy_shader'' = None \<longrightarrow>
                      (\<exists>j lay iv ifr. p = GPURenderPipeline j ''copy_shader'' lay
                         (GPUShaderModule iv ''copy_shader_vertex'' (vertex getCopyShader))
                         (GPUShaderModule ifr ''copy_shader_fragment'' (fragment getCopyShader))
                         False))
          else length rps = length ?ps
             \<and> (\<forall>k < length rps. \<exists>bg. commands (rps ! k)
                   = [SetPipeline (pass_pipeline (?ps ! k)), SetBindGroup 0 bg]
                     @ Plane_bind_cmds quad @ [DrawIndexed (indexCount quad)])"
    by auto
  show ?thesis
  proof (cases "?ps = []")
    case True
    from shape True obtain rp where rp: "rps = [rp]" "pass_label rp = ''copy_to_final''"
      "pass_reads rp = [rt]" "colorView rp = ft" "length (pass_pipelines rp) = 1"
      by auto
    from drawn True rp(1) obtain p bg where copy:
      "pipelines (shaderManager s') ''copy_shader'' = Some p"
      "commands rp = [SetPipeline p, SetBindGroup 0 bg] @ Plane_bind_cmds quad
                        @ [DrawIndexed (indexCount quad)]"
      "pipelines (shaderManager s) ''copy_shader'' = None \<longrightarrow>
                      (\<exists>j lay iv ifr. p = GPURenderPipeline j ''copy_shader'' lay
                         (GPUShaderModule iv ''copy_shader_vertex'' (vertex getCopyShader))
                         (GPUShaderModule ifr ''copy_shader_fragment'' (fragment getCopyShader))
                         False)"
      by auto
    have "\<exists>rp p bg. rps = [rp] \<and> pass_label rp = ''copy_to_final'' \<and> pass_reads rp = [rt]
                 \<and> colorView rp = ft \<and> length (pass_pipelines rp) = 1
                 \<and> commands rp = [SetPipeline p, SetBindGroup 0 bg] @ Plane_bind_cmds quad
                      @ [DrawIndexed (indexCount quad)]
                 \<and> pipelines (shaderManager s') ''copy_shader'' = Some p
                 \<and> (pipelines (shaderManager s) ''copy_shader'' = None \<longrightarrow>
                      (\<exists>j lay iv ifr. p = GPURenderPipeline j ''copy_shader'' lay
                         (GPUShaderModule iv ''copy_shader_vertex'' (vertex getCopyShader))
                         (GPUShaderModule ifr ''copy_shader_fragment'' (fragment getCopyShader))
                         False))"
      apply (rule exI[of _ rp], rule exI[of _ p], rule exI[of _ bg])
      apply (intro conjI)
             apply (rule rp copy)+
      done
    with quad run True show ?thesis by auto
  next
    case False
    with shape have len: "length rps = length ?ps"
      and each: "\<And>k. k < length rps \<Longrightarrow>
                   pass_pipelines (rps ! k) = [pass_pipeline (?ps ! k)]
                 \<and> pass_reads (rps ! k) = [if k = 0 then rt else [t0, t1] ! ((k - 1) mod 2)]
                 \<and> colorView (rps ! k)
                     = (if k = length rps - 1 then ft
                        else GPUTextureView ([t0, t1] ! (k mod 2)))"
      by auto
    from drawn False have draws: "\<And>k. k < length rps \<Longrightarrow> \<exists>bg. commands (rps ! k)
                   = [SetPipeline (pass_pipeline (?ps ! k)), SetBindGroup 0 bg]
                     @ Plane_bind_cmds quad @ [DrawIndexed (indexCount quad)]"
      by auto
    from False len have ne: "rps \<noteq> []" by auto
    have chain: "\<forall>k < length rps.
                   pass_pipelines (rps ! k) = [pass_pipeline (?ps ! k)]
                 \<and> pass_reads (rps ! k) = [if k = 0 then rt else pass_writes (rps ! (k - 1))]
                 \<and> (\<exists>bg. commands (rps ! k)
                       = [SetPipeline (pass_pipeline (?ps ! k)), SetBindGroup 0 bg]
                         @ Plane_bind_cmds quad @ [DrawIndexed (indexCount quad)])"
    proof (intro allI impI)
      fix k assume k: "k < length rps"
      have "pass_pipelines (rps ! k) = [pass_pipeline (?ps ! k)]
                 \<and> pass_reads (rps ! k) = [if k = 0 then rt else pass_writes (rps ! (k - 1))]"
      proof (cases "k = 0")
        case True
        with each[OF k] show ?thesis by simp
      next
        case False
        with k have k1: "k - 1 < length rps" "k - 1 \<noteq> length rps - 1" by auto
        from each[OF k1(1)] k1(2)
        have "pass_writes (rps ! (k - 1)) = [t0, t1] ! ((k - 1) mod 2)"
          by (simp add: pass_writes_def)
        with each[OF k] False show ?thesis by simp
      qed
      with draws[OF k]
      show "pass_pipelines (rps ! k) = [pass_pipeline (?ps ! k)]
                 \<and> pass_reads (rps ! k) = [if k = 0 then rt else pass_writes (rps ! (k - 1))]
                 \<and> (\<exists>bg. commands (rps ! k)
                       = [SetPipeline (pass_pipeline (?ps ! k)), SetBindGroup 0 bg]
                         @ Plane_bind_cmds quad @ [DrawIndexed (indexCount quad)])"
        by simp
    qed
    have "colorView (last rps) = ft"
      using each[of "length rps - 1"] ne by (simp add: last_conv_nth)
    with quad run False len chain show ?thesis by auto
  qed
qed

theorem applyPostProcessing_linear_chain_witness:
  "ready sample_postprocessor
   \<and> renderTarget sample_postprocessor = Some (DeviceTexture 0 ''main_render_target'')
   \<and> filter enabled (jsmap_values (passes sample_postprocessor))
       = [sample_pass ''blur'' 7 True, sample_pass ''vignette'' 21 True,
          sample_pass ''filmGrain'' 28 True]
   \<and> (\<exists>rps s'. applyPostProcessing [] (GPUTextureView (CanvasTexture 0)) (Fin 1)
                  sample_postprocessor = (Inr rps, s')
         \<and> length rps = 3
         \<and> pass_pipelines (rps ! 0) = [pass_pipeline (sample_pass ''blur'' 7 True)]
         \<and> pass_pipelines (rps ! 1) = [pass_pipeline (sample_pass ''vignette'' 21 True)]
         \<and> pass_pipelines (rps ! 2) = [pass_pipeline (sample_pass ''filmGrain'' 28 True)]
         \<and> pass_reads (rps ! 0) = [DeviceTexture 0 ''main_render_target'']
         \<and> pass_reads (rps ! 1) = [pass_writes (rps ! 0)]
         \<and> pass_reads (rps ! 2) = [pass_writes (rps ! 1)]
         \<and> (\<exists>bg. commands (rps ! 0)
               = [SetPipeline (pass_pipeline (sample_pass ''blur'' 7 True)), SetBindGroup 0 bg,
                  SetVertexBuffer 0 (GPUBuffer 5 [] 80), SetIndexBuffer (GPUBuffer 6 [] 12),
                  DrawIndexed 6])
         \<and> (\<exists>bg. commands (rps ! 1)
               = [SetPipeline (pass_pipeline (sample_pass ''vignette'' 21 True)), SetBindGroup 0 bg,
                  SetVertexBuffer 0 (GPUBuffer 5 [] 80), SetIndexBuffer (GPUBuffer 6 [] 12),
                  DrawIndexed 6])
         \<and> (\<exists>bg. commands (rps ! 2)
               = [SetPipeline (pass_pipeline (sample_pass ''filmGrain'' 28 True)), SetBindGroup 0 bg,
                  SetVertexBuffer 0 (GPUBuffer 5 [] 80), SetIndexBuffer (GPUBuffer 6 [] 12),
                  DrawIndexed 6])
         \<and> colorView (last rps) = GPUTextureView (CanvasTexture 0))
   \<and> ready idle_postprocessor
   \<and> filter enabled (jsmap_values (passes idle_postprocessor)) = []
   \<and> pipelines (shaderManager idle_postprocessor) ''copy_shader'' = None
   \<and> (\<exists>rp s' j lay iv ifr bg. applyPostProcessing [] (GPUTextureView (CanvasTexture 0)) (Fin 1)
                  idle_postprocessor = (Inr [rp], s')
         \<and> pass_label rp = ''copy_to_final''
         \<and> pass_reads rp = [DeviceTexture 0 ''main_render_target'']
         \<and> colorView rp = GPUTextureView (CanvasTexture 0)
         \<and> commands rp
             = [SetPipeline (GPURenderPipeline j ''copy_shader'' lay
                         (GPUShaderModule iv ''copy_shader_vertex'' (vertex getCopyShader))
                         (GPUShaderModule ifr ''copy_shader_fragment'' (fragment getCopyShader))
                         False),
                SetBindGroup 0 bg,
                SetVertexBuffer 0 (GPUBuffer 5 [] 80), SetIndexBuffer (GPUBuffer 6 [] 12),
                DrawIndexed 6])"
proof -
  have en: "filter enabled (jsmap_values (passes sample_postprocessor))
       = [sample_pass ''blur'' 7 True, sample_pass ''vignette'' 21 True,
          sample_pass ''filmGrain'' 28 True]"
    by (simp add: sample_postprocessor_def jsmap_values_def sample_pass_def)
  have q: "fullscreenQuad sample_postprocessor = Some \<lparr>vertexBuffer = Some (GPUBuffer 5 [] 80),
                              indexBuffer = Some (GPUBuffer 6 [] 12), indexCount = 6\<rparr>"
    by (simp add: sample_postprocessor_def)
  from applyPostProcessing_linear_chain[OF ready_sample renderTarget_sample,
      of "[]" "GPUTextureView (CanvasTexture 0)" "Fin 1"]
  obtain rps s' where run: "applyPostProcessing [] (GPUTextureView (CanvasTexture 0)) (Fin 1)
                  sample_postprocessor = (Inr rps, s')"
    and len: "length rps = 3"
    and each: "\<forall>k < length rps.
                   pass_pipelines (rps ! k)
                     = [pass_pipeline ([sample_pass ''blur'' 7 True, sample_pass ''vignette'' 21 True,
                          sample_pass ''filmGrain'' 28 True] ! k)]
                 \<and> pass_reads (rps ! k) = [if k = 0 then DeviceTexture 0 ''main_render_target''
                       else pass_writes (rps ! (k - 1))]
                 \<and> (\<exists>bg. commands (rps ! k)
                       = [SetPipeline (pass_pipeline ([sample_pass ''blur'' 7 True,
                             sample_pass ''vignette'' 21 True,
                             sample_pass ''filmGrain'' 28 True] ! k)),
                          SetBindGroup 0 bg,
                          SetVertexBuffer 0 (GPUBuffer 5 [] 80), SetIndexBuffer (GPUBuffer 6 [] 12),
                          DrawIndexed 6])"
    and fin: "colorView (last rps) = GPUTextureView (CanvasTexture 0)"
    unfolding en q by (auto simp: Plane_bind_cmds_def)
  from each[rule_format, of 0] each[rule_format, of 1] each[rule_format, of 2] len
  have first: "pass_pipelines (rps ! 0) = [pass_pipeline (sample_pass ''blur'' 7 True)]"
       "pass_pipelines (rps ! 1) = [pass_pipeline (sample_pass ''vignette'' 21 True)]"
       "pass_pipelines (rps ! 2) = [pass_pipeline (sample_pass ''filmGrain'' 28 True)]"
       "pass_reads (rps ! 0) = [DeviceTexture 0 ''main_render_target'']"
       "pass_reads (rps ! 1) = [pass_writes (rps ! 0)]"
       "pass_reads (rps ! 2) = [pass_writes (rps ! 1)]"
       "\<exists>bg. commands (rps ! 0)
               = [SetPipeline (pass_pipeline (sample_pass ''blur'' 7 True)), SetBindGroup 0 bg,
                  SetVertexBuffer 0 (GPUBuffer 5 [] 80), SetIndexBuffer (GPUBuffer 6 [] 12),
                  DrawIndexed 6]"
       "\<exists>bg. commands (rps ! 1)
               = [SetPipeline (pass_pipeline (sample_pass ''vignette'' 21 True)), SetBindGroup 0 bg,
                  SetVertexBuffer 0 (GPUBuffer 5 [] 80), SetIndexBuffer (GPUBuffer 6 [] 12),
                  DrawIndexed 6]"
       "\<exists>bg. commands (rps ! 2)
               = [SetPipeline (pass_pipeline (sample_pass ''filmGrain'' 28 True)), SetBindGroup 0 bg,
                  SetVertexBuffer 0 (GPUBuffer 5 [] 80), SetIndexBuffer (GPUBuffer 6 [] 12),
                  DrawIndexed 6]"
    by simp_all
  with run len fin have busy: "\<exists>rps s'. applyPostProcessing [] (GPUTextureView (CanvasTexture 0)) (Fin 1)
                  sample_postprocessor = (Inr rps, s')
         \<and> length rps = 3
         \<and> pass_pipelines (rps ! 0) = [pass_pipeline (sample_pass ''blur'' 7 True)]
         \<and> pass_pipelines (rps ! 1) = [pass_pipeline (sample_pass ''vignette'' 21 True)]
         \<and> pass_pipelines (rps ! 2) = [pass_pipeline (sample_pass ''filmGrain'' 28 True)]
         \<and> pass_reads (rps ! 0) = [DeviceTexture 0 ''main_render_target'']
         \<and> pass_reads (rps ! 1) = [pass_writes (rps ! 0)]
         \<and> pass_reads (rps ! 2) = [pass_writes (rps ! 1)]
         \<and> (\<exists>bg. commands (rps ! 0)
               = [SetPipeline (pass_pipeline (sample_pass ''blur'' 7 True)), SetBindGroup 0 bg,
                  SetVertexBuffer 0 (GPUBuffer 5 [] 80), SetIndexBuffer (GPUBuffer 6 [] 12),
                  DrawIndexed 6])
         \<and> (\<exists>bg. commands (rps ! 1)
               = [SetPipeline (pass_pipeline (sample_pass ''vignette'' 21 True)), SetBindGroup 0 bg,
                  SetVertexBuffer 0 (GPUBuffer 5 [] 80), SetIndexBuffer (GPUBuffer 6 [] 12),
                  DrawIndexed 6])
         \<and> (\<exists>bg. commands (rps ! 2)
               = [SetPipeline (pass_pipeline (sample_pass ''filmGrain'' 28 True)), SetBindGroup 0 bg,
                  SetVertexBuffer 0 (GPUBuffer 5 [] 80), SetIndexBuffer (GPUBuffer 6 [] 12),
                  DrawIndexed 6])
         \<and> colorView (last rps) = GPUTextureView (CanvasTexture 0)"
    by blast
  have none: "filter enabled (jsmap_values (passes idle_postprocessor)) = []"
    by (simp add: idle_postprocessor_def jsmap_values_def sample_pass_def)
  have cold: "pipelines (shaderManager idle_postprocessor) ''copy_shader'' = None"
    by (simp add: idle_postprocessor_def sample_postprocessor_def)
  have qi: "fullscreenQuad idle_postprocessor = Some \<lparr>vertexBuffer = Some (GPUBuffer 5 [] 80),
                              indexBuffer = Some (GPUBuffer 6 [] 12), indexCount = 6\<rparr>"
    by (simp add: idle_postprocessor_def sample_postprocessor_def)
  from applyPostProcessing_linear_chain[OF ready_idle renderTarget_idle,
      of "[]" "GPUTextureView (CanvasTexture 0)" "Fin 1"]
  have idle: "\<exists>rp s' j lay iv ifr bg. applyPostProcessing [] (GPUTextureView (CanvasTexture 0)) (Fin 1)
                  idle_postprocessor = (Inr [rp], s')
         \<and> pass_label rp = ''copy_to_final''
         \<and> pass_reads rp = [DeviceTexture 0 ''main_render_target'']
         \<and> colorView rp = GPUTextureView (CanvasTexture 0)
         \<and> commands rp
             = [SetPipeline (GPURenderPipeline j ''copy_shader'' lay
                         (GPUShaderModule iv ''copy_shader_vertex'' (vertex getCopyShader))
                         (GPUShaderModule ifr ''copy_shader_fragment'' (fragment getCopyShader))
                         False),
                SetBindGroup 0 bg,
                SetVertexBuffer 0 (GPUBuffer 5 [] 80), SetIndexBuffer (GPUBuffer 6 [] 12),
                DrawIndexed 6]"
    unfolding none cold qi by (auto simp: Plane_bind_cmds_def)
  from busy idle en none cold ready_sample ready_idle renderTarget_sample show ?thesis
    by blast
qed


text \<open>
  C9: on a ready post-processor, when the final target is a view of the canvas, no render
  pass that \<^verbatim>\<open>applyPostProcessing\<close> records writes a texture that it reads; every pass but
  the last writes one of the two temporary targets, and the last one writes the canvas,
  which is neither the scene render target nor a temporary target.
\<close>

theorem applyPostProcessing_never_samples_its_output:
  fixes s :: "'a PostProcessor_scheme"
  assumes "ready s" and "renderTarget s = Some rt"
  shows "\<exists>rps s'. applyPostProcessing enc (GPUTextureView (CanvasTexture c)) time s
                     = (Inr (enc @ rps), s')
      \<and> rps \<noteq> []
      \<and> list_all (\<lambda>rp. pass_writes rp \<notin> set (pass_reads rp)) rps
      \<and> list_all (\<lambda>rp. pass_writes rp \<in> set (tempTargets s)) (butlast rps)
      \<and> pass_writes (last rps) = CanvasTexture c
      \<and> CanvasTexture c \<notin> insert rt (set (tempTargets s))"
proof -
  from assms(1) obtain t0 t1 where temps: "tempTargets s = [t0, t1]"
    and rt': "\<exists>r. renderTarget s = Some r \<and> r \<noteq> t0 \<and> r \<noteq> t1 \<and> offscreen r"
    and ne: "t0 \<noteq> t1" and off: "offscreen t0" "offscreen t1"
    by (rule readyD) blast
  from rt' assms(2) have rtne: "rt \<noteq> t0" "rt \<noteq> t1" "offscreen rt" by auto
  let ?ps = "filter enabled (jsmap_values (passes s))"
  let ?fin = "CanvasTexture c"
  let ?ft = "GPUTextureView ?fin"
  have canvas: "?fin \<noteq> rt" "?fin \<noteq> t0" "?fin \<noteq> t1"
    using rtne off by (auto simp: offscreen_def)
  from applyPostProcessing_ready[OF assms temps, of enc ?ft time]
  obtain rps s' where run: "applyPostProcessing enc ?ft time s = (Inr (enc @ rps), s')"
    and shape: "if ?ps = []
          then \<exists>rp. rps = [rp] \<and> pass_label rp = ''copy_to_final'' \<and> pass_reads rp = [rt]
                 \<and> colorView rp = ?ft \<and> length (pass_pipelines rp) = 1
          else length rps = length ?ps
             \<and> (\<forall>k < length rps.
                   pass_pipelines (rps ! k) = [pass_pipeline (?ps ! k)]
                 \<and> pass_reads (rps ! k) = [if k = 0 then rt else [t0, t1] ! ((k - 1) mod 2)]
                 \<and> colorView (rps ! k)
                     = (if k = length rps - 1 then ?ft
                        else GPUTextureView ([t0, t1] ! (k mod 2))))"
    by blast
  have alt: "[t0, t1] ! (k mod 2) \<noteq> [t0, t1] ! ((k - 1) mod 2)" if "0 < k" for k :: nat
  proof -
    from that have "(k mod 2 = 0 \<and> (k - 1) mod 2 = 1) \<or> (k mod 2 = 1 \<and> (k - 1) mod 2 = 0)"
      by arith
    then show ?thesis using ne by auto
  qed
  have two: "[t0, t1] ! (k mod 2) \<in> {t0, t1}" for k :: nat
  proof -
    have "k mod 2 = 0 \<or> k mod 2 = 1" by arith
    then show ?thesis by auto
  qed
  show ?thesis
  proof (cases "?ps = []")
    case True
    with shape obtain rp where "rps = [rp]" "pass_reads rp = [rt]" "colorView rp = ?ft"
      by auto
    with run canvas show ?thesis by (auto simp: pass_writes_def temps)
  next
    case False
    with shape have len: "length rps = length ?ps"
      and nth: "\<And>k. k < length rps \<Longrightarrow>
                 pass_reads (rps ! k) = [if k = 0 then rt else [t0, t1] ! ((k - 1) mod 2)]
                 \<and> colorView (rps ! k)
                     = (if k = length rps - 1 then ?ft
                        else GPUTextureView ([t0, t1] ! (k mod 2)))"
      by auto
    from False len have nonempty: "rps \<noteq> []" by auto
    have disjoint: "pass_writes rp \<notin> set (pass_reads rp)" if "rp \<in> set rps" for rp
    proof -
      from that obtain k where k: "k < length rps" and rp: "rp = rps ! k"
        by (auto simp: in_set_conv_nth)
      show ?thesis
      proof (cases "k = length rps - 1")
        case True
        with nth[OF k] rp two[of "k - 1"] canvas show ?thesis
          by (auto simp: pass_writes_def)
      next
        case last: False
        show ?thesis
        proof (cases "k = 0")
          case True
          with nth[OF k] rp last two[of 0] rtne show ?thesis
            by (auto simp: pass_writes_def)
        next
          case False
          with nth[OF k] rp last alt[of k] show ?thesis
            by (auto simp: pass_writes_def)
        qed
      qed
    qed
    have inner: "pass_writes rp \<in> set (tempTargets s)" if "rp \<in> set (butlast rps)" for rp
    proof -
      from that obtain k where k: "k < length (butlast rps)" and rp: "rp = butlast rps ! k"
        by (auto simp: in_set_conv_nth)
      from k have k': "k < length rps" "k \<noteq> length rps - 1" by auto
      from rp k have "rp = rps ! k" by (simp add: nth_butlast)
      with nth[OF k'(1)] k'(2) two[of k] show ?thesis
        by (auto simp: pass_writes_def temps)
    qed
    have "pass_writes (last rps) = ?fin"
      using nth[of "length rps - 1"] nonempty by (simp add: last_conv_nth pass_writes_def)
    with run nonempty disjoint inner canvas show ?thesis
      by (auto simp: list_all_iff temps)
  qed
qed

theorem applyPostProcessing_never_samples_its_output_witness:
  "ready sample_postprocessor
   \<and> renderTarget sample_postprocessor = Some (DeviceTexture 0 ''main_render_target'')
   \<and> (\<exists>rps s'. applyPostProcessing [] (GPUTextureView (CanvasTexture 0)) (Fin 1)
                  sample_postprocessor = (Inr rps, s')
         \<and> rps \<noteq> []
         \<and> list_all (\<lambda>rp. pass_writes rp \<notin> set (pass_reads rp)) rps
         \<and> list_all (\<lambda>rp. pass_writes rp \<in> {DeviceTexture 2 ''temp_render_target_0'',
                                  DeviceTexture 3 ''temp_render_target_1''}) (butlast rps)
         \<and> pass_writes (last rps) = CanvasTexture 0)"
proof -
  have t: "tempTargets sample_postprocessor
      = [DeviceTexture 2 ''temp_render_target_0'', DeviceTexture 3 ''temp_render_target_1'']"
    by (simp add: sample_postprocessor_def)
  from applyPostProcessing_never_samples_its_output[OF ready_sample renderTarget_sample,
      of "[]" 0 "Fin 1"]
  show ?thesis using ready_sample renderTarget_sample unfolding t by auto
qed

section \<open>Podium: one frame\<close>

lemma extend_truncate_fields [simp]:
  fixes p :: "'a Podium_scheme"
  shows "console (Core.extend (Core.truncate p) pp) = console p"
    "performance_now (Core.extend (Core.truncate p) pp) = performance_now p"
    "arith (Core.extend (Core.truncate p) pp) = arith p"
    "browser (Core.extend (Core.truncate p) pp) = browser p"
    "gpu (Core.extend (Core.truncate p) pp) = gpu p"
    "shaderManager (Core.extend (Core.truncate p) pp) = shaderManager p"
    "textureManager (Core.extend (Core.truncate p) pp) = textureManager p"
    "uniformManager (Core.extend (Core.truncate p) pp) = uniformManager p"
    "Core.more (Core.extend (Core.truncate p) pp) = pp"
  by (cases p, simp add: Core.extend_def Core.truncate_def)+

lemma sound_extend [simp]:
  fixes p :: "'a Podium_scheme"
  shows "sound (Core.extend (Core.truncate p) pp) = sound p"
  by (simp add: sound_def)

lemma on_postProcessor_run:
  assumes "m (Core.extend (Core.truncate p) pp) = (r, q)"
  shows "on_postProcessor pp m p =
     (r, p\<lparr>console := console q, performance_now := performance_now q,
            arith := arith q, browser := browser q, gpu := gpu q,
            shaderManager := shaderManager q, textureManager := textureManager q,
            uniformManager := uniformManager q, postProcessor := Some (Core.more q)\<rparr>)"
  using assms by (simp add: on_postProcessor_def)

lemma on_postProcessor_unchanged:
  assumes "m (Core.extend (Core.truncate p) pp) = (r, Core.extend (Core.truncate p) pp)"
    and "postProcessor p = Some pp"
  shows "on_postProcessor pp m p = (r, p)"
  using assms by (simp add: on_postProcessor_def)

















section \<open>The creation methods of the managers\<close>

lemma creation_null:
  "null_without_device (createUniformBuffer l sz init) s"
  "null_without_device createStandardUniformLayout s"
  "null_without_device (createUniformBindGroup l layout ub tex smp) s"
  "null_without_device (createSampler l) s"
  "null_without_device (createTextureFromImage img topts) s"
  "null_without_device (createTextureFromVideo img topts) s"
  "null_without_device (loadImageTexture url topts) s"
  "null_without_device (createRenderTarget lo) s"
  "null_without_device (createTextureBindGroup layout t smp lo) s"
  "null_without_device (createShaderModule l src) s"
  "null_without_device createDefaultBindGroupLayout s"
  "null_without_device (createBindGroupLayout l) s"
  "null_without_device createUniformBindGroupLayout s"
  "null_without_device (createPipeline l shader popts) s"
  by (simp add: null_without_device_def createUniformBuffer_def createStandardUniformLayout_def
        createUniformBindGroup_def createSampler_def createTextureFromImage_def
        createTextureFromVideo_def loadImageTexture_def createRenderTarget_def
        createTextureBindGroup_def createShaderModule_def createDefaultBindGroupLayout_def
        createBindGroupLayout_def createUniformBindGroupLayout_def createPipeline_def)+


lemmas made_eval = returns_made_def new_calls_def list_ex_iff js_eval

lemma createUniformBuffer_made:
  "returns_made (createUniformBuffer l sz init) s (CreateBuffer l (alignedSize sz) (init \<noteq> None))
     (\<lambda>i h. h = GPUBuffer i l (alignedSize sz))"
  by (auto simp: createUniformBuffer_def made_eval
      split: option.splits sum.splits if_splits prod.splits)

lemma createStandardUniformLayout_made:
  "returns_made createStandardUniformLayout s (CreateBindGroupLayout ''standard_uniform_layout'')
     (\<lambda>i h. h = GPUBindGroupLayout i ''standard_uniform_layout'')"
  by (auto simp: createStandardUniformLayout_def made_eval
      split: option.splits sum.splits if_splits prod.splits)

lemma createSampler_made:
  "returns_made (createSampler l) s (CreateSampler l) (\<lambda>i h. h = GPUSampler i l)"
  by (auto simp: createSampler_def made_eval
      split: option.splits sum.splits if_splits prod.splits)

lemma createTextureFromImage_made:
  "returns_made (createTextureFromImage img topts) s
     (CreateTexture (or_default (tex_label topts) ''image_texture''))
     (\<lambda>i h. h = DeviceTexture i (or_default (tex_label topts) ''image_texture''))"
  by (auto simp: createTextureFromImage_def made_eval
      split: option.splits sum.splits if_splits prod.splits)


lemma createUniformBindGroup_made:
  "returns_made (createUniformBindGroup l layout ub tex smp) s
     (CreateBindGroup (Some l)
        ([(0, BufferBinding (Some ub))]
         @ (case tex of None \<Rightarrow> [] | Some t \<Rightarrow> [(1, ViewBinding (GPUTextureView t))])
         @ (case smp of None \<Rightarrow> [] | Some x \<Rightarrow> [(2, SamplerBinding x)])))
     (\<lambda>i h. h = GPUBindGroup i (Some l) layout
        ([(0, BufferBinding (Some ub))]
         @ (case tex of None \<Rightarrow> [] | Some t \<Rightarrow> [(1, ViewBinding (GPUTextureView t))])
         @ (case smp of None \<Rightarrow> [] | Some x \<Rightarrow> [(2, SamplerBinding x)])))"
  by (auto simp: createUniformBindGroup_def made_eval
      split: option.splits sum.splits if_splits prod.splits)

lemma createTextureFromVideo_made:
  "returns_made (createTextureFromVideo img topts) s
     (CreateTexture (or_default (tex_label topts) ''video_texture''))
     (\<lambda>i h. h = DeviceTexture i (or_default (tex_label topts) ''video_texture''))"
  by (auto simp: createTextureFromVideo_def made_eval
      split: option.splits sum.splits if_splits prod.splits)

lemma createRenderTarget_made:
  "returns_made (createRenderTarget lo) s (CreateTexture (or_default lo ''render_target''))
     (\<lambda>i h. h = DeviceTexture i (or_default lo ''render_target''))"
  by (auto simp: createRenderTarget_def made_eval
      split: option.splits sum.splits if_splits prod.splits)

lemma createShaderModule_made:
  "returns_made (createShaderModule l src) s (CreateShaderModule l src)
     (\<lambda>i h. h = GPUShaderModule i l src)"
  by (auto simp: createShaderModule_def made_eval
      split: option.splits sum.splits if_splits prod.splits)

lemma createDefaultBindGroupLayout_made:
  "returns_made createDefaultBindGroupLayout s (CreateBindGroupLayout ''default_bind_group_layout'')
     (\<lambda>i h. h = GPUBindGroupLayout i ''default_bind_group_layout'')"
  by (auto simp: createDefaultBindGroupLayout_def made_eval
      split: option.splits sum.splits if_splits prod.splits)

lemma createBindGroupLayout_made:
  "returns_made (createBindGroupLayout l) s (CreateBindGroupLayout l)
     (\<lambda>i h. h = GPUBindGroupLayout i l)"
  by (auto simp: createBindGroupLayout_def made_eval
      split: option.splits sum.splits if_splits prod.splits)

lemma createUniformBindGroupLayout_made:
  "returns_made createUniformBindGroupLayout s (CreateBindGroupLayout ''uniform_layout'')
     (\<lambda>i h. h = GPUBindGroupLayout i ''uniform_layout'')"
  using createBindGroupLayout_made[of "''uniform_layout''" s]
  by (simp add: createUniformBindGroupLayout_def returns_made_def createBindGroupLayout_def)

lemma loadImageTexture_made:
  "returns_made (loadImageTexture url topts) s
     (CreateTexture (or_default (tex_label topts) ''image_texture''))
     (\<lambda>i h. h = DeviceTexture i (or_default (tex_label topts) ''image_texture''))"
  by (auto simp: loadImageTexture_def createTextureFromImage_def made_eval
      split: option.splits sum.splits if_splits prod.splits)

lemma createTextureBindGroup_made:
  "returns_made (createTextureBindGroup layout t smp lo) s
     (CreateBindGroup lo [(0, ViewBinding (GPUTextureView t)),
        (1, SamplerBinding (case smp of Some x \<Rightarrow> x
           | None \<Rightarrow> (case samplers (textureManager s) ''default'' of Some x \<Rightarrow> x
               | None \<Rightarrow> GPUSampler (case device (gpu s) of Some d \<Rightarrow> nextId d | None \<Rightarrow> 0)
                           ''default'')))])
     (\<lambda>i h. case h of GPUBindGroup k lab lay es \<Rightarrow> k = i \<and> lab = lo \<and> lay = layout)"
  by (auto simp: createTextureBindGroup_def getOrCreateDefaultSampler_def createSampler_def
      made_eval
      split: option.splits sum.splits if_splits prod.splits)

text \<open>The calls a run of \<^verbatim>\<open>createPipeline\<close> makes before the pipeline itself.\<close>

lemma grows_createShaderModule:
  "device_grows (\<lambda>c. True) (device (gpu s)) (device (gpu (snd (createShaderModule l src s))))"
  by (auto simp: createShaderModule_def js_eval device_grows_def
      split: option.splits sum.splits if_splits prod.splits)

lemma device_checkCompilation:
  "device (gpu (snd (checkCompilation info kind s))) = device (gpu s)"
  by (simp add: checkCompilation_def)

lemma grows_createDefaultBindGroupLayout:
  "device_grows (\<lambda>c. True) (device (gpu s)) (device (gpu (snd (createDefaultBindGroupLayout s))))"
  by (auto simp: createDefaultBindGroupLayout_def js_eval device_grows_def
      split: option.splits sum.splits if_splits prod.splits)

lemma grows_native_new:
  "device_grows (\<lambda>c. True) (device (gpu s)) (device (gpu (snd (native_new c s))))"
  using only_logs_native_new[of "\<lambda>c. True" c s] by (simp add: only_logs_frame)

lemma made_after_growth:
  assumes "device_grows (\<lambda>c. True) (device (gpu s)) (device (gpu s1))"
    and "native_new c s1 = (Inr j, s2)"
    and "device (gpu s') = device (gpu s2)"
  shows "list_ex (\<lambda>e. fst e = c \<and> (case snd e of Made i \<Rightarrow> i = j | _ \<Rightarrow> False))
           (new_calls s s')"
  using assms
  by (auto simp: device_grows_def new_calls_def list_ex_iff native_new_def set_device_def
      split: option.splits if_splits)

lemma pipeline_chain:
  assumes "createShaderModule a b s = (r1, s1)" and "createShaderModule a' b' s1 = (r2, s2)"
    and "checkCompilation i1 k1 s2 = (r3, s3)" and "checkCompilation i2 k2 s3 = (r4, s4)"
    and "native_new c s4 = (r5, s5)"
  shows "device_grows (\<lambda>c. True) (device (gpu s)) (device (gpu s5))"
proof -
  have "device_grows (\<lambda>c. True) (device (gpu s)) (device (gpu s1))"
    using grows_createShaderModule[of s a b] assms(1) by simp
  moreover have "device_grows (\<lambda>c. True) (device (gpu s1)) (device (gpu s2))"
    using grows_createShaderModule[of s1 a' b'] assms(2) by simp
  moreover have "device (gpu s4) = device (gpu s2)"
    using device_checkCompilation[of i1 k1 s2] device_checkCompilation[of i2 k2 s3] assms(3,4)
    by simp
  moreover have "device_grows (\<lambda>c. True) (device (gpu s4)) (device (gpu s5))"
    using grows_native_new[of s4 c] assms(5) by simp
  ultimately show ?thesis by (metis device_grows_trans)
qed

lemma pipeline_chain_default:
  assumes "createShaderModule a b s = (r1, s1)" and "createShaderModule a' b' s1 = (r2, s2)"
    and "checkCompilation i1 k1 s2 = (r3, s3)" and "checkCompilation i2 k2 s3 = (r4, s4)"
    and "createDefaultBindGroupLayout s4 = (r5, s5)" and "native_new c s5 = (r6, s6)"
  shows "device_grows (\<lambda>c. True) (device (gpu s)) (device (gpu s6))"
proof -
  have "device_grows (\<lambda>c. True) (device (gpu s)) (device (gpu s1))"
    using grows_createShaderModule[of s a b] assms(1) by simp
  moreover have "device_grows (\<lambda>c. True) (device (gpu s1)) (device (gpu s2))"
    using grows_createShaderModule[of s1 a' b'] assms(2) by simp
  moreover have "device (gpu s4) = device (gpu s2)"
    using device_checkCompilation[of i1 k1 s2] device_checkCompilation[of i2 k2 s3] assms(3,4)
    by simp
  moreover have "device_grows (\<lambda>c. True) (device (gpu s4)) (device (gpu s5))"
    using grows_createDefaultBindGroupLayout[of s4] assms(5) by simp
  moreover have "device_grows (\<lambda>c. True) (device (gpu s5)) (device (gpu s6))"
    using grows_native_new[of s5 c] assms(6) by simp
  ultimately show ?thesis by (metis device_grows_trans)
qed

lemma createPipeline_Some:
  fixes s :: "'a Core_scheme"
  assumes r: "createPipeline l shader popts s = (Inr (Some h), s')"
  shows "\<exists>(s1 :: 'a Core_scheme) s2 j. native_new (CreateRenderPipeline l) s1 = (Inr j, s2)
      \<and> device_grows (\<lambda>c. True) (device (gpu s)) (device (gpu s1))
      \<and> device (gpu s') = device (gpu s2)
      \<and> (\<exists>lay vm fm. h = GPURenderPipeline j l lay vm fm (opt_depthTest popts))"
proof -
  have dev: "device (gpu s) \<noteq> None"
  proof
    assume "device (gpu s) = None"
    then have "fst (createPipeline l shader popts s) = Inr None"
      by (simp add: createPipeline_def)
    with r show False by simp
  qed
  note r' = r[unfolded createPipeline_def if_not_P[OF dev]]
  show ?thesis
    using r'
    apply (elim js_catch_elim)
     apply ((elim js_bind_elim | simp split: option.splits if_splits list.splits)+)[1]
       apply (clarsimp simp: Let_def, blast intro: pipeline_chain_default)
      apply ((elim js_bind_elim | simp split: option.splits if_splits list.splits)+)[1]
      apply (clarsimp simp: Let_def, blast intro: pipeline_chain_default)
     apply ((elim js_bind_elim | simp split: option.splits if_splits list.splits)+)[1]
     apply (clarsimp simp: Let_def, blast intro: pipeline_chain)
    apply simp
    done
qed

lemma createPipeline_made:
  "returns_made (createPipeline l shader popts) s (CreateRenderPipeline l)
     (\<lambda>i h. case h of GPURenderPipeline k lab lay vm fm dp \<Rightarrow>
        k = i \<and> lab = l \<and> dp = opt_depthTest popts)"
proof (cases "createPipeline l shader popts s")
  case (Pair r s')
  show ?thesis
  proof (cases r)
    case (Inl e)
    with Pair show ?thesis by (simp add: returns_made_def)
  next
    case (Inr ho)
    show ?thesis
    proof (cases ho)
      case None
      with Pair Inr show ?thesis by (simp add: returns_made_def)
    next
      case (Some h)
      from createPipeline_Some[of l shader popts s h s'] Pair Inr Some
      obtain s1 s2 :: "'a Core_scheme" and j lay vm fm
        where "native_new (CreateRenderPipeline l) s1 = (Inr j, s2)"
          "device_grows (\<lambda>c. True) (device (gpu s)) (device (gpu s1))"
          "device (gpu s') = device (gpu s2)"
          and h: "h = GPURenderPipeline j l lay vm fm (opt_depthTest popts)"
        by auto
      from made_after_growth[OF this(2,1,3)] h Pair Inr Some
      show ?thesis by (auto simp: returns_made_def list_ex_iff split: outcome.splits)
    qed
  qed
qed

lemmas succeeds_eval = succeeds_def sound_def js_eval

lemma creation_succeeds:
  assumes "sound s"
  shows "(case init of None \<Rightarrow> True | Some bytes \<Rightarrow> int (length bytes) \<le> alignedSize sz)
           \<Longrightarrow> succeeds (createUniformBuffer l sz init) s"
    "succeeds createStandardUniformLayout s"
    "succeeds (createUniformBindGroup l layout ub tex smp) s"
    "succeeds (createSampler l) s"
    "succeeds (createTextureFromImage img topts) s"
    "succeeds (createTextureFromVideo img topts) s"
    "imageCache (textureManager s) url \<noteq> None \<or> loadImage (browser s) url \<noteq> None
           \<Longrightarrow> succeeds (loadImageTexture url topts) s"
    "succeeds (createRenderTarget lo) s"
    "succeeds (createTextureBindGroup layout t smp lo) s"
    "succeeds (createShaderModule l src) s"
    "succeeds createDefaultBindGroupLayout s"
    "succeeds (createBindGroupLayout l) s"
    "succeeds createUniformBindGroupLayout s"
  using assms
  by (auto simp: succeeds_eval createUniformBuffer_def createStandardUniformLayout_def
        createUniformBindGroup_def createSampler_def createTextureFromImage_def
        createTextureFromVideo_def loadImageTexture_def createRenderTarget_def
        createTextureBindGroup_def getOrCreateDefaultSampler_def createShaderModule_def
        createDefaultBindGroupLayout_def
        createBindGroupLayout_def createUniformBindGroupLayout_def
      split: option.splits)


lemma createPipeline_succeeds:
  assumes "sound s"
  shows "succeeds (createPipeline l shader popts) s"
  using assms
  by (auto simp: succeeds_eval createPipeline_def createShaderModule_def checkCompilation_def
        createDefaultBindGroupLayout_def
      split: option.splits list.splits)

lemma loadVideoTexture_null: "null_without_device (loadVideoTexture source topts) s"
  by (simp add: null_without_device_def loadVideoTexture_def)

lemma loadVideoTexture_made:
  "returns_made (loadVideoTexture source topts) s
     (CreateTexture (or_default (tex_label topts) ''video_texture''))
     (\<lambda>i h. h = DeviceTexture i (or_default (tex_label topts) ''video_texture''))"
  by (auto simp: loadVideoTexture_def createTextureFromVideo_def made_eval
      split: option.splits sum.splits if_splits prod.splits video_source.splits)

lemma loadVideoTexture_succeeds:
  assumes "sound s"
    and "case source of VideoElement video \<Rightarrow> True
         | VideoUrl url \<Rightarrow> videoCache (textureManager s) url \<noteq> None
                          \<or> loadVideo (browser s) url \<noteq> None"
  shows "succeeds (loadVideoTexture source topts) s"
  using assms
  by (auto simp: succeeds_eval loadVideoTexture_def createTextureFromVideo_def
      split: option.splits video_source.splits)

text \<open>
  C6: every creation method of the three managers (fifteen methods), run without a device, returns
  \<^verbatim>\<open>null\<close> and touches nothing but the console (there is no device call to make); when it
  returns a handle, the handle is the object that the matching device call, made during
  the run with the forwarded label, returned; and on a sound state it does return a handle
  (a uniform buffer when the initial data fits, an image texture when the image loads).
\<close>

theorem creation_null_or_native_handle:
  fixes s :: "'a Core_scheme"
  shows
   "(null_without_device (createUniformBuffer l sz init) s
     \<and> returns_made (createUniformBuffer l sz init) s
          (CreateBuffer l (alignedSize sz) (init \<noteq> None)) (\<lambda>i h. h = GPUBuffer i l (alignedSize sz))
     \<and> (sound s \<and> (case init of None \<Rightarrow> True | Some bytes \<Rightarrow> int (length bytes) \<le> alignedSize sz)
          \<longrightarrow> succeeds (createUniformBuffer l sz init) s))
  \<and> (null_without_device (createShaderModule l src) s
     \<and> returns_made (createShaderModule l src) s (CreateShaderModule l src)
          (\<lambda>i h. h = GPUShaderModule i l src)
     \<and> (sound s \<longrightarrow> succeeds (createShaderModule l src) s))
  \<and> (null_without_device (createPipeline l shader popts) s
     \<and> returns_made (createPipeline l shader popts) s (CreateRenderPipeline l)
          (\<lambda>i h. case h of GPURenderPipeline k lab lay vm fm dp \<Rightarrow>
             k = i \<and> lab = l \<and> dp = opt_depthTest popts)
     \<and> (sound s \<longrightarrow> succeeds (createPipeline l shader popts) s))
  \<and> (null_without_device (createSampler l) s
     \<and> returns_made (createSampler l) s (CreateSampler l) (\<lambda>i h. h = GPUSampler i l)
     \<and> (sound s \<longrightarrow> succeeds (createSampler l) s))
  \<and> (null_without_device (createTextureFromImage img topts) s
     \<and> returns_made (createTextureFromImage img topts) s
          (CreateTexture (or_default (tex_label topts) ''image_texture''))
          (\<lambda>i h. h = DeviceTexture i (or_default (tex_label topts) ''image_texture''))
     \<and> (sound s \<longrightarrow> succeeds (createTextureFromImage img topts) s))
  \<and> (null_without_device (createTextureFromVideo img topts) s
     \<and> returns_made (createTextureFromVideo img topts) s
          (CreateTexture (or_default (tex_label topts) ''video_texture''))
          (\<lambda>i h. h = DeviceTexture i (or_default (tex_label topts) ''video_texture''))
     \<and> (sound s \<longrightarrow> succeeds (createTextureFromVideo img topts) s))
  \<and> (null_without_device (loadImageTexture url topts) s
     \<and> returns_made (loadImageTexture url topts) s
          (CreateTexture (or_default (tex_label topts) ''image_texture''))
          (\<lambda>i h. h = DeviceTexture i (or_default (tex_label topts) ''image_texture''))
     \<and> (sound s \<and> (imageCache (textureManager s) url \<noteq> None \<or> loadImage (browser s) url \<noteq> None)
          \<longrightarrow> succeeds (loadImageTexture url topts) s))
  \<and> (null_without_device (loadVideoTexture source topts) s
     \<and> returns_made (loadVideoTexture source topts) s
          (CreateTexture (or_default (tex_label topts) ''video_texture''))
          (\<lambda>i h. h = DeviceTexture i (or_default (tex_label topts) ''video_texture''))
     \<and> (sound s \<and> (case source of VideoElement video \<Rightarrow> True
                       | VideoUrl url \<Rightarrow> videoCache (textureManager s) url \<noteq> None
                                        \<or> loadVideo (browser s) url \<noteq> None)
          \<longrightarrow> succeeds (loadVideoTexture source topts) s))
  \<and> (null_without_device (createRenderTarget lo) s
     \<and> returns_made (createRenderTarget lo) s (CreateTexture (or_default lo ''render_target''))
          (\<lambda>i h. h = DeviceTexture i (or_default lo ''render_target''))
     \<and> (sound s \<longrightarrow> succeeds (createRenderTarget lo) s))
  \<and> (null_without_device (createUniformBindGroup l layout ub tex smp) s
     \<and> returns_made (createUniformBindGroup l layout ub tex smp) s
          (CreateBindGroup (Some l)
             ([(0, BufferBinding (Some ub))]
              @ (case tex of None \<Rightarrow> [] | Some t \<Rightarrow> [(1, ViewBinding (GPUTextureView t))])
              @ (case smp of None \<Rightarrow> [] | Some x \<Rightarrow> [(2, SamplerBinding x)])))
          (\<lambda>i h. h = GPUBindGroup i (Some l) layout
             ([(0, BufferBinding (Some ub))]
              @ (case tex of None \<Rightarrow> [] | Some t \<Rightarrow> [(1, ViewBinding (GPUTextureView t))])
              @ (case smp of None \<Rightarrow> [] | Some x \<Rightarrow> [(2, SamplerBinding x)])))
     \<and> (sound s \<longrightarrow> succeeds (createUniformBindGroup l layout ub tex smp) s))
  \<and> (null_without_device (createTextureBindGroup layout t smp lo) s
     \<and> returns_made (createTextureBindGroup layout t smp lo) s
          (CreateBindGroup lo [(0, ViewBinding (GPUTextureView t)),
             (1, SamplerBinding (case smp of Some x \<Rightarrow> x
                | None \<Rightarrow> (case samplers (textureManager s) ''default'' of Some x \<Rightarrow> x
                    | None \<Rightarrow> GPUSampler (case device (gpu s) of Some d \<Rightarrow> nextId d | None \<Rightarrow> 0)
                                ''default'')))])
          (\<lambda>i h. case h of GPUBindGroup k lab lay es \<Rightarrow> k = i \<and> lab = lo \<and> lay = layout)
     \<and> (sound s \<longrightarrow> succeeds (createTextureBindGroup layout t smp lo) s))
  \<and> (null_without_device (createBindGroupLayout l) s
     \<and> returns_made (createBindGroupLayout l) s (CreateBindGroupLayout l)
          (\<lambda>i h. h = GPUBindGroupLayout i l)
     \<and> (sound s \<longrightarrow> succeeds (createBindGroupLayout l) s))
  \<and> (null_without_device createUniformBindGroupLayout s
     \<and> returns_made createUniformBindGroupLayout s (CreateBindGroupLayout ''uniform_layout'')
          (\<lambda>i h. h = GPUBindGroupLayout i ''uniform_layout'')
     \<and> (sound s \<longrightarrow> succeeds createUniformBindGroupLayout s))
  \<and> (null_without_device createDefaultBindGroupLayout s
     \<and> returns_made createDefaultBindGroupLayout s
          (CreateBindGroupLayout ''default_bind_group_layout'')
          (\<lambda>i h. h = GPUBindGroupLayout i ''default_bind_group_layout'')
     \<and> (sound s \<longrightarrow> succeeds createDefaultBindGroupLayout s))
  \<and> (null_without_device createStandardUniformLayout s
     \<and> returns_made createStandardUniformLayout s
          (CreateBindGroupLayout ''standard_uniform_layout'')
          (\<lambda>i h. h = GPUBindGroupLayout i ''standard_uniform_layout'')
     \<and> (sound s \<longrightarrow> succeeds createStandardUniformLayout s))"
  by (intro conjI impI creation_null loadVideoTexture_null loadVideoTexture_made
        createUniformBuffer_made createShaderModule_made
        createPipeline_made createSampler_made createTextureFromImage_made
        createTextureFromVideo_made loadImageTexture_made createRenderTarget_made
        createUniformBindGroup_made createTextureBindGroup_made createBindGroupLayout_made
        createUniformBindGroupLayout_made createDefaultBindGroupLayout_made
        createStandardUniformLayout_made)
     (erule conjE, (rule creation_succeeds createPipeline_succeeds loadVideoTexture_succeeds,
        assumption+)+)+

theorem creation_null_or_native_handle_witness:
  "device (gpu (sample_podium False)) = None
   \<and> createUniformBuffer ''u'' 96 None (sample_podium False)
       = (Inr None, (sample_podium False)\<lparr>console := [ConsoleError ''WebGPU device not available'']\<rparr>)
   \<and> createSampler ''default'' (sample_podium False) = (Inr None, sample_podium False)
   \<and> sound sample_initialized
   \<and> (\<exists>s'. createUniformBuffer ''u'' 96 None sample_initialized
               = (Inr (Some (GPUBuffer 0 ''u'' 256)), s')
          \<and> new_calls sample_initialized s' = [(CreateBuffer ''u'' 256 False, Made 0)])
   \<and> (\<exists>s'. createSampler ''default'' sample_initialized
               = (Inr (Some (GPUSampler 0 ''default'')), s')
          \<and> new_calls sample_initialized s' = [(CreateSampler ''default'', Made 0)])"
  using creation_null_or_native_handle[of "''u''" 96 None "sample_podium False"]
    creation_null_or_native_handle[of "''u''" 96 None sample_initialized]
  by (simp add: createUniformBuffer_def createSampler_def js_eval sample_defs alignedSize_def
      new_calls_def sound_def)

section \<open>The label-keyed maps of the managers\<close>

lemma table_defs:
  "the_uniformBuffers s = uniformBuffers (uniformManager s)"
  "the_bindGroups s = bindGroups (uniformManager s)"
  "the_pipelines s = pipelines (shaderManager s)"
  "the_textures s = textures (textureManager s)"
  "the_samplers s = samplers (textureManager s)"
  by (simp_all add: the_uniformBuffers_def the_bindGroups_def the_pipelines_def
      the_textures_def the_samplers_def answer_def getUniformBuffer_def getBindGroup_def
      getPipeline_def getTexture_def getSampler_def)

lemmas table_eval = stores_def keeps_def table_defs js_eval

lemma getters_unchanged:
  "unchanged_by (getUniformBuffer k) s" "unchanged_by (getBindGroup k) s"
  "unchanged_by (getPipeline k) s" "unchanged_by (getTexture k) s"
  "unchanged_by (getSampler k) s"
  by (simp_all add: unchanged_by_def getUniformBuffer_def getBindGroup_def getPipeline_def
      getTexture_def getSampler_def)

lemma createUniformBuffer_tables:
  "stores the_uniformBuffers l (createUniformBuffer l sz init) s"
  "keeps (\<lambda>s. (the_bindGroups s, the_pipelines s, the_textures s, the_samplers s))
     (createUniformBuffer l sz init) s"
  by (auto simp: createUniformBuffer_def table_eval
      split: option.splits sum.splits if_splits prod.splits)

lemma createUniformBindGroup_tables:
  "stores the_bindGroups l (createUniformBindGroup l layout ub tex smp) s"
  "keeps (\<lambda>s. (the_uniformBuffers s, the_pipelines s, the_textures s, the_samplers s))
     (createUniformBindGroup l layout ub tex smp) s"
  by (auto simp: createUniformBindGroup_def table_eval
      split: option.splits sum.splits if_splits prod.splits)

lemma createSampler_tables:
  "stores the_samplers l (createSampler l) s"
  "keeps (\<lambda>s. (the_uniformBuffers s, the_bindGroups s, the_pipelines s, the_textures s))
     (createSampler l) s"
  by (auto simp: createSampler_def table_eval
      split: option.splits sum.splits if_splits prod.splits)

lemma loadImageTexture_tables:
  "stores the_textures url (loadImageTexture url topts) s"
  "keeps (\<lambda>s. (the_uniformBuffers s, the_bindGroups s, the_pipelines s, the_samplers s))
     (loadImageTexture url topts) s"
  by (auto simp: loadImageTexture_def createTextureFromImage_def table_eval
      split: option.splits sum.splits if_splits prod.splits)

lemma keeps_all_tables:
  "keeps (\<lambda>s. (the_uniformBuffers s, the_bindGroups s, the_pipelines s, the_textures s,
     the_samplers s)) createStandardUniformLayout s"
  "keeps (\<lambda>s. (the_uniformBuffers s, the_bindGroups s, the_pipelines s, the_textures s,
     the_samplers s)) (createTextureFromImage img topts) s"
  "keeps (\<lambda>s. (the_uniformBuffers s, the_bindGroups s, the_pipelines s, the_textures s,
     the_samplers s)) (createTextureFromVideo img topts) s"
  "keeps (\<lambda>s. (the_uniformBuffers s, the_bindGroups s, the_pipelines s, the_textures s,
     the_samplers s)) (createRenderTarget lo) s"
  "keeps (\<lambda>s. (the_uniformBuffers s, the_bindGroups s, the_pipelines s, the_textures s,
     the_samplers s)) (createShaderModule l src) s"
  "keeps (\<lambda>s. (the_uniformBuffers s, the_bindGroups s, the_pipelines s, the_textures s,
     the_samplers s)) createDefaultBindGroupLayout s"
  "keeps (\<lambda>s. (the_uniformBuffers s, the_bindGroups s, the_pipelines s, the_textures s,
     the_samplers s)) (createBindGroupLayout l) s"
  "keeps (\<lambda>s. (the_uniformBuffers s, the_bindGroups s, the_pipelines s, the_textures s,
     the_samplers s)) createUniformBindGroupLayout s"
  by (auto simp: createStandardUniformLayout_def createTextureFromImage_def
        createTextureFromVideo_def createRenderTarget_def createShaderModule_def
        createDefaultBindGroupLayout_def createBindGroupLayout_def
        createUniformBindGroupLayout_def table_eval
      split: option.splits sum.splits if_splits prod.splits)

lemma createTextureBindGroup_tables:
  "keeps (\<lambda>s. (the_uniformBuffers s, the_bindGroups s, the_pipelines s, the_textures s))
     (createTextureBindGroup layout t smp lo) s"
  "keeps (\<lambda>s. (the_samplers s)(''default'' := None)) (createTextureBindGroup layout t smp lo) s"
  "smp \<noteq> None \<or> the_samplers s ''default'' \<noteq> None
     \<Longrightarrow> keeps the_samplers (createTextureBindGroup layout t smp lo) s"
  by (auto simp: createTextureBindGroup_def getOrCreateDefaultSampler_def createSampler_def
        table_eval
      split: option.splits sum.splits if_splits prod.splits)

text \<open>Every way a sequence or a \<^verbatim>\<open>try\<close> can end.\<close>

lemma js_bind_cases:
  assumes "js_bind m f s = (r, s')"
  obtains e where "m s = (Inl e, s')" "r = Inl e"
  | x s1 where "m s = (Inr x, s1)" "f x s1 = (r, s')"
  using assms by (cases "m s") (auto simp: js_bind_def split: sum.splits)

lemma js_catch_cases:
  assumes "js_catch m h s = (r, s')"
  obtains x where "m s = (Inr x, s')" "r = Inr x"
  | e s1 where "m s = (Inl e, s1)" "h e s1 = (r, s')"
  using assms by (cases "m s") (auto simp: js_catch_def split: sum.splits)

lemma pipeline_steps_keep:
  "createShaderModule l src s = (r1, s1) \<Longrightarrow>
     uniformManager s1 = uniformManager s \<and> textureManager s1 = textureManager s
     \<and> pipelines (shaderManager s1) = pipelines (shaderManager s)"
  "checkCompilation info kind s = (r2, s2) \<Longrightarrow>
     uniformManager s2 = uniformManager s \<and> textureManager s2 = textureManager s
     \<and> pipelines (shaderManager s2) = pipelines (shaderManager s)"
  "createDefaultBindGroupLayout s = (r3, s3) \<Longrightarrow>
     uniformManager s3 = uniformManager s \<and> textureManager s3 = textureManager s
     \<and> pipelines (shaderManager s3) = pipelines (shaderManager s)"
  "native_new c s = (r4, s4) \<Longrightarrow>
     uniformManager s4 = uniformManager s \<and> textureManager s4 = textureManager s
     \<and> pipelines (shaderManager s4) = pipelines (shaderManager s)"
  by (auto simp: createShaderModule_def checkCompilation_def createDefaultBindGroupLayout_def
        js_eval split: option.splits sum.splits if_splits prod.splits)

lemma createPipeline_result:
  assumes r: "createPipeline l shader popts s = (r, s')"
  shows "uniformManager s' = uniformManager s \<and> textureManager s' = textureManager s
     \<and> pipelines (shaderManager s')
         = (case r of Inr (Some h) \<Rightarrow> (pipelines (shaderManager s))(l \<mapsto> h)
            | _ \<Rightarrow> pipelines (shaderManager s))"
proof (cases "device (gpu s) = None")
  case True
  with r show ?thesis by (auto simp: createPipeline_def)
next
  case False
  note r' = r[unfolded createPipeline_def if_not_P[OF False]]
  show ?thesis
    using r'
    apply (elim js_catch_cases)
    apply ((elim js_bind_cases
            | simp split: option.splits if_splits list.splits
            | (auto simp: Let_def dest!: pipeline_steps_keep; fail))+)
    done
qed

lemma createPipeline_tables:
  "stores the_pipelines l (createPipeline l shader popts) s"
  "keeps (\<lambda>s. (the_uniformBuffers s, the_bindGroups s, the_textures s, the_samplers s))
     (createPipeline l shader popts) s"
proof -
  obtain r s' where run: "createPipeline l shader popts s = (r, s')"
    by (cases "createPipeline l shader popts s")
  note res = createPipeline_result[OF run]
  from res run show "stores the_pipelines l (createPipeline l shader popts) s"
    by (auto simp: stores_def table_defs split: sum.splits option.splits)
  from res run show "keeps (\<lambda>s. (the_uniformBuffers s, the_bindGroups s, the_textures s,
     the_samplers s)) (createPipeline l shader popts) s"
    by (simp add: keeps_def table_defs)
qed

text \<open>The key under which \<^verbatim>\<open>loadVideoTexture\<close> stores the texture.\<close>

lemma loadVideoTexture_tables:
  "stores the_textures
     (case source of VideoUrl url \<Rightarrow> url
      | VideoElement video \<Rightarrow> ''video_'' @ decimal (date_now (browser s)))
     (loadVideoTexture source topts) s"
  "keeps (\<lambda>s. (the_uniformBuffers s, the_bindGroups s, the_pipelines s, the_samplers s))
     (loadVideoTexture source topts) s"
  by (auto simp: loadVideoTexture_def createTextureFromVideo_def table_eval
      split: option.splits sum.splits if_splits prod.splits video_source.splits)

lemma destroy_tables:
  "the_uniformBuffers (snd (UniformManager_destroy s)) = Map.empty"
  "the_bindGroups (snd (UniformManager_destroy s)) = Map.empty"
  "keeps (\<lambda>s. (the_pipelines s, the_textures s, the_samplers s)) UniformManager_destroy s"
  "the_textures (snd (TextureManager_destroy s)) = Map.empty"
  "the_samplers (snd (TextureManager_destroy s)) = Map.empty"
  "keeps (\<lambda>s. (the_uniformBuffers s, the_bindGroups s, the_pipelines s)) TextureManager_destroy s"
  "the_pipelines (snd (ShaderManager_destroy s)) = Map.empty"
  "keeps (\<lambda>s. (the_uniformBuffers s, the_bindGroups s, the_textures s, the_samplers s))
     ShaderManager_destroy s"
  by (simp_all add: UniformManager_destroy_def TextureManager_destroy_def
      ShaderManager_destroy_def table_eval)

text \<open>
  C8: what the five getters answer, key by key, is written \<open>the_uniformBuffers\<close>,
  \<open>the_bindGroups\<close>, \<open>the_pipelines\<close>, \<open>the_textures\<close> and \<open>the_samplers\<close>. A getter returns
  and leaves the state as it is. On a fresh \<^verbatim>\<open>Podium\<close> every getter answers \<^verbatim>\<open>null\<close> for
  every key. A creation method that stores (\<^verbatim>\<open>createUniformBuffer\<close>,
  \<^verbatim>\<open>createUniformBindGroup\<close>, \<^verbatim>\<open>createPipeline\<close>, \<^verbatim>\<open>createSampler\<close>, and for textures
  \<^verbatim>\<open>loadImageTexture\<close> and \<^verbatim>\<open>loadVideoTexture\<close>) makes its getter answer the returned handle
  under its key and changes no other answer; when it returns \<^verbatim>\<open>null\<close> or throws, no
  answer changes. Every other creation method changes no answer, except that
  \<^verbatim>\<open>createTextureBindGroup\<close> called without a sampler stores the default sampler, through
  \<^verbatim>\<open>createSampler\<close>, when there is none yet. After a manager's \<^verbatim>\<open>destroy\<close> its getters
  answer \<^verbatim>\<open>null\<close> for every key and the other managers' answers are as before.
\<close>

theorem getters_present_or_absent:
  fixes s :: "'a Core_scheme"
  shows
   "(unchanged_by (getUniformBuffer k) s \<and> unchanged_by (getBindGroup k) s
     \<and> unchanged_by (getPipeline k) s \<and> unchanged_by (getTexture k) s
     \<and> unchanged_by (getSampler k) s)
  \<and> (the_uniformBuffers (new_Podium b fp now w h e) = Map.empty
     \<and> the_bindGroups (new_Podium b fp now w h e) = Map.empty
     \<and> the_pipelines (new_Podium b fp now w h e) = Map.empty
     \<and> the_textures (new_Podium b fp now w h e) = Map.empty
     \<and> the_samplers (new_Podium b fp now w h e) = Map.empty)
  \<and> (stores the_uniformBuffers l (createUniformBuffer l sz init) s
     \<and> keeps (\<lambda>s. (the_bindGroups s, the_pipelines s, the_textures s, the_samplers s))
          (createUniformBuffer l sz init) s)
  \<and> (stores the_bindGroups l (createUniformBindGroup l layout ub tex smp) s
     \<and> keeps (\<lambda>s. (the_uniformBuffers s, the_pipelines s, the_textures s, the_samplers s))
          (createUniformBindGroup l layout ub tex smp) s)
  \<and> (stores the_pipelines l (createPipeline l shader popts) s
     \<and> keeps (\<lambda>s. (the_uniformBuffers s, the_bindGroups s, the_textures s, the_samplers s))
          (createPipeline l shader popts) s)
  \<and> (stores the_textures url (loadImageTexture url topts) s
     \<and> keeps (\<lambda>s. (the_uniformBuffers s, the_bindGroups s, the_pipelines s, the_samplers s))
          (loadImageTexture url topts) s)
  \<and> (stores the_textures
          (case source of VideoUrl url \<Rightarrow> url
           | VideoElement video \<Rightarrow> ''video_'' @ decimal (date_now (browser s)))
          (loadVideoTexture source topts) s
     \<and> keeps (\<lambda>s. (the_uniformBuffers s, the_bindGroups s, the_pipelines s, the_samplers s))
          (loadVideoTexture source topts) s)
  \<and> (stores the_samplers l (createSampler l) s
     \<and> keeps (\<lambda>s. (the_uniformBuffers s, the_bindGroups s, the_pipelines s, the_textures s))
          (createSampler l) s)
  \<and> (keeps (\<lambda>s. (the_uniformBuffers s, the_bindGroups s, the_pipelines s, the_textures s))
          (createTextureBindGroup layout t smp lo) s
     \<and> keeps (\<lambda>s. (the_samplers s)(''default'' := None))
          (createTextureBindGroup layout t smp lo) s
     \<and> (smp \<noteq> None \<or> the_samplers s ''default'' \<noteq> None
          \<longrightarrow> keeps the_samplers (createTextureBindGroup layout t smp lo) s))
  \<and> (keeps (\<lambda>s. (the_uniformBuffers s, the_bindGroups s, the_pipelines s, the_textures s,
          the_samplers s)) createStandardUniformLayout s
     \<and> keeps (\<lambda>s. (the_uniformBuffers s, the_bindGroups s, the_pipelines s, the_textures s,
          the_samplers s)) (createTextureFromImage img topts) s
     \<and> keeps (\<lambda>s. (the_uniformBuffers s, the_bindGroups s, the_pipelines s, the_textures s,
          the_samplers s)) (createTextureFromVideo img topts) s
     \<and> keeps (\<lambda>s. (the_uniformBuffers s, the_bindGroups s, the_pipelines s, the_textures s,
          the_samplers s)) (createRenderTarget lo) s
     \<and> keeps (\<lambda>s. (the_uniformBuffers s, the_bindGroups s, the_pipelines s, the_textures s,
          the_samplers s)) (createShaderModule l src) s
     \<and> keeps (\<lambda>s. (the_uniformBuffers s, the_bindGroups s, the_pipelines s, the_textures s,
          the_samplers s)) createDefaultBindGroupLayout s
     \<and> keeps (\<lambda>s. (the_uniformBuffers s, the_bindGroups s, the_pipelines s, the_textures s,
          the_samplers s)) (createBindGroupLayout l) s
     \<and> keeps (\<lambda>s. (the_uniformBuffers s, the_bindGroups s, the_pipelines s, the_textures s,
          the_samplers s)) createUniformBindGroupLayout s)
  \<and> (the_uniformBuffers (snd (UniformManager_destroy s)) = Map.empty
     \<and> the_bindGroups (snd (UniformManager_destroy s)) = Map.empty
     \<and> keeps (\<lambda>s. (the_pipelines s, the_textures s, the_samplers s)) UniformManager_destroy s
     \<and> the_textures (snd (TextureManager_destroy s)) = Map.empty
     \<and> the_samplers (snd (TextureManager_destroy s)) = Map.empty
     \<and> keeps (\<lambda>s. (the_uniformBuffers s, the_bindGroups s, the_pipelines s))
          TextureManager_destroy s
     \<and> the_pipelines (snd (ShaderManager_destroy s)) = Map.empty
     \<and> keeps (\<lambda>s. (the_uniformBuffers s, the_bindGroups s, the_textures s, the_samplers s))
          ShaderManager_destroy s)"
proof -
  have fresh: "the_uniformBuffers (new_Podium b fp now w h e) = Map.empty"
     "the_bindGroups (new_Podium b fp now w h e) = Map.empty"
     "the_pipelines (new_Podium b fp now w h e) = Map.empty"
     "the_textures (new_Podium b fp now w h e) = Map.empty"
     "the_samplers (new_Podium b fp now w h e) = Map.empty"
    by (simp_all add: table_defs new_Podium_def)
  show ?thesis
    by (intro conjI impI fresh getters_unchanged createUniformBuffer_tables
        createUniformBindGroup_tables createPipeline_tables loadImageTexture_tables
        loadVideoTexture_tables createSampler_tables createTextureBindGroup_tables
        keeps_all_tables destroy_tables)
qed

theorem getters_present_or_absent_witness:
  "getUniformBuffer ''u'' sample_initialized = (Inr None, sample_initialized)
   \<and> (\<exists>s'. loadVideoTexture (VideoUrl ''clip.mp4'') \<lparr>tex_label = None, generateMips = False\<rparr>
               sample_initialized = (Inr (Some (DeviceTexture 0 ''video_texture'')), s')
         \<and> getTexture ''clip.mp4'' s' = (Inr (Some (DeviceTexture 0 ''video_texture'')), s')
         \<and> getTexture ''other.mp4'' s' = (Inr None, s'))
   \<and> (\<exists>s'. createUniformBuffer ''u'' 96 None sample_initialized
               = (Inr (Some (GPUBuffer 0 ''u'' 256)), s')
         \<and> getUniformBuffer ''u'' s' = (Inr (Some (GPUBuffer 0 ''u'' 256)), s')
         \<and> getUniformBuffer ''v'' s' = (Inr None, s')
         \<and> getSampler ''u'' s' = (Inr None, s'))
   \<and> the_samplers sample_postprocessor ''default'' \<noteq> None
   \<and> (\<exists>r s'. createTextureBindGroup (GPUBindGroupLayout 9 ''layout'')
                 (DeviceTexture 0 ''main_render_target'') None None sample_postprocessor = (r, s')
         \<and> getSampler ''default'' s' = (Inr (Some (GPUSampler 4 ''default'')), s'))"
  using getters_present_or_absent[where s=sample_initialized and l="''u''" and sz=96
      and init=None and k="''u''"]
    getters_present_or_absent[where s=sample_postprocessor and smp=None and lo=None
      and t="DeviceTexture 0 ''main_render_target''" and layout="GPUBindGroupLayout 9 ''layout''"]
  by (simp add: getUniformBuffer_def getSampler_def createUniformBuffer_def
      createTextureBindGroup_def getOrCreateDefaultSampler_def table_defs
      loadVideoTexture_def createTextureFromVideo_def getTexture_def or_default_def
      js_eval sample_defs sample_postprocessor_def alignedSize_def)

section \<open>How the methods fail\<close>

lemmas fail_eval = fails_by_null_def fails_by_false_def quiet_but_def new_calls_def js_eval

lemma creation_fails_by_null:
  "fails_by_null (\<lambda>c. False) (createUniformBuffer l sz init) s"
  "fails_by_null (\<lambda>c. False) (createUniformBindGroup l layout ub tex smp) s"
  "fails_by_null (\<lambda>c. False) (createSampler l) s"
  "fails_by_null (\<lambda>c. False) (createTextureFromImage img topts) s"
  "fails_by_null (\<lambda>c. case c of CopyExternalImageToTexture t \<Rightarrow> True | _ \<Rightarrow> False)
     (createTextureFromVideo img topts) s"
  "fails_by_null (\<lambda>c. False) (createRenderTarget lo) s"
  "fails_by_null (\<lambda>c. False) (createShaderModule l src) s"
  "fails_by_null (\<lambda>c. False) (createBindGroupLayout l) s"
  "fails_by_null (\<lambda>c. False) createUniformBindGroupLayout s"
  by (auto simp: createUniformBuffer_def createUniformBindGroup_def createSampler_def
        createTextureFromImage_def createTextureFromVideo_def createRenderTarget_def
        createShaderModule_def createBindGroupLayout_def createUniformBindGroupLayout_def
        fail_eval
      split: option.splits sum.splits if_splits prod.splits)

lemma creation_fails_by_null2:
  "fails_by_null (\<lambda>c. False) (loadImageTexture url topts) s"
  "fails_by_null (\<lambda>c. False) (createTextureBindGroup layout t smp lo) s"
  by (auto simp: loadImageTexture_def createTextureFromImage_def
        createTextureBindGroup_def getOrCreateDefaultSampler_def createSampler_def
        fail_eval
      split: option.splits sum.splits if_splits prod.splits)

lemma boolean_fails_by_false:
  "fails_by_false (updateUniformBuffer l data off) s"
  "fails_by_false (setEffectEnabled ident e) ps"
  "device (gpu s) = None \<Longrightarrow> fails_by_false WebGPUContext_initialize s"
  by (auto simp: updateUniformBuffer_def setEffectEnabled_def WebGPUContext_initialize_def
        fail_eval
      split: option.splits sum.splits if_splits prod.splits)

lemma Podium_updateUniforms_fails_by_false:
  "fails_by_false (Podium_updateUniforms ident data) s"
  by (auto simp: Podium_updateUniforms_def updateUniformBuffer_def fail_eval
      split: option.splits sum.splits if_splits prod.splits)

text \<open>
  What each step of \<^verbatim>\<open>createPipeline\<close> does to the console and to the device's list of
  calls, by the way the step ends.
\<close>

lemma pipeline_steps_end:
  "createShaderModule l src s = (r1, s1) \<Longrightarrow>
     length (console s) \<le> length (console s1)
     \<and> (case r1 of Inl e \<Rightarrow> False
        | Inr None \<Rightarrow> True
        | Inr (Some h) \<Rightarrow>
            (\<exists>d i. device (gpu s) = Some d
               \<and> device (gpu s1) = Some (d\<lparr>nextId := Suc (nextId d),
                    calls := calls d @ [(CreateShaderModule l src, Made i)]\<rparr>)))"
  "checkCompilation info kind s = (r2, s2) \<Longrightarrow>
     length (console s) \<le> length (console s2) \<and> device (gpu s2) = device (gpu s)
     \<and> (case r2 of Inl e \<Rightarrow> False
        | Inr b \<Rightarrow> b \<longrightarrow> length (console s) < length (console s2))"
  "createDefaultBindGroupLayout s = (r3, s3) \<Longrightarrow>
     console s3 = console s
     \<and> (case r3 of Inr (Some h) \<Rightarrow>
            (\<exists>d i. device (gpu s) = Some d
               \<and> device (gpu s3) = Some (d\<lparr>nextId := Suc (nextId d),
                    calls := calls d @ [(CreateBindGroupLayout ''default_bind_group_layout'',
                                          Made i)]\<rparr>))
        | _ \<Rightarrow> True)"
  "native_new c s = (r4, s4) \<Longrightarrow>
     console s4 = console s
     \<and> (case r4 of Inr i \<Rightarrow>
            (\<exists>d. device (gpu s) = Some d
               \<and> device (gpu s4) = Some (d\<lparr>nextId := Suc (nextId d),
                    calls := calls d @ [(c, Made i)]\<rparr>))
        | _ \<Rightarrow> True)"
  by (auto simp: createShaderModule_def checkCompilation_def createDefaultBindGroupLayout_def
        js_eval split: option.splits sum.splits if_splits prod.splits)

lemma createPipeline_fails_by_null:
  "fails_by_null (\<lambda>c. False) (createPipeline l shader popts) s"
proof (cases "device (gpu s) = None")
  case True
  then show ?thesis by (simp add: fails_by_null_def createPipeline_def)
next
  case False
  obtain r s' where run: "createPipeline l shader popts s = (r, s')"
    by (cases "createPipeline l shader popts s")
  note r' = run[unfolded createPipeline_def if_not_P[OF False]]
  have "case r of Inl e \<Rightarrow> False
        | Inr None \<Rightarrow> length (console s) < length (console s')
        | Inr (Some h) \<Rightarrow> quiet_but (\<lambda>c. False) (new_calls s s')"
    using r'
    apply (elim js_catch_cases)
    apply ((elim js_bind_cases
            | simp split: option.splits if_splits list.splits
            | (auto simp: Let_def quiet_but_def new_calls_def dest!: pipeline_steps_end; fail))+)
    done
  with run False show ?thesis by (simp add: fails_by_null_def split: sum.splits option.splits)
qed

text \<open>
  C4, as stated, fails in four ways. \<^verbatim>\<open>beginRenderToTexture\<close> on a post-processor that has
  no render target throws a \<^verbatim>\<open>TypeError\<close> to the caller. \<^verbatim>\<open>updateEffect\<close> returns \<^verbatim>\<open>true\<close> on
  a call whose only device call, the uniform write, threw. \<^verbatim>\<open>createStandardUniformLayout\<close>
  lets the exception of the device through. \<^verbatim>\<open>createSampler\<close> without a device returns
  \<^verbatim>\<open>null\<close> and logs nothing.
\<close>

theorem failure_not_uniform_counterexample:
  "beginRenderToTexture fresh_postprocessor = (Inl TypeError, fresh_postprocessor)
   \<and> (\<exists>s'. updateEffect ''blur'' [''intensity'' \<mapsto> JsNumber (Fin 2)] broken_postprocessor
               = (Inr True, s')
          \<and> map snd (new_calls broken_postprocessor s') = [Threw]
          \<and> console s' = [ConsoleError ''Error updating uniform buffer blur_uniforms''])
   \<and> fst (createStandardUniformLayout broken_postprocessor)
       = Inl (OperationError (CreateBindGroupLayout ''standard_uniform_layout''))
   \<and> createSampler ''default'' (sample_podium False) = (Inr None, sample_podium False)"
  by (simp add: beginRenderToTexture_def updateEffect_def updateEffectUniforms_def
      updateUniformBuffer_def serializeUniformData_def typed_set_def createIdentityMatrix_def
      createStandardUniformLayout_def createSampler_def jsmap_get_def
      fresh_postprocessor_def broken_postprocessor_def broken_device_def
      sample_postprocessor_def sample_pass_def new_calls_def js_eval sample_defs)


text \<open>
  C4, amended: the methods of the managers whose body is a \<^verbatim>\<open>try\<close> never throw, whatever
  the device does. When one of them returns \<^verbatim>\<open>null\<close> on a context that has a device, or
  \<^verbatim>\<open>false\<close>, it has written to the console; when it returns a handle, or \<^verbatim>\<open>true\<close>, no
  device call it made threw (but the image copy of \<^verbatim>\<open>createTextureFromVideo\<close>, which that
  method catches and logs on its own).
\<close>

theorem tried_methods_fail_by_null_or_false:
  fixes s :: "'a Core_scheme" and p :: Podium and ps :: "'b PostProcessor_scheme"
  shows
   "fails_by_null (\<lambda>c. False) (createUniformBuffer l sz init) s
  \<and> fails_by_null (\<lambda>c. False) (createUniformBindGroup l layout ub tex smp) s
  \<and> fails_by_null (\<lambda>c. False) (createSampler l) s
  \<and> fails_by_null (\<lambda>c. False) (createTextureFromImage img topts) s
  \<and> fails_by_null (\<lambda>c. case c of CopyExternalImageToTexture t \<Rightarrow> True | _ \<Rightarrow> False)
       (createTextureFromVideo img topts) s
  \<and> fails_by_null (\<lambda>c. False) (loadImageTexture url topts) s
  \<and> fails_by_null (\<lambda>c. False) (createRenderTarget lo) s
  \<and> fails_by_null (\<lambda>c. False) (createTextureBindGroup layout t smp lo) s
  \<and> fails_by_null (\<lambda>c. False) (createShaderModule l src) s
  \<and> fails_by_null (\<lambda>c. False) (createBindGroupLayout l) s
  \<and> fails_by_null (\<lambda>c. False) createUniformBindGroupLayout s
  \<and> fails_by_null (\<lambda>c. False) (createPipeline l shader popts) s
  \<and> fails_by_false (updateUniformBuffer l data off) s
  \<and> fails_by_false (Podium_updateUniforms ident data) p
  \<and> fails_by_false (setEffectEnabled ident e) ps"
  by (intro conjI creation_fails_by_null creation_fails_by_null2 createPipeline_fails_by_null
      boolean_fails_by_false Podium_updateUniforms_fails_by_false)

theorem tried_methods_fail_by_null_or_false_witness:
  "(\<exists>s'. createSampler ''noise'' broken_postprocessor = (Inr None, s')
         \<and> map snd (new_calls broken_postprocessor s') = [Threw]
         \<and> console s' = [ConsoleError ''Error creating sampler noise''])
   \<and> (\<exists>s'. createSampler ''noise'' sample_postprocessor = (Inr (Some (GPUSampler 40 ''noise'')), s')
         \<and> new_calls sample_postprocessor s' = [(CreateSampler ''noise'', Made 40)])
   \<and> (\<exists>s'. updateUniformBuffer ''blur_uniforms'' Map.empty 0 broken_postprocessor = (Inr False, s')
         \<and> console s' = [ConsoleError ''Error updating uniform buffer blur_uniforms''])"
  using tried_methods_fail_by_null_or_false[where s=broken_postprocessor and l="''noise''"]
    tried_methods_fail_by_null_or_false[where s=sample_postprocessor and l="''noise''"]
  by (simp add: createSampler_def updateUniformBuffer_def serializeUniformData_def typed_set_def
      createIdentityMatrix_def broken_postprocessor_def broken_device_def
      sample_postprocessor_def new_calls_def js_eval sample_defs)

section \<open>Podium.initialize\<close>

lemma upt2: "[0..<2] = [0, 1]"
  by (simp add: upt_rec numeral_eq_Suc)







section \<open>PostProcessor.initialize makes the post-processor ready\<close>

lemma same_targets_refl [simp]: "same_targets s s"
  by (simp add: same_targets_def ids_grow_def split: option.splits)

lemma same_targets_trans: "same_targets a b \<Longrightarrow> same_targets b c \<Longrightarrow> same_targets a c"
  by (auto simp: same_targets_def ids_grow_def split: option.splits)

lemma same_targets_bind:
  assumes "same_targets s (snd (m s))"
    and "\<And>x s1. m s = (Inr x, s1) \<Longrightarrow> same_targets s1 (snd (f x s1))"
  shows "same_targets s (snd (js_bind m f s))"
proof (cases "m s")
  case (Pair r s1)
  show ?thesis
  proof (cases r)
    case (Inl e)
    with Pair assms(1) show ?thesis by (simp add: js_bind_def)
  next
    case (Inr x)
    with Pair assms(1) assms(2)[of x s1] show ?thesis
      by (auto simp: js_bind_def intro: same_targets_trans)
  qed
qed

lemma same_targets_catch:
  assumes "same_targets s (snd (m s))"
    and "\<And>e s1. m s = (Inl e, s1) \<Longrightarrow> same_targets s1 (snd (h e s1))"
  shows "same_targets s (snd (js_catch m h s))"
proof (cases "m s")
  case (Pair r s1)
  show ?thesis
  proof (cases r)
    case (Inr x)
    with Pair assms(1) show ?thesis by (simp add: js_catch_def)
  next
    case (Inl e)
    with Pair assms(1) assms(2)[of e s1] show ?thesis
      by (auto simp: js_catch_def intro: same_targets_trans)
  qed
qed

lemma same_targets_only_logs:
  fixes s :: "'a PostProcessor_scheme"
  assumes "only_logs P s s'"
  shows "same_targets s s'"
  using only_logs_PostProcessor[OF assms] only_logs_frame(2)[OF assms] sound_only_logs[OF _ assms]
    assms
  by (auto simp: same_targets_def ids_grow_def only_logs_def device_grows_def split: option.splits)

lemma same_targets_native_new:
  fixes s :: "'a PostProcessor_scheme"
  shows "same_targets s (snd (native_new c s))"
  using only_logs_native_new[of "\<lambda>c. True" c s] by (simp add: same_targets_only_logs)

lemma same_targets_native_do:
  fixes s :: "'a PostProcessor_scheme"
  shows "same_targets s (snd (native_do c s))"
  using only_logs_native_do[of "\<lambda>c. True" c s] by (simp add: same_targets_only_logs)

lemma same_targets_console [simp]:
  "same_targets s (s\<lparr>console := ls\<rparr>)"
  by (simp add: same_targets_def sound_def ids_grow_def split: option.splits)

lemma same_targets_managers [simp]:
  "same_targets s (shaderManager_update f s)"
  "same_targets s (uniformManager_update g s)"
  "same_targets s (s\<lparr>passes := ps\<rparr>)"
  by (simp_all add: same_targets_def sound_def ids_grow_def split: option.splits)

lemma same_targets_updateUniformBuffer:
  fixes s :: "'a PostProcessor_scheme"
  shows "same_targets s (snd (updateUniformBuffer l data off s))"
  using only_logs_updateUniformBuffer[of "\<lambda>c. True" s l data off]
  by (simp add: same_targets_only_logs)

lemma same_targets_createShaderModule:
  fixes s :: "'a PostProcessor_scheme"
  shows "same_targets s (snd (createShaderModule l src s))"
  unfolding createShaderModule_def
  by (auto simp: Let_def split: option.splits
      intro!: same_targets_catch same_targets_bind same_targets_native_new)

lemma same_targets_checkCompilation:
  fixes s :: "'a PostProcessor_scheme"
  shows "same_targets s (snd (checkCompilation info kind s))"
  by (simp add: checkCompilation_def)

lemma same_targets_createDefaultBindGroupLayout:
  fixes s :: "'a PostProcessor_scheme"
  shows "same_targets s (snd (createDefaultBindGroupLayout s))"
  unfolding createDefaultBindGroupLayout_def
  by (auto simp: Let_def split: option.splits
      intro!: same_targets_catch same_targets_bind same_targets_native_new)

lemma same_targets_createUniformBuffer:
  fixes s :: "'a PostProcessor_scheme"
  shows "same_targets s (snd (createUniformBuffer l sz init s))"
  unfolding createUniformBuffer_def
  by (auto simp: Let_def split: option.splits
      intro!: same_targets_catch same_targets_bind same_targets_native_new
        same_targets_native_do)


lemma same_targets_createPipeline:
  fixes s :: "'a PostProcessor_scheme"
  shows "same_targets s (snd (createPipeline l shader popts s))"
  unfolding createPipeline_def
  by (auto simp: Let_def split: option.splits list.splits
      intro!: same_targets_catch same_targets_bind same_targets_native_new
        same_targets_createShaderModule same_targets_checkCompilation
        same_targets_createDefaultBindGroupLayout)

lemma same_targets_createPostProcessBindGroupLayout:
  "same_targets s (snd (createPostProcessBindGroupLayout s))"
  unfolding createPostProcessBindGroupLayout_def
  by (auto simp: Let_def split: option.splits
      intro!: same_targets_bind same_targets_native_new)

lemma same_targets_createPostProcessBindGroup:
  "same_targets s (snd (createPostProcessBindGroup layout ub tex smp s))"
  unfolding createPostProcessBindGroup_def
  by (auto simp: Let_def createView_def split: option.splits
      intro!: same_targets_bind same_targets_native_new)

lemma same_targets_addEffect:
  "same_targets s (snd (addEffect ident shader options s))"
  unfolding addEffect_def
  by (auto simp: Let_def updateEffectUniforms_def getSampler_def split: option.splits
      intro!: same_targets_catch same_targets_bind same_targets_createUniformBuffer
        same_targets_updateUniformBuffer same_targets_createPostProcessBindGroupLayout
        same_targets_createPipeline same_targets_createPostProcessBindGroup)





lemma new_Plane_sound:
  assumes "sound s"
  shows "\<exists>quad s'. new_Plane w h s = (Inr quad, s') \<and> only_logs (\<lambda>c. True) s s'"
proof -
  from native_new_sound[OF assms, of "\<lambda>c. True"
      "CreateBuffer [] (int ((w + 1) * (h + 1) * 5 * 4)) True"]
  obtain i s1 where a: "native_new (CreateBuffer [] (int ((w + 1) * (h + 1) * 5 * 4)) True) s
      = (Inr i, s1)" and l1: "only_logs (\<lambda>c. True) s s1" by auto
  from sound_only_logs[OF assms l1] have "sound s1" .
  from native_new_sound[OF this, of "\<lambda>c. True" "CreateBuffer [] (int (6 * w * h * 2)) True"]
  obtain j s2 where b: "native_new (CreateBuffer [] (int (6 * w * h * 2)) True) s1 = (Inr j, s2)"
    and l2: "only_logs (\<lambda>c. True) s1 s2" by auto
  from a b sound_device[OF assms] only_logs_trans[OF l1 l2] show ?thesis
    by (auto simp: new_Plane_def Let_def js_bind_def)
qed



section \<open>PostProcessor: a ready post-processor stays ready\<close>













text \<open>
  \<^verbatim>\<open>createRenderTargets\<close> on a sound state: the four textures are the next four objects of the
  device, and the two temporary targets are pushed after those already there.
\<close>

lemma createRenderTargets_ids:
  fixes s :: "'a PostProcessor_scheme"
  assumes "sound s" and "device (gpu s) = Some d"
  shows "\<exists>s' d'. createRenderTargets s = (Inr (), s') \<and> sound s'
      \<and> renderTarget s' = Some (DeviceTexture (nextId d) ''main_render_target'')
      \<and> depthTexture s' = Some (DeviceTexture (nextId d + 1) ''depth_texture'')
      \<and> tempTargets s' = tempTargets s
           @ [DeviceTexture (nextId d + 2) ''temp_render_target_0'',
              DeviceTexture (nextId d + 3) ''temp_render_target_1'']
      \<and> textureManager s' = textureManager s \<and> fullscreenQuad s' = fullscreenQuad s
      \<and> passes s' = passes s
      \<and> device (gpu s') = Some d' \<and> nextId d' = nextId d + 4"
  using assms
  by (auto simp: createRenderTargets_def upt2 sound_def js_eval)




section \<open>PostProcessor: what a second initialize leaves\<close>

lemma createUniformBuffer_sound:
  assumes "sound s"
  shows "\<exists>i s'. createUniformBuffer l sz None s = (Inr (Some (GPUBuffer i l (alignedSize sz))), s')
      \<and> only_managers allocates_no_texture s s' \<and> textureManager s' = textureManager s"
proof -
  from native_new_sound[OF assms, of allocates_no_texture "CreateBuffer l (alignedSize sz) False"]
  obtain i s1 where n: "native_new (CreateBuffer l (alignedSize sz) False) s = (Inr i, s1)"
    and l1: "only_logs allocates_no_texture s s1" by auto
  let ?s' = "uniformManager_update
      (uniformBuffers_update (\<lambda>m. m(l \<mapsto> GPUBuffer i l (alignedSize sz)))) s1"
  have "createUniformBuffer l sz None s = (Inr (Some (GPUBuffer i l (alignedSize sz))), ?s')"
    using sound_device[OF assms]
    by (simp add: createUniformBuffer_def js_catch_def js_bind_def Let_def n)
  moreover have "only_managers allocates_no_texture s ?s'"
    using only_logs_managers[OF l1] only_managers_update(3) by (rule only_managers_trans)
  moreover have "textureManager ?s' = textureManager s"
    using only_logs_frame[OF l1] by simp
  ultimately show ?thesis by blast
qed

text \<open>
  \<^verbatim>\<open>addEffect\<close> on a sound state with a quad, a default sampler and a scene target: it
  returns \<^verbatim>\<open>true\<close> and sets the pass, disabled, under the effect's name.
\<close>

lemma addEffect_sound:
  fixes s :: "'a PostProcessor_scheme"
  assumes snd: "sound s" and quad: "fullscreenQuad s = Some quad"
    and smp: "samplers (textureManager s) ''default'' = Some sampler"
    and rt: "renderTarget s = Some rt"
  shows "\<exists>pass s'. addEffect ident shader options s = (Inr True, s')
      \<and> passes s' = jsmap_set ident pass (passes s) \<and> \<not> enabled pass"
proof -
  from createUniformBuffer_sound[OF snd, of "ident @ ''_uniforms''" 256]
  obtain i s1 where ub: "createUniformBuffer (ident @ ''_uniforms'') 256 None s
        = (Inr (Some (GPUBuffer i (ident @ ''_uniforms'') (alignedSize 256))), s1)"
    and m1: "only_managers allocates_no_texture s s1"
    and t1: "textureManager s1 = textureManager s" by blast
  have snd1: "sound s1" using snd m1 by (rule sound_only_managers)
  note f1 = only_managers_PostProcessor[OF m1]
  obtain b s2 where up: "updateEffectUniforms ident options s1 = (Inr b, s2)"
    using updateEffectUniforms_returns by blast
  have l2: "only_logs allocates_no_texture s1 s2"
    using only_logs_updateEffectUniforms[of s1 ident options] up by simp
  have snd2: "sound s2" using snd1 l2 by (rule sound_only_logs)
  note f2 = only_logs_PostProcessor[OF l2] only_logs_frame(2)[OF l2]
  from createPostProcessBindGroupLayout_sound[OF snd2]
  obtain j s3 where lay: "createPostProcessBindGroupLayout s2
           = (Inr (Some (GPUBindGroupLayout j ''postprocess_bind_group_layout'')), s3)"
    and l3: "only_logs allocates_no_texture s2 s3" by blast
  have snd3: "sound s3" using snd2 l3 by (rule sound_only_logs)
  note f3 = only_logs_PostProcessor[OF l3] only_logs_frame(2)[OF l3]
  let ?layout = "GPUBindGroupLayout j ''postprocess_bind_group_layout''"
  from createPipeline_sound[OF snd3, of "ident @ ''_postprocess''" shader ?layout "[]" False]
  obtain p s4 where pl: "createPipeline (ident @ ''_postprocess'') shader
           \<lparr>opt_bindGroupLayouts = Some [?layout], opt_depthTest = False\<rparr> s3 = (Inr (Some p), s4)"
    and m4: "only_managers allocates_no_texture s3 s4"
    and t4: "textureManager s4 = textureManager s3"
    by blast
  have snd4: "sound s4" using snd3 m4 by (rule sound_only_managers)
  note f4 = only_managers_PostProcessor[OF m4]
  have smp4: "samplers (textureManager s4) ''default'' = Some sampler"
    using smp t1 f2(8) f3(8) t4 by simp
  have rt4: "renderTarget s4 = Some rt" using rt f1(1) f2(1) f3(1) f4(1) by simp
  let ?ub = "GPUBuffer i (ident @ ''_uniforms'') (alignedSize 256)"
  from createPostProcessBindGroup_sound[OF snd4, of ?layout "Some ?ub" rt sampler]
  obtain k s5 where bg: "createPostProcessBindGroup ?layout (Some ?ub) (Some rt) sampler s4
           = (Inr (Some (GPUBindGroup k (Some ''postprocess_bind_group'') ?layout
                 [(0, BufferBinding (Some ?ub)), (1, ViewBinding (GPUTextureView rt)),
                  (2, SamplerBinding sampler)])), s5)"
    and l5: "only_logs allocates_no_texture s4 s5" by blast
  note f5 = only_logs_PostProcessor[OF l5]
  let ?pass = "\<lparr>pass_id = ident, pass_shader = shader, pass_pipeline = p,
      pass_bindGroup = GPUBindGroup k (Some ''postprocess_bind_group'') ?layout
                 [(0, BufferBinding (Some ?ub)), (1, ViewBinding (GPUTextureView rt)),
                  (2, SamplerBinding sampler)],
      pass_uniformBuffer = Some ?ub, enabled = False, pass_options = options\<rparr>"
  let ?s' = "s5\<lparr>passes := jsmap_set ident ?pass (passes s5)\<rparr>"
  have run: "addEffect ident shader options s = (Inr True, ?s')"
    using sound_device[OF snd] quad ub up lay pl smp4 rt4 bg
    by (simp add: addEffect_def js_catch_def js_bind_def getSampler_def)
  have "passes s5 = passes s" using f1(4) f2(4) f3(4) f4(4) f5(4) by simp
  then have "passes ?s' = jsmap_set ident ?pass (passes s)" by simp
  moreover have "\<not> enabled ?pass" by simp
  ultimately show ?thesis using run by blast
qed

lemma initializeBuiltInEffects_sound:
  fixes s :: "'a PostProcessor_scheme"
  assumes snd: "sound s" and quad: "fullscreenQuad s = Some quad"
    and smp: "samplers (textureManager s) ''default'' = Some sampler"
    and rt: "renderTarget s = Some rt"
  shows "\<exists>p1 p2 p3 p4 p5 s'. initializeBuiltInEffects s = (Inr (), s')
      \<and> same_targets s s'
      \<and> passes s' = jsmap_set ''filmGrain'' p5 (jsmap_set ''vignette'' p4
           (jsmap_set ''colorCorrection'' p3 (jsmap_set ''bloom'' p2
           (jsmap_set ''blur'' p1 (passes s)))))"
proof -
  have step: "\<exists>pass s'. addEffect ident shader options s = (Inr True, s')
      \<and> passes s' = jsmap_set ident pass (passes s)
      \<and> sound s' \<and> fullscreenQuad s' = Some quad
      \<and> samplers (textureManager s') ''default'' = Some sampler
      \<and> renderTarget s' = Some rt \<and> same_targets s s'"
    if "sound s" "fullscreenQuad s = Some quad"
      "samplers (textureManager s) ''default'' = Some sampler" "renderTarget s = Some rt"
    for ident shader options and s :: "'a PostProcessor_scheme"
  proof -
    from addEffect_sound[OF that, of ident shader options]
    obtain pass s' where a: "addEffect ident shader options s = (Inr True, s')"
      "passes s' = jsmap_set ident pass (passes s)" by blast
    from same_targets_addEffect[of s ident shader options] a(1)
    have st: "same_targets s s'" by simp
    with that have "sound s'" "fullscreenQuad s' = Some quad"
      "samplers (textureManager s') ''default'' = Some sampler" "renderTarget s' = Some rt"
      by (simp_all add: same_targets_def)
    with a st show ?thesis by blast
  qed
  from step[OF assms, of "''blur''" getBlurShader
      "[''intensity'' \<mapsto> JsNumber (Fin 1), ''radius'' \<mapsto> JsNumber (Fin 2)]"]
  obtain p1 s1 where a1: "addEffect ''blur'' getBlurShader
      [''intensity'' \<mapsto> JsNumber (Fin 1), ''radius'' \<mapsto> JsNumber (Fin 2)] s = (Inr True, s1)"
    and q1: "passes s1 = jsmap_set ''blur'' p1 (passes s)"
    and i1: "sound s1" "fullscreenQuad s1 = Some quad"
      "samplers (textureManager s1) ''default'' = Some sampler" "renderTarget s1 = Some rt"
    and k1: "same_targets s s1" by blast
  from step[OF i1, of "''bloom''" getBloomShader
      "[''intensity'' \<mapsto> JsNumber (Fin (8 / 10)), ''threshold'' \<mapsto> JsNumber (Fin (7 / 10))]"]
  obtain p2 s2 where a2: "addEffect ''bloom'' getBloomShader
      [''intensity'' \<mapsto> JsNumber (Fin (8 / 10)), ''threshold'' \<mapsto> JsNumber (Fin (7 / 10))] s1
        = (Inr True, s2)"
    and q2: "passes s2 = jsmap_set ''bloom'' p2 (passes s1)"
    and i2: "sound s2" "fullscreenQuad s2 = Some quad"
      "samplers (textureManager s2) ''default'' = Some sampler" "renderTarget s2 = Some rt"
    and k2: "same_targets s1 s2" by blast
  from step[OF i2, of "''colorCorrection''" getColorCorrectionShader
      "[''brightness'' \<mapsto> JsNumber (Fin 0), ''contrast'' \<mapsto> JsNumber (Fin 1),
        ''saturation'' \<mapsto> JsNumber (Fin 1), ''hue'' \<mapsto> JsNumber (Fin 0)]"]
  obtain p3 s3 where a3: "addEffect ''colorCorrection'' getColorCorrectionShader
      [''brightness'' \<mapsto> JsNumber (Fin 0), ''contrast'' \<mapsto> JsNumber (Fin 1),
       ''saturation'' \<mapsto> JsNumber (Fin 1), ''hue'' \<mapsto> JsNumber (Fin 0)] s2 = (Inr True, s3)"
    and q3: "passes s3 = jsmap_set ''colorCorrection'' p3 (passes s2)"
    and i3: "sound s3" "fullscreenQuad s3 = Some quad"
      "samplers (textureManager s3) ''default'' = Some sampler" "renderTarget s3 = Some rt"
    and k3: "same_targets s2 s3" by blast
  from step[OF i3, of "''vignette''" getVignetteShader
      "[''intensity'' \<mapsto> JsNumber (Fin (5 / 10)), ''radius'' \<mapsto> JsNumber (Fin (8 / 10))]"]
  obtain p4 s4 where a4: "addEffect ''vignette'' getVignetteShader
      [''intensity'' \<mapsto> JsNumber (Fin (5 / 10)), ''radius'' \<mapsto> JsNumber (Fin (8 / 10))] s3
        = (Inr True, s4)"
    and q4: "passes s4 = jsmap_set ''vignette'' p4 (passes s3)"
    and i4: "sound s4" "fullscreenQuad s4 = Some quad"
      "samplers (textureManager s4) ''default'' = Some sampler" "renderTarget s4 = Some rt"
    and k4: "same_targets s3 s4" by blast
  from step[OF i4, of "''filmGrain''" getFilmGrainShader
      "[''intensity'' \<mapsto> JsNumber (Fin (1 / 10)), ''time'' \<mapsto> JsNumber (Fin 0)]"]
  obtain p5 s5 where a5: "addEffect ''filmGrain'' getFilmGrainShader
      [''intensity'' \<mapsto> JsNumber (Fin (1 / 10)), ''time'' \<mapsto> JsNumber (Fin 0)] s4
        = (Inr True, s5)"
    and q5: "passes s5 = jsmap_set ''filmGrain'' p5 (passes s4)"
    and k5: "same_targets s4 s5" by blast
  have run: "initializeBuiltInEffects s = (Inr (), s5)"
    using a1 a2 a3 a4 a5 by (simp add: initializeBuiltInEffects_def js_bind_def)
  have "same_targets s s5"
    using k1 k2 k3 k4 k5 by (blast intro: same_targets_trans)
  moreover have "passes s5 = jsmap_set ''filmGrain'' p5 (jsmap_set ''vignette'' p4
           (jsmap_set ''colorCorrection'' p3 (jsmap_set ''bloom'' p2
           (jsmap_set ''blur'' p1 (passes s)))))"
    using q1 q2 q3 q4 q5 by simp
  ultimately show ?thesis using run by blast
qed

text \<open>
  \<^verbatim>\<open>initialize\<close> on a sound state, whatever the post-processor held before: it returns
  \<^verbatim>\<open>true\<close>; the scene target is a new texture, the temporary targets are those already
  there followed by two new textures, and the five built-in effects are set.
\<close>

lemma PostProcessor_initialize_again:
  fixes s :: "'a PostProcessor_scheme"
  assumes snd: "sound s" and dev: "device (gpu s) = Some d"
  shows "\<exists>s' d' p1 p2 p3 p4 p5. PostProcessor_initialize w h s = (Inr True, s')
      \<and> sound s' \<and> fullscreenQuad s' \<noteq> None
      \<and> samplers (textureManager s') ''default'' \<noteq> None
      \<and> renderTarget s' = Some (DeviceTexture (nextId d) ''main_render_target'')
      \<and> tempTargets s' = tempTargets s
           @ [DeviceTexture (nextId d + 2) ''temp_render_target_0'',
              DeviceTexture (nextId d + 3) ''temp_render_target_1'']
      \<and> device (gpu s') = Some d' \<and> nextId d + 4 \<le> nextId d'
      \<and> passes s' = jsmap_set ''filmGrain'' p5 (jsmap_set ''vignette'' p4
           (jsmap_set ''colorCorrection'' p3 (jsmap_set ''bloom'' p2
           (jsmap_set ''blur'' p1 (passes s)))))"
proof -
  let ?s0 = "s\<lparr>width := w, height := h\<rparr>"
  have snd0: "sound ?s0" "device (gpu ?s0) = Some d" using snd dev by (simp_all add: sound_def)
  from createRenderTargets_ids[OF snd0]
  obtain s1 d1 where crt: "createRenderTargets ?s0 = (Inr (), s1)" and snd1: "sound s1"
    and t1: "renderTarget s1 = Some (DeviceTexture (nextId d) ''main_render_target'')"
      "tempTargets s1 = tempTargets s
           @ [DeviceTexture (nextId d + 2) ''temp_render_target_0'',
              DeviceTexture (nextId d + 3) ''temp_render_target_1'']"
      "passes s1 = passes s"
    and d1: "device (gpu s1) = Some d1" "nextId d1 = nextId d + 4"
    by auto
  have "\<exists>x s2. (case samplers (textureManager s1) ''default'' of
                   Some x \<Rightarrow> js_return (Some x)
                 | None \<Rightarrow> createSampler ''default'') s1 = (Inr (Some x), s2)
          \<and> sound s2 \<and> samplers (textureManager s2) ''default'' = Some x
          \<and> only_managers allocates_no_texture s1 s2"
  proof (cases "samplers (textureManager s1) ''default''")
    case (Some x)
    with snd1 show ?thesis by simp
  next
    case None
    from createSampler_sound[OF snd1, of "''default''"]
    obtain k s2 where c: "createSampler ''default'' s1 = (Inr (Some (GPUSampler k ''default'')), s2)"
      and m: "only_managers allocates_no_texture s1 s2"
      and sm: "samplers (textureManager s2)
                 = (samplers (textureManager s1))(''default'' \<mapsto> GPUSampler k ''default'')"
      by blast
    from sound_only_managers[OF snd1 m] c sm m None
    show ?thesis by simp
  qed
  then obtain x s2 where smp: "(case samplers (textureManager s1) ''default'' of
                   Some x \<Rightarrow> js_return (Some x)
                 | None \<Rightarrow> createSampler ''default'') s1 = (Inr (Some x), s2)"
    and snd2: "sound s2" and d2: "samplers (textureManager s2) ''default'' = Some x"
    and m2: "only_managers allocates_no_texture s1 s2"
    by blast
  note f2 = only_managers_PostProcessor[OF m2]
  from new_Plane_sound[OF snd2, of 1 1]
  obtain quad s3 where pl: "new_Plane 1 1 s2 = (Inr quad, s3)"
    and l3: "only_logs (\<lambda>c. True) s2 s3" by blast
  note f3 = only_logs_PostProcessor[OF l3] only_logs_frame(2)[OF l3]
  let ?s4 = "s3\<lparr>fullscreenQuad := Some quad\<rparr>"
  have i4: "sound ?s4" "fullscreenQuad ?s4 = Some quad"
    "samplers (textureManager ?s4) ''default'' = Some x"
    "renderTarget ?s4 = Some (DeviceTexture (nextId d) ''main_render_target'')"
    using sound_only_logs[OF snd2 l3] d2 f3 f2 t1 by (simp_all add: sound_def)
  from initializeBuiltInEffects_sound[OF i4]
  obtain p1 p2 p3 p4 p5 s5 where fx: "initializeBuiltInEffects ?s4 = (Inr (), s5)"
    and keep: "same_targets ?s4 s5"
    and ps: "passes s5 = jsmap_set ''filmGrain'' p5 (jsmap_set ''vignette'' p4
           (jsmap_set ''colorCorrection'' p3 (jsmap_set ''bloom'' p2
           (jsmap_set ''blur'' p1 (passes ?s4)))))"
    by blast
  have run: "PostProcessor_initialize w h s = (Inr True, s5)"
    using sound_device[OF snd] crt smp pl fx
    by (simp add: PostProcessor_initialize_def js_bind_def getSampler_def)
  have g12: "device_grows allocates_no_texture (device (gpu s1)) (device (gpu s2))"
    using only_managers_frame(8)[OF m2] .
  have g23: "device_grows (\<lambda>c. True) (device (gpu s2)) (device (gpu s3))"
    using only_logs_frame(11)[OF l3] .
  from keep have g45: "ids_grow (device (gpu ?s4)) (device (gpu s5))"
    by (simp add: same_targets_def)
  from d1 g12 g23 g45 obtain d5 where d5: "device (gpu s5) = Some d5" "nextId d + 4 \<le> nextId d5"
    by (auto simp: device_grows_def ids_grow_def split: option.splits)
  from keep i4 have kept: "sound s5" "fullscreenQuad s5 \<noteq> None"
    "samplers (textureManager s5) ''default'' \<noteq> None"
    "renderTarget s5 = Some (DeviceTexture (nextId d) ''main_render_target'')"
    "tempTargets s5 = tempTargets s3"
    by (simp_all add: same_targets_def)
  have temps: "tempTargets s3 = tempTargets s
           @ [DeviceTexture (nextId d + 2) ''temp_render_target_0'',
              DeviceTexture (nextId d + 3) ''temp_render_target_1'']"
    using f3(3) f2(3) t1(2) by simp
  have "passes ?s4 = passes s" using f3(4) f2(4) t1(3) by simp
  with ps have ps': "passes s5 = jsmap_set ''filmGrain'' p5 (jsmap_set ''vignette'' p4
           (jsmap_set ''colorCorrection'' p3 (jsmap_set ''bloom'' p2
           (jsmap_set ''blur'' p1 (passes s)))))"
    by simp
  show ?thesis
    apply (rule exI[of _ s5], rule exI[of _ d5], rule exI[of _ p1], rule exI[of _ p2],
        rule exI[of _ p3], rule exI[of _ p4], rule exI[of _ p5])
    using run kept temps d5 ps' by simp
qed

section \<open>PostProcessor: the claim about the number of targets\<close>





end
